theory Spec2Isabelle
  imports Complex_Main
begin

section \<open>Exceptions, Python values and truthiness\<close>

text \<open>
  The exception classes the module raises, catches or lets through. In frappe
  \<^verbatim>\<open>DoesNotExistError\<close> and \<^verbatim>\<open>CheckinRadiusExceededError\<close> are subclasses of
  \<^verbatim>\<open>ValidationError\<close>; \<^verbatim>\<open>DuplicateEntryError\<close> and \<^verbatim>\<open>AuthenticationError\<close> are
  not. \<^verbatim>\<open>OtherException\<close> stands for any other subclass of \<^verbatim>\<open>Exception\<close>.
  Each carries its message, the value of \<^verbatim>\<open>str(e)\<close>.
\<close>

datatype exn =
    ValidationError string
  | DoesNotExistError string
  | CheckinRadiusExceededError string
  | DuplicateEntryError string
  | AuthenticationError string
  | ValueError string
  | TypeError string
  | IndexError string
  | OverflowError string
  | OtherException string

fun str_exn :: "exn \<Rightarrow> string" where
  "str_exn (ValidationError m) = m"
| "str_exn (DoesNotExistError m) = m"
| "str_exn (CheckinRadiusExceededError m) = m"
| "str_exn (DuplicateEntryError m) = m"
| "str_exn (AuthenticationError m) = m"
| "str_exn (ValueError m) = m"
| "str_exn (TypeError m) = m"
| "str_exn (IndexError m) = m"
| "str_exn (OverflowError m) = m"
| "str_exn (OtherException m) = m"

text \<open>\<^verbatim>\<open>except ValidationError\<close> catches the class and its subclasses.\<close>

fun is_ValidationError :: "exn \<Rightarrow> bool" where
  "is_ValidationError (ValidationError m) = True"
| "is_ValidationError (DoesNotExistError m) = True"
| "is_ValidationError (CheckinRadiusExceededError m) = True"
| "is_ValidationError e = False"

text \<open>
  The endpoints of \<^verbatim>\<open>mobile_app/api.py\<close> receive their arguments from an HTTP
  request: a form field arrives as a string, a JSON body can carry \<^verbatim>\<open>None\<close>,
  booleans, numbers and strings, and a multipart upload arrives as a
  file-storage object. Strings and byte strings are lists of \<^typ>\<open>char\<close>. A Python
  float is a finite value, modelled by the real number it denotes, an infinity or NaN
  (\<^verbatim>\<open>float("inf")\<close>, \<^verbatim>\<open>float("nan")\<close>, or \<^verbatim>\<open>1e400\<close> and \<^verbatim>\<open>NaN\<close> in a JSON body); the
  code compares floats and hands them on, it computes with none.
\<close>

type_synonym bytes = string

datatype pyfloat = Finite real | PosInf | NegInf | NaN

datatype pyval =
    PNone
  | PBool bool
  | PInt int
  | PFloat pyfloat
  | PStr string
  | PBytes bytes
  | PFileStorage string "exn + bytes"

text \<open>
  \<^verbatim>\<open>PFileStorage filename content\<close> is an uploaded file: it is truthy when its
  file name is not empty, and reading it yields \<^verbatim>\<open>content\<close>: the bytes, or the
  exception the read raises.
\<close>

fun truthy :: "pyval \<Rightarrow> bool" where
  "truthy PNone = False"
| "truthy (PBool b) = b"
| "truthy (PInt n) = (n \<noteq> 0)"
| "truthy (PFloat f) = (f \<noteq> Finite 0)"
| "truthy (PStr s) = (s \<noteq> [])"
| "truthy (PBytes b) = (b \<noteq> [])"
| "truthy (PFileStorage fname c) = (fname \<noteq> [])"

text \<open>\<^verbatim>\<open>not v\<close>.\<close>

definition falsy :: "pyval \<Rightarrow> bool" where
  "falsy v = (\<not> truthy v)"

text \<open>Truthiness of an optional string (\<^verbatim>\<open>None\<close> or \<^verbatim>\<open>str\<close>).\<close>

fun truthy_str :: "string option \<Rightarrow> bool" where
  "truthy_str None = False"
| "truthy_str (Some s) = (s \<noteq> [])"

text \<open>
  A computation that may raise returns \<^typ>\<open>exn + 'a\<close>; \<open>bind_exn\<close> runs the next
  statement only when the previous one returned.
\<close>

definition bind_exn :: "exn + 'a \<Rightarrow> ('a \<Rightarrow> exn + 'b) \<Rightarrow> exn + 'b" where
  "bind_exn m f = (case m of Inl e \<Rightarrow> Inl e | Inr x \<Rightarrow> f x)"

text \<open>\<^verbatim>\<open>str.lower()\<close> on the ASCII letters, the only characters that can produce
  the ASCII literals the code compares with.\<close>

definition lower_char :: "char \<Rightarrow> char" where
  "lower_char c =
     (let n = (of_char c :: nat) in if 65 \<le> n \<and> n \<le> 90 then char_of (n + 32) else c)"

definition lower :: "string \<Rightarrow> string" where
  "lower s = map lower_char s"

text \<open>\<^verbatim>\<open>str.startswith\<close>.\<close>

fun startswith :: "string \<Rightarrow> string \<Rightarrow> bool" where
  "startswith s [] = True"
| "startswith [] (p # ps) = False"
| "startswith (c # cs) (p # ps) = (c = p \<and> startswith cs ps)"

section \<open>Documents, the database and the collaborators\<close>

text \<open>
  The documents the module reads and writes through the framework's ORM, with the
  fields it touches. An attribute read with \<^verbatim>\<open>getattr(doc, f, None)\<close> or tested
  with \<^verbatim>\<open>hasattr\<close> is a \<^typ>\<open>pyval option\<close>: \<open>None\<close> when the document has no such
  attribute (the custom field is not installed), \<open>Some v\<close> when it has, \<open>v\<close> being
  \<open>PNone\<close> for an empty field.
\<close>

record user_doc =
  u_name :: string
  u_full_name :: "string option"
  u_email :: "string option"
  api_key :: "string option"
  api_secret :: "string option"

record employee =
  emp_name :: string
  emp_employee_name :: "string option"
  emp_employee_code :: "string option"
  emp_employee_number :: "string option"
  emp_company_email :: "string option"
  emp_company :: "string option"
  emp_department :: "string option"
  emp_branch :: "string option"

record company_doc =
  custom_attendnace_validations_based_on_department :: "pyval option"

record rule_fields =
  custom_required_to_upload_location_photo :: "pyval option"
  custom_required_to_upload_client_bio_metric_photo :: "pyval option"
  custom_required_location_check_on_check_out :: "pyval option"

record department_doc = rule_fields +
  custom_project :: "string option"

record branch_doc =
  custom_latitude :: "pyval option"
  custom_longitude :: "pyval option"
  custom_radius_in_meters :: "pyval option"
  branch_title :: "string option"

text \<open>
  A naive \<^verbatim>\<open>datetime\<close> is the number of microseconds since
  \<^verbatim>\<open>0001-01-01 00:00:00\<close> (\<^verbatim>\<open>datetime.min\<close>); an aware one carries its UTC offset
  in microseconds as well.
\<close>

record pydatetime =
  micros :: int
  utcoffset :: "int option"

record checkin =
  ci_name :: string
  ci_employee :: string
  ci_employee_name :: string
  ci_log_type :: string
  ci_time :: int
  ci_latitude :: "pyfloat option"
  ci_longitude :: "pyfloat option"
  ci_device_id :: "string option"
  ci_notes :: "string option"
  ci_shift :: "string option"
  ci_shift_start :: "int option"
  ci_shift_end :: "int option"
  ci_attendance :: "string option"
  ci_skip_auto_attendance :: bool
  ci_custom_location_photo :: "string option"
  ci_custom_client_bio_metric_photo :: "string option"

record file_doc =
  f_name :: string
  f_file_name :: string
  f_file_url :: string
  f_content :: bytes
  f_attached_to_doctype :: "string option"
  f_attached_to_name :: "string option"

text \<open>
  The database, with the request-local state the module changes: the HTTP status
  code of the response (\<^verbatim>\<open>frappe.local.response.http_status_code\<close>), the session,
  and the error log (title and message of every \<^verbatim>\<open>frappe.log_error\<close>). Tables read
  by document name are maps; the employees, check-ins and files are lists, in the order
  of their creation, since they are searched by other fields.
\<close>

record db =
  users :: "string \<rightharpoonup> user_doc"
  employees :: "employee list"
  companies :: "string \<rightharpoonup> company_doc"
  departments :: "string \<rightharpoonup> department_doc"
  projects :: "string \<rightharpoonup> rule_fields"
  branches :: "string \<rightharpoonup> branch_doc"
  checkins :: "checkin list"
  files :: "file_doc list"
  error_log :: "(string \<times> string) list"
  http_status_code :: nat
  session_user :: string
  session_sid :: "string option"

record shift_info =
  si_shift :: "string option"
  si_shift_start :: "int option"
  si_shift_end :: "int option"

text \<open>
  What the module calls and does not define: Python's conversions and formatting,
  the framework (\<^verbatim>\<open>frappe\<close>), the HR application (\<^verbatim>\<open>hrms\<close>) and the request. Each
  is a parameter; a collaborator that can raise returns \<^typ>\<open>exn + 'a\<close> or an
  \<^typ>\<open>exn option\<close>.

  \<^item> \<open>parse_float\<close>, \<open>parse_int\<close>: \<^verbatim>\<open>float(s)\<close> and \<^verbatim>\<open>int(s)\<close> on a string
    (\<open>None\<close>: \<^verbatim>\<open>ValueError\<close>);
  \<^item> \<open>format_2f\<close>, \<open>str_int\<close>, \<open>round2\<close>, \<open>format_date\<close>, \<open>format_stamp\<close>:
    \<^verbatim>\<open>"{:.2f}".format(x)\<close>, \<^verbatim>\<open>str(n)\<close>, \<^verbatim>\<open>round(x, 2)\<close>,
    \<^verbatim>\<open>strftime("%B %d, %Y")\<close> and \<^verbatim>\<open>strftime("%Y%m%d_%H%M%S")\<close>;
  \<^item> \<open>get_distance_between_coordinates\<close>, \<open>validate_active_employee\<close>: from
    \<^verbatim>\<open>hrms.hr.utils\<close>;
  \<^item> \<open>b64decode\<close>: \<^verbatim>\<open>base64.b64decode\<close>;
  \<^item> \<open>get_datetime\<close>, \<open>now_datetime\<close>: \<^verbatim>\<open>frappe.utils.get_datetime\<close> on a value, and
    the clock it reads when called without one (a naive datetime);
  \<^item> \<open>fetch_shift\<close>, \<open>insert_error\<close>, \<open>new_checkin_name\<close>: the Employee Checkin
    document's own \<^verbatim>\<open>fetch_shift\<close>, what its \<^verbatim>\<open>insert\<close> raises (its validation
    hooks and the storage layer's uniqueness constraint) and the name it is given;
  \<^item> \<open>save_file_error\<close>, \<open>new_file_name\<close>, \<open>new_file_url\<close>, \<open>file_save_error\<close>:
    \<^verbatim>\<open>frappe.utils.file_manager.save_file\<close> and \<^verbatim>\<open>File.save\<close>;
  \<^item> \<open>checkin_has_notes\<close>, \<open>checkin_has_custom_location_photo\<close>,
    \<open>checkin_has_custom_client_bio_metric_photo\<close>: whether the Employee Checkin
    doctype has the field (\<^verbatim>\<open>hasattr(checkin_doc, ...)\<close>);
  \<^item> \<open>request_files\<close>: \<^verbatim>\<open>frappe.request.files\<close>, empty when there is no request;
  \<^item> \<open>authenticate\<close>, \<open>post_login\<close>, \<open>new_sid\<close>, \<open>generate_hash\<close>,
    \<open>user_save_error\<close>: the login manager, the session id it opens, the \<open>n\<close>-th
    value \<^verbatim>\<open>frappe.generate_hash(length=15)\<close> draws during the call, and what
    \<^verbatim>\<open>User.save\<close> raises;
  \<^item> \<open>sql_like\<close>: the database's \<^verbatim>\<open>LIKE\<close>, text first, pattern second.
\<close>

record env =
  parse_float :: "string \<Rightarrow> pyfloat option"
  parse_int :: "string \<Rightarrow> int option"
  format_2f :: "pyfloat \<Rightarrow> string"
  str_int :: "int \<Rightarrow> string"
  round2 :: "pyfloat \<Rightarrow> pyfloat"
  format_date :: "int \<Rightarrow> string"
  format_stamp :: "int \<Rightarrow> string"
  get_distance_between_coordinates ::
    "pyfloat \<Rightarrow> pyfloat \<Rightarrow> pyfloat \<Rightarrow> pyfloat \<Rightarrow> exn + pyfloat"
  validate_active_employee :: "string \<Rightarrow> exn option"
  b64decode :: "string \<Rightarrow> exn + bytes"
  get_datetime :: "pyval \<Rightarrow> exn + pydatetime"
  now_datetime :: int
  fetch_shift :: "checkin \<Rightarrow> exn + shift_info"
  insert_error :: "checkin \<Rightarrow> checkin list \<Rightarrow> exn option"
  new_checkin_name :: "checkin \<Rightarrow> checkin list \<Rightarrow> string"
  save_file_error :: "string \<Rightarrow> bytes \<Rightarrow> exn option"
  new_file_name :: "string \<Rightarrow> file_doc list \<Rightarrow> string"
  new_file_url :: "string \<Rightarrow> file_doc list \<Rightarrow> string"
  file_save_error :: "file_doc \<Rightarrow> exn option"
  checkin_has_notes :: bool
  checkin_has_custom_location_photo :: bool
  checkin_has_custom_client_bio_metric_photo :: bool
  request_files :: "(string \<times> pyval) list"
  authenticate :: "string \<Rightarrow> string \<Rightarrow> exn + string option"
  post_login :: "string \<Rightarrow> exn option"
  new_sid :: "string \<Rightarrow> string"
  generate_hash :: "nat \<Rightarrow> string"
  user_save_error :: "user_doc \<Rightarrow> exn option"
  sql_like :: "string \<Rightarrow> string \<Rightarrow> bool"

text \<open>\<^verbatim>\<open>frappe.log_error(title=..., message=...)\<close>.\<close>

definition log_error :: "string \<Rightarrow> string \<Rightarrow> db \<Rightarrow> db" where
  "log_error title message s = s\<lparr>error_log := error_log s @ [(title, message)]\<rparr>"

text \<open>\<^verbatim>\<open>getattr(doc, field, None)\<close>.\<close>

definition getattr_None :: "pyval option \<Rightarrow> pyval" where
  "getattr_None a = (case a of None \<Rightarrow> PNone | Some v \<Rightarrow> v)"

text \<open>\<^verbatim>\<open>hasattr(doc, field)\<close>.\<close>

definition hasattr :: "pyval option \<Rightarrow> bool" where
  "hasattr a = (a \<noteq> None)"

text \<open>\<^verbatim>\<open>x or ""\<close> on an optional string.\<close>

definition or_empty :: "string option \<Rightarrow> string" where
  "or_empty a = (case a of None \<Rightarrow> [] | Some v \<Rightarrow> v)"

text \<open>\<^verbatim>\<open>a or b\<close> on an optional string and a string.\<close>

definition or_else :: "string option \<Rightarrow> string \<Rightarrow> string" where
  "or_else a b = (if truthy_str a then the a else b)"

text \<open>
  \<^verbatim>\<open>frappe.get_doc(doctype, name)\<close> raises \<^verbatim>\<open>DoesNotExistError\<close> when there is no
  such document.
\<close>

definition get_doc :: "string \<Rightarrow> (string \<rightharpoonup> 'a) \<Rightarrow> string \<Rightarrow> exn + 'a" where
  "get_doc doctype table n =
     (case table n of
        None \<Rightarrow> Inl (DoesNotExistError (doctype @ '' '' @ n @ '' not found''))
      | Some d \<Rightarrow> Inr d)"

definition find_employee :: "db \<Rightarrow> string \<Rightarrow> employee option" where
  "find_employee s n = find (\<lambda>e. emp_name e = n) (employees s)"

definition get_employee_doc :: "db \<Rightarrow> string \<Rightarrow> exn + employee" where
  "get_employee_doc s n =
     (case find_employee s n of
        None \<Rightarrow> Inl (DoesNotExistError (''Employee '' @ n @ '' not found''))
      | Some d \<Rightarrow> Inr d)"

definition find_file :: "db \<Rightarrow> string \<Rightarrow> file_doc option" where
  "find_file s n = find (\<lambda>f. f_name f = n) (files s)"

text \<open>\<^verbatim>\<open>frappe.db.exists("File", name)\<close>.\<close>

definition file_exists :: "db \<Rightarrow> string \<Rightarrow> bool" where
  "file_exists s n = (find_file s n \<noteq> None)"

text \<open>\<^verbatim>\<open>frappe.db.get_value("User", frappe.session.user, "email")\<close>.\<close>

definition session_user_email :: "db \<Rightarrow> string option" where
  "session_user_email s =
     (case users s (session_user s) of None \<Rightarrow> None | Some u \<Rightarrow> u_email u)"

text \<open>\<^verbatim>\<open>frappe.db.get_value("Employee", {"company_email": user_email}, "name")\<close>.\<close>

definition employee_name_by_email :: "db \<Rightarrow> string \<Rightarrow> string option" where
  "employee_name_by_email s email =
     map_option emp_name (find (\<lambda>e. emp_company_email e = Some email) (employees s))"

section \<open>mobile\_login\<close>

text \<open>Lines 50--54: the flag arrives as a string or as any other value.\<close>

definition coerce_has_existing_token :: "pyval \<Rightarrow> bool" where
  "coerce_has_existing_token v =
     (case v of
        PStr s \<Rightarrow> lower s \<in> set [''true'', ''1'', ''yes'']
      | _ \<Rightarrow> truthy v)"

record login_response =
  lr_message :: string
  lr_home_page :: string
  lr_full_name :: string
  lr_sid :: "string option"

record api_credentials =
  token :: "string option"
  generated :: bool
  cred_message :: string

record login_result =
  login :: login_response
  credentials :: api_credentials

text \<open>
  Lines 57--72. Every exception of the login block that is not an
  \<^verbatim>\<open>AuthenticationError\<close> is caught by \<^verbatim>\<open>except Exception\<close>, the
  \<^verbatim>\<open>ValidationError\<close> thrown inside the block for an empty user included.
\<close>

definition login_except :: "exn \<Rightarrow> exn" where
  "login_except e =
     (case e of
        AuthenticationError m \<Rightarrow> ValidationError (''Login failed: '' @ m)
      | _ \<Rightarrow> ValidationError (''Login error: '' @ str_exn e))"

definition perform_login :: "env \<Rightarrow> string \<Rightarrow> string \<Rightarrow> db \<Rightarrow> (exn + string) \<times> db" where
  "perform_login E usr pwd s =
     (case authenticate E usr pwd of
        Inl e \<Rightarrow> (Inl (login_except e), s)
      | Inr user \<Rightarrow>
          if \<not> truthy_str user then
            (Inl (login_except (ValidationError
               ''Invalid login credentials. Please check your username and password.'')), s)
          else
            (case post_login E (the user) of
               Some e \<Rightarrow> (Inl (login_except e), s)
             | None \<Rightarrow>
                 (Inr (the user),
                  s\<lparr>session_user := the user, session_sid := Some (new_sid E (the user))\<rparr>)))"

text \<open>Lines 98--124: the credentials are generated, saved and committed.\<close>

definition generate_credentials ::
  "env \<Rightarrow> user_doc \<Rightarrow> db \<Rightarrow> (exn + api_credentials) \<times> db" where
  "generate_credentials E user_doc s =
     (let has_api_key = truthy_str (api_key user_doc);
          secret = generate_hash E 0;
          key = (if \<not> truthy_str (api_key user_doc) then generate_hash E 1
                 else the (api_key user_doc));
          doc' = user_doc\<lparr>api_key := Some key, api_secret := Some secret\<rparr>
      in case user_save_error E doc' of
           Some e \<Rightarrow>
             (Inl (ValidationError (''Error generating API credentials: '' @ str_exn e)), s)
         | None \<Rightarrow>
             (Inr \<lparr>token = Some (key @ '':'' @ secret),
                   generated = True,
                   cred_message =
                     (if \<not> has_api_key then ''API credentials generated successfully.''
                      else ''New API credentials generated. Old credentials are now invalid.'')\<rparr>,
              s\<lparr>users := (users s)(u_name user_doc \<mapsto> doc')\<rparr>))"

definition mobile_login ::
  "env \<Rightarrow> string option \<Rightarrow> string option \<Rightarrow> pyval \<Rightarrow> db \<Rightarrow> (exn + login_result) \<times> db" where
  "mobile_login E usr pwd has_existing_token s =
     (if \<not> truthy_str usr then (Inl (ValidationError ''Username is required.''), s)
      else if \<not> truthy_str pwd then (Inl (ValidationError ''Password is required.''), s)
      else
        let flag = coerce_has_existing_token has_existing_token in
        case perform_login E (the usr) (the pwd) s of
          (Inl e, s1) \<Rightarrow> (Inl e, s1)
        | (Inr user, s1) \<Rightarrow>
            (case get_doc ''User'' (users s1) user of
               Inl e \<Rightarrow>
                 (Inl (ValidationError (''Error retrieving user information: '' @ str_exn e)), s1)
             | Inr user_doc \<Rightarrow>
                 let login_response =
                       \<lparr>lr_message = ''Logged In'',
                        lr_home_page = ''/app'',
                        lr_full_name = or_else (u_full_name user_doc) (u_name user_doc),
                        lr_sid = session_sid s1\<rparr>
                 in if flag then
                      (Inr \<lparr>login = login_response,
                            credentials =
                              \<lparr>token = None, generated = False,
                               cred_message = ''Using existing API credentials.''\<rparr>\<rparr>, s1)
                    else
                      (case generate_credentials E user_doc s1 of
                         (Inl e, s2) \<Rightarrow> (Inl e, s2)
                       | (Inr creds, s2) \<Rightarrow>
                           (Inr \<lparr>login = login_response, credentials = creds\<rparr>, s2))))"

section \<open>Conversions\<close>

text \<open>
  \<^verbatim>\<open>float(v)\<close> and \<^verbatim>\<open>int(v)\<close>. A string or byte string is parsed; \<^verbatim>\<open>None\<close> and
  a file object raise \<^verbatim>\<open>TypeError\<close>; an integer too large for a double raises
  \<^verbatim>\<open>OverflowError\<close> (the rounding of the other integers beyond \<open>2 ^ 53\<close> is not
  modelled); \<^verbatim>\<open>int\<close> truncates a finite float towards zero and raises
  \<^verbatim>\<open>OverflowError\<close> on an infinity and \<^verbatim>\<open>ValueError\<close> on NaN.
\<close>

definition py_float :: "env \<Rightarrow> pyval \<Rightarrow> exn + pyfloat" where
  "py_float E v =
     (case v of
        PNone \<Rightarrow> Inl (TypeError ''float() argument must be a string or a real number'')
      | PBool b \<Rightarrow> Inr (Finite (if b then 1 else 0))
      | PInt n \<Rightarrow>
          if \<bar>n\<bar> < 2 ^ 1024 - 2 ^ 970 then Inr (Finite (real_of_int n))
          else Inl (OverflowError ''int too large to convert to float'')
      | PFloat f \<Rightarrow> Inr f
      | PStr s \<Rightarrow>
          (case parse_float E s of
             None \<Rightarrow> Inl (ValueError (''could not convert string to float: '' @ s))
           | Some r \<Rightarrow> Inr r)
      | PBytes b \<Rightarrow>
          (case parse_float E b of
             None \<Rightarrow> Inl (ValueError (''could not convert string to float: '' @ b))
           | Some r \<Rightarrow> Inr r)
      | PFileStorage fname c \<Rightarrow>
          Inl (TypeError ''float() argument must be a string or a real number''))"

definition py_int :: "env \<Rightarrow> pyval \<Rightarrow> exn + int" where
  "py_int E v =
     (case v of
        PNone \<Rightarrow> Inl (TypeError ''int() argument must be a string, a bytes-like object or a real number'')
      | PBool b \<Rightarrow> Inr (if b then 1 else 0)
      | PInt n \<Rightarrow> Inr n
      | PFloat f \<Rightarrow>
          (case f of
             Finite r \<Rightarrow> Inr (if 0 \<le> r then \<lfloor>r\<rfloor> else \<lceil>r\<rceil>)
           | PosInf \<Rightarrow> Inl (OverflowError ''cannot convert float infinity to integer'')
           | NegInf \<Rightarrow> Inl (OverflowError ''cannot convert float infinity to integer'')
           | NaN \<Rightarrow> Inl (ValueError ''cannot convert float NaN to integer''))
      | PStr s \<Rightarrow>
          (case parse_int E s of
             None \<Rightarrow> Inl (ValueError (''invalid literal for int() with base 10: '' @ s))
           | Some n \<Rightarrow> Inr n)
      | PBytes b \<Rightarrow>
          (case parse_int E b of
             None \<Rightarrow> Inl (ValueError (''invalid literal for int() with base 10: '' @ b))
           | Some n \<Rightarrow> Inr n)
      | PFileStorage fname c \<Rightarrow>
          Inl (TypeError ''int() argument must be a string, a bytes-like object or a real number''))"

section \<open>\_get\_employee\_settings\<close>

record settings =
  required_to_upload_location_photo :: bool
  required_to_upload_client_bio_metric_photo :: bool
  require_location_check_on_check_out :: bool
  branch_latitude :: pyfloat
  branch_longitude :: pyfloat
  branch_radius :: int
  settings_branch :: string

text \<open>
  Lines 349--351: \<^verbatim>\<open>getattr(company_doc, ..., False)\<close>, then \<^verbatim>\<open>None\<close> becomes
  \<^verbatim>\<open>False\<close>.
\<close>

definition use_department_settings :: "company_doc \<Rightarrow> pyval" where
  "use_department_settings company_doc =
     (case custom_attendnace_validations_based_on_department company_doc of
        None \<Rightarrow> PBool False
      | Some v \<Rightarrow> if v = PNone then PBool False else v)"

text \<open>
  Lines 362--376 and 394--408, the same on a department and on a project: the three
  flags are read, the document must have at least one of the three attributes, and a
  flag that is \<^verbatim>\<open>None\<close> becomes \<^verbatim>\<open>False\<close>.
\<close>

definition flag_or_False :: "pyval option \<Rightarrow> pyval" where
  "flag_or_False a = (if getattr_None a \<noteq> PNone then getattr_None a else PBool False)"

definition read_rules ::
  "string \<Rightarrow> 'a rule_fields_scheme \<Rightarrow> exn + (pyval \<times> pyval \<times> pyval)" where
  "read_rules missing doc =
     (if \<not> (hasattr (custom_required_to_upload_location_photo doc)
             \<or> hasattr (custom_required_to_upload_client_bio_metric_photo doc)
             \<or> hasattr (custom_required_location_check_on_check_out doc))
      then Inl (ValidationError missing)
      else Inr (flag_or_False (custom_required_to_upload_location_photo doc),
                flag_or_False (custom_required_to_upload_client_bio_metric_photo doc),
                flag_or_False (custom_required_location_check_on_check_out doc)))"

definition resolve_rules :: "db \<Rightarrow> employee \<Rightarrow> exn + (pyval \<times> pyval \<times> pyval)" where
  "resolve_rules s employee =
     (let department = or_empty (emp_department employee) in
      if \<not> truthy_str (emp_company employee) then
        Inl (ValidationError ''Employee has no company assigned.'')
      else
        bind_exn (get_doc ''Company'' (companies s) (the (emp_company employee)))
          (\<lambda>company_doc.
             if truthy (use_department_settings company_doc) then
               if department = [] then
                 Inl (ValidationError
                   ''Company setting requires Department settings, but Employee has no Department assigned.'')
               else
                 bind_exn (get_doc ''Department'' (departments s) department)
                   (\<lambda>department_doc.
                      read_rules
                        ''Company setting requires Department settings, but Department has no validation settings configured.''
                        department_doc)
             else
               if department = [] then
                 Inl (ValidationError
                   ''Company setting requires Project settings, but Employee has no Department assigned.'')
               else
                 bind_exn (get_doc ''Department'' (departments s) department)
                   (\<lambda>department_doc.
                      if \<not> truthy_str (custom_project department_doc) then
                        Inl (ValidationError
                          ''Company setting requires Project settings, but Department has no linked Project.'')
                      else
                        bind_exn
                          (get_doc ''Project'' (projects s) (the (custom_project department_doc)))
                          (\<lambda>project_doc.
                             read_rules
                               ''Company setting requires Project settings, but linked Project has no validation settings configured.''
                               project_doc))))"

definition get_employee_settings :: "env \<Rightarrow> db \<Rightarrow> employee \<Rightarrow> exn + settings" where
  "get_employee_settings E s employee =
     bind_exn (resolve_rules s employee)
       (\<lambda>(location_photo_flag, biometric_photo_flag, check_out_flag).
          let branch = or_empty (emp_branch employee) in
          if branch = [] then Inl (ValidationError ''Employee has no branch assigned.'')
          else
            bind_exn (get_doc ''Branch'' (branches s) branch)
              (\<lambda>branch_doc.
                 let latitude = getattr_None (custom_latitude branch_doc);
                     longitude = getattr_None (custom_longitude branch_doc);
                     radius = getattr_None (custom_radius_in_meters branch_doc)
                 in if latitude = PNone \<or> longitude = PNone \<or> radius = PNone then
                      Inl (ValidationError
                        (''Branch '' @ or_else (branch_title branch_doc) branch
                           @ '' does not have location information configured.''))
                    else
                      bind_exn (py_float E latitude) (\<lambda>lat.
                      bind_exn (py_float E longitude) (\<lambda>lon.
                      bind_exn (py_int E radius) (\<lambda>rad.
                        Inr \<lparr>required_to_upload_location_photo = truthy location_photo_flag,
                             required_to_upload_client_bio_metric_photo = truthy biometric_photo_flag,
                             require_location_check_on_check_out = truthy check_out_flag,
                             branch_latitude = lat,
                             branch_longitude = lon,
                             branch_radius = rad,
                             settings_branch = branch\<rparr>)))))"

section \<open>\_validate\_location\<close>

definition action_hyphen :: "string \<Rightarrow> string" where
  "action_hyphen log_type = (if log_type = ''IN'' then ''check-in'' else ''check-out'')"

definition action_words :: "string \<Rightarrow> string" where
  "action_words log_type = (if log_type = ''IN'' then ''check in'' else ''check out'')"

text \<open>Lines 450--457: only \<^verbatim>\<open>ValueError\<close> and \<^verbatim>\<open>TypeError\<close> are caught.\<close>

definition float_coordinate :: "env \<Rightarrow> pyval \<Rightarrow> exn + pyfloat" where
  "float_coordinate E v =
     (case py_float E v of
        Inl (ValueError m) \<Rightarrow>
          Inl (ValidationError
            (''Invalid location coordinates. Please ensure GPS is enabled and try again. Error: '' @ m))
      | Inl (TypeError m) \<Rightarrow>
          Inl (ValidationError
            (''Invalid location coordinates. Please ensure GPS is enabled and try again. Error: '' @ m))
      | Inl e \<Rightarrow> Inl e
      | Inr r \<Rightarrow> Inr r)"

definition radius_exceeded_message :: "env \<Rightarrow> pyfloat \<Rightarrow> int \<Rightarrow> string \<Rightarrow> string" where
  "radius_exceeded_message E distance radius log_type =
     ''You are '' @ format_2f E distance
       @ '' meters away from the branch location. Please move within ''
       @ str_int E radius @ '' meters to '' @ action_words log_type @ ''.''"

text \<open>
  The comparisons of the range check, \<^verbatim>\<open>lo <= x <= hi\<close>, and of the radius,
  \<^verbatim>\<open>distance > radius\<close>, between a float and integers: every comparison with NaN
  is false.
\<close>

definition in_range :: "int \<Rightarrow> pyfloat \<Rightarrow> int \<Rightarrow> bool" where
  "in_range lo x hi =
     (case x of Finite r \<Rightarrow> real_of_int lo \<le> r \<and> r \<le> real_of_int hi | _ \<Rightarrow> False)"

definition exceeds :: "pyfloat \<Rightarrow> int \<Rightarrow> bool" where
  "exceeds x n =
     (case x of Finite r \<Rightarrow> r > real_of_int n | PosInf \<Rightarrow> True | _ \<Rightarrow> False)"

definition validate_location ::
  "env \<Rightarrow> pyval \<Rightarrow> pyval \<Rightarrow> pyfloat \<Rightarrow> pyfloat \<Rightarrow> int \<Rightarrow> string \<Rightarrow> exn + pyfloat" where
  "validate_location E latitude longitude branch_lat branch_lon radius log_type =
     (if falsy latitude \<or> falsy longitude then
        Inl (ValidationError
          (''Location coordinates are required for '' @ action_hyphen log_type
             @ ''. Please enable GPS and try again.''))
      else
        bind_exn (float_coordinate E latitude) (\<lambda>lat.
        bind_exn (float_coordinate E longitude) (\<lambda>lon.
          if \<not> in_range (- 90) lat 90 then
            Inl (ValidationError
              ''Invalid latitude value. Latitude must be between -90 and 90 degrees.'')
          else if \<not> in_range (- 180) lon 180 then
            Inl (ValidationError
              ''Invalid longitude value. Longitude must be between -180 and 180 degrees.'')
          else
            (case get_distance_between_coordinates E branch_lat branch_lon lat lon of
               Inl e \<Rightarrow>
                 Inl (ValidationError
                   (''Error calculating distance from branch location. Please try again. Error: ''
                      @ str_exn e))
             | Inr distance \<Rightarrow>
                 if exceeds distance radius then
                   Inl (CheckinRadiusExceededError
                     (radius_exceeded_message E distance radius log_type))
                 else Inr distance))))"

section \<open>\_handle\_photo\_upload\<close>

text \<open>\<^verbatim>\<open>s.split(",", 1)[1]\<close>: what follows the first comma, when there is one.\<close>

fun after_comma :: "string \<Rightarrow> string option" where
  "after_comma [] = None"
| "after_comma (c # cs) = (if c = CHR '','' then Some cs else after_comma cs)"

definition max_size :: nat where
  "max_size = 5 * 1024 * 1024"

definition len_str :: "env \<Rightarrow> bytes \<Rightarrow> string" where
  "len_str E b = str_int E (int (length b))"

text \<open>
  Lines 527--558: the bytes of the photo. A string is decoded as base64, after the
  prefix of a data URI is cut off; every exception of the decoding block, the
  \<^verbatim>\<open>ValidationError\<close> it throws for an empty result included, is caught and thrown
  again as one \<^verbatim>\<open>ValidationError\<close>. Bytes are taken as they are; on any other value
  \<^verbatim>\<open>len\<close> raises.
\<close>

definition base64_payload :: "string \<Rightarrow> string option" where
  "base64_payload text = (if startswith text ''data:'' then after_comma text else Some text)"

definition photo_bytes :: "env \<Rightarrow> pyval \<Rightarrow> db \<Rightarrow> (exn + bytes) \<times> db" where
  "photo_bytes E photo_data s =
     (case photo_data of
        PStr text \<Rightarrow>
          (case base64_payload text of
             None \<Rightarrow> (Inl (IndexError ''list index out of range''), s)
           | Some payload \<Rightarrow>
               (case b64decode E payload of
                  Inl e \<Rightarrow>
                    (Inl (ValidationError
                       ''Invalid image format. Please ensure the photo is properly encoded and try again.''),
                     log_error ''Checkin Photo Debug''
                       (''_handle_photo_upload - base64 decode error: '' @ str_exn e) s)
                | Inr file_bytes \<Rightarrow>
                    if file_bytes = [] then
                      (Inl (ValidationError
                         ''Invalid image format. Please ensure the photo is properly encoded and try again.''),
                       log_error ''Checkin Photo Debug''
                         (''_handle_photo_upload - base64 decode error: ''
                            @ ''Invalid image data. The photo appears to be empty. Please capture the photo again.'') s)
                    else
                      (Inr file_bytes,
                       log_error ''Checkin Photo Debug''
                         (''_handle_photo_upload - decoded base64, size: '' @ len_str E file_bytes) s)))
      | PBytes file_bytes \<Rightarrow>
          (Inr file_bytes,
           log_error ''Checkin Photo Debug''
             (''_handle_photo_upload - using bytes directly, size: '' @ len_str E file_bytes) s)
      | _ \<Rightarrow> (Inl (TypeError ''object has no len()''), s))"

text \<open>
  Lines 560--610: the file is named, checked (not empty, at most 5MB) and saved,
  attached to the check-in. A \<^verbatim>\<open>ValidationError\<close> is raised again as it is, any
  other exception of \<^verbatim>\<open>save_file\<close> becomes one.
\<close>

definition photo_filename :: "env \<Rightarrow> string \<Rightarrow> string \<Rightarrow> string" where
  "photo_filename E photo_type employee_id =
     photo_type @ ''_photo_'' @ employee_id @ ''_'' @ format_stamp E (now_datetime E) @ ''.jpg''"

definition store_photo ::
  "env \<Rightarrow> bytes \<Rightarrow> string \<Rightarrow> string \<Rightarrow> string \<Rightarrow> db \<Rightarrow> (exn + file_doc) \<times> db" where
  "store_photo E file_bytes employee_id checkin_id photo_type s =
     (let filename = photo_filename E photo_type employee_id;
          s1 = log_error ''Checkin Photo Debug''
                 (''Calling save_file - filename: '' @ filename @ '', checkin: '' @ checkin_id
                    @ '', size: '' @ len_str E file_bytes) s
      in if file_bytes = [] then
           (Inl (ValidationError
              ''Photo file is empty. Please capture the photo again and try uploading.''), s1)
         else if length file_bytes > max_size then
           (Inl (ValidationError
              ''Photo file size exceeds the maximum limit of 5MB. Please compress the image and try again.''),
            s1)
         else
           (case save_file_error E filename file_bytes of
              Some e \<Rightarrow>
                if is_ValidationError e then (Inl e, s1)
                else
                  (Inl (ValidationError
                     ''Error uploading photo. Please try again. If the problem persists, contact support.''),
                   log_error ''Checkin Photo Debug'' (''save_file error: '' @ str_exn e) s1)
            | None \<Rightarrow>
                let file_doc =
                      \<lparr>f_name = new_file_name E filename (files s1),
                       f_file_name = filename,
                       f_file_url = new_file_url E filename (files s1),
                       f_content = file_bytes,
                       f_attached_to_doctype = Some ''Employee Checkin'',
                       f_attached_to_name = Some checkin_id\<rparr>
                in (Inr file_doc,
                    log_error ''Checkin Photo Debug''
                      (''save_file successful - file_id: '' @ f_name file_doc)
                      (s1\<lparr>files := files s1 @ [file_doc]\<rparr>))))"

definition is_file_id :: "db \<Rightarrow> pyval \<Rightarrow> bool" where
  "is_file_id s photo_data =
     (case photo_data of
        PStr text \<Rightarrow> \<not> startswith text ''data:'' \<and> file_exists s text
      | _ \<Rightarrow> False)"

definition handle_photo_upload ::
  "env \<Rightarrow> pyval \<Rightarrow> string \<Rightarrow> string \<Rightarrow> string \<Rightarrow> db \<Rightarrow> (exn + file_doc option) \<times> db" where
  "handle_photo_upload E photo_data employee_id checkin_id photo_type s =
     (if \<not> truthy photo_data then
        (Inr None,
         log_error ''Checkin Photo Debug'' ''_handle_photo_upload - photo_data is empty/None'' s)
      else if is_file_id s photo_data then
        (case photo_data of
           PStr text \<Rightarrow>
             (Inr (find_file s text),
              log_error ''Checkin Photo Debug''
                (''_handle_photo_upload - treating as file_id: '' @ text) s)
         | _ \<Rightarrow> (Inr None, s))
      else
        let s1 = (case photo_data of
                    PStr text \<Rightarrow>
                      if \<not> startswith text ''data:'' then
                        log_error ''Checkin Photo Debug''
                          ''_handle_photo_upload - treating string as base64'' s
                      else s
                  | _ \<Rightarrow> s)
        in case photo_bytes E photo_data s1 of
             (Inl e, s2) \<Rightarrow> (Inl e, s2)
           | (Inr file_bytes, s2) \<Rightarrow>
               (case store_photo E file_bytes employee_id checkin_id photo_type s2 of
                  (Inl e, s3) \<Rightarrow> (Inl e, s3)
                | (Inr file_doc, s3) \<Rightarrow> (Inr (Some file_doc), s3)))"

section \<open>create\_checkin\_checkout\<close>

record checkin_args =
  employee_id :: "string option"
  log_type :: string
  latitude :: pyval
  longitude :: pyval
  device_id :: "string option"
  location_photo :: pyval
  client_biometric_photo :: pyval
  timestamp :: pyval
  arg_notes :: "string option"
  location_photo_id :: "string option"
  client_biometric_photo_id :: "string option"

text \<open>
  The success dictionary (the times are the datetimes that \<^verbatim>\<open>isoformat\<close> renders;
  a key the code leaves out is \<open>None\<close>) and the body \<^verbatim>\<open>{"exception": message}\<close>.
\<close>

record success =
  r_checkin_id :: string
  r_employee_id :: string
  r_employee_name :: string
  r_log_type :: string
  r_time :: int
  r_latitude :: "pyfloat option"
  r_longitude :: "pyfloat option"
  r_shift :: "string option"
  r_shift_start :: "int option"
  r_shift_end :: "int option"
  r_attendance :: "string option"
  r_status :: string
  r_distance_from_branch_meters :: "pyfloat option"
  r_location_photo_url :: "string option"
  r_location_photo_id :: "string option"
  r_client_biometric_photo_url :: "string option"
  r_client_biometric_photo_id :: "string option"

datatype response = Success success | ExceptionBody string

text \<open>
  A statement of the endpoint's body goes on to the next statement with a value,
  raises, or returns a response at once. \<open>then_do\<close> sequences two statements on the
  database.
\<close>

datatype 'a flow = Next 'a | Raise exn | Return response

definition then_do ::
  "(db \<Rightarrow> 'a flow \<times> db) \<Rightarrow> ('a \<Rightarrow> db \<Rightarrow> 'b flow \<times> db) \<Rightarrow> db \<Rightarrow> 'b flow \<times> db" where
  "then_do m f s =
     (case m s of
        (Next x, s') \<Rightarrow> f x s'
      | (Raise e, s') \<Rightarrow> (Raise e, s')
      | (Return r, s') \<Rightarrow> (Return r, s'))"

definition raising :: "exn + 'a \<Rightarrow> db \<Rightarrow> 'a flow \<times> db" where
  "raising m s = (case m of Inl e \<Rightarrow> (Raise e, s) | Inr x \<Rightarrow> (Next x, s))"

definition reading :: "(db \<Rightarrow> exn + 'a) \<Rightarrow> db \<Rightarrow> 'a flow \<times> db" where
  "reading f s = raising (f s) s"

definition stateful :: "(db \<Rightarrow> (exn + 'a) \<times> db) \<Rightarrow> db \<Rightarrow> 'a flow \<times> db" where
  "stateful f s = (case f s of (Inl e, s') \<Rightarrow> (Raise e, s') | (Inr x, s') \<Rightarrow> (Next x, s'))"

text \<open>
  Lines 651--668, \<^verbatim>\<open>_read_file_storage\<close>: the bytes of an uploaded file, \<^verbatim>\<open>None\<close>
  when the object is falsy, has nothing to read from, or the read raises (which is
  logged).
\<close>

definition read_file_storage :: "pyval \<Rightarrow> db \<Rightarrow> pyval \<times> db" where
  "read_file_storage file_storage s =
     (case file_storage of
        PFileStorage fname content \<Rightarrow>
          if fname = [] then (PNone, s)
          else
            (case content of
               Inr b \<Rightarrow> (PBytes b, s)
             | Inl e \<Rightarrow>
                 (PNone,
                  log_error ''Checkin Photo Debug''
                    (''Error reading file_storage stream: '' @ str_exn e) s))
      | _ \<Rightarrow> (PNone, s))"

text \<open>
  Lines 670--691: a photo given as a file object is read; when none is given, the
  request's uploaded files are searched under the parameter's name.
\<close>

definition incoming_photo :: "env \<Rightarrow> string \<Rightarrow> pyval \<Rightarrow> db \<Rightarrow> pyval \<times> db" where
  "incoming_photo E key photo s =
     (if truthy photo then
        (case photo of
           PFileStorage fname content \<Rightarrow> read_file_storage photo s
         | _ \<Rightarrow> (photo, s))
      else if request_files E \<noteq> [] then
        (case map_of (request_files E) key of
           None \<Rightarrow> (photo, s)
         | Some file_storage \<Rightarrow>
             if truthy file_storage then read_file_storage file_storage s else (photo, s))
      else (photo, s))"

text \<open>Lines 693--726: the employee, by id or by the session user's email.\<close>

definition resolve_employee :: "db \<Rightarrow> string option \<Rightarrow> exn + employee" where
  "resolve_employee s emp_id =
     (if truthy_str emp_id then
        if find_employee s (the emp_id) = None then
          Inl (DoesNotExistError
            ''Employee not found. Please check the employee ID and try again.'')
        else
          (case get_employee_doc s (the emp_id) of
             Inl e \<Rightarrow>
               Inl (DoesNotExistError (''Error retrieving employee record: '' @ str_exn e))
           | Inr employee \<Rightarrow> Inr employee)
      else
        let user_email = session_user_email s in
        if \<not> truthy_str user_email then
          Inl (ValidationError
            (''User '' @ session_user s @ '' does not have an email address configured.''))
        else
          let employee_name = employee_name_by_email s (the user_email) in
          if \<not> truthy_str employee_name then
            Inl (DoesNotExistError
              (''Employee not found for user email '' @ the user_email
                 @ ''. Please ensure your user account is linked to an employee record.''))
          else
            (case get_employee_doc s (the employee_name) of
               Inl e \<Rightarrow>
                 Inl (DoesNotExistError (''Error retrieving employee record: '' @ str_exn e))
             | Inr employee \<Rightarrow> Inr employee))"

text \<open>Lines 740--768: the geofence, always for IN, for OUT when the settings ask.\<close>

definition location_check ::
  "env \<Rightarrow> string \<Rightarrow> pyval \<Rightarrow> pyval \<Rightarrow> settings \<Rightarrow> exn + pyfloat option" where
  "location_check E logtype lat lon st =
     (if logtype = ''IN'' then
        if falsy lat \<or> falsy lon then
          Inl (ValidationError
            ''Location is required for check-in. Please provide latitude and longitude.'')
        else
          bind_exn
            (validate_location E lat lon (branch_latitude st) (branch_longitude st)
               (branch_radius st) logtype)
            (\<lambda>distance. Inr (Some distance))
      else if require_location_check_on_check_out st then
        if falsy lat \<or> falsy lon then
          Inl (ValidationError
            ''Location is required for check-out. Please provide latitude and longitude.'')
        else
          bind_exn
            (validate_location E lat lon (branch_latitude st) (branch_longitude st)
               (branch_radius st) logtype)
            (\<lambda>distance. Inr (Some distance))
      else Inr None)"

text \<open>
  Lines 774--792, once for each of the two photos: a required photo that is missing
  makes the endpoint return the failure body at once; a photo id that names no file
  raises.
\<close>

definition required_photo ::
  "bool \<Rightarrow> string \<Rightarrow> string \<Rightarrow> pyval \<Rightarrow> string option \<Rightarrow> db \<Rightarrow> unit flow \<times> db" where
  "required_photo required label logtype photo photo_id s =
     (if required then
        if \<not> truthy photo \<and> \<not> truthy_str photo_id then
          (Return (ExceptionBody (label @ '' is required for '' @ action_hyphen logtype @ ''.'')), s)
        else if truthy_str photo_id \<and> \<not> file_exists s (the photo_id) then
          (Raise (ValidationError (label @ '' file not found. Please upload the photo again.'')), s)
        else (Next (), s)
      else (Next (), s))"

text \<open>
  Lines 794--809: the time of the check-in, without microseconds. An aware
  datetime is moved to UTC and loses its time zone, which raises when the result
  leaves the range of \<^verbatim>\<open>datetime\<close>; every exception of the block becomes a
  \<^verbatim>\<open>ValidationError\<close>. Without a timestamp the clock is read.
\<close>

definition datetime_max :: int where
  "datetime_max = 3652059 * 86400 * 1000000 - 1"

definition replace_microsecond_0 :: "int \<Rightarrow> int" where
  "replace_microsecond_0 t = t - t mod 1000000"

definition astimezone_utc_naive :: "pydatetime \<Rightarrow> exn + int" where
  "astimezone_utc_naive dt =
     (case utcoffset dt of
        None \<Rightarrow> Inr (micros dt)
      | Some offset \<Rightarrow>
          if 0 \<le> micros dt - offset \<and> micros dt - offset \<le> datetime_max
          then Inr (micros dt - offset)
          else Inl (OverflowError ''date value out of range''))"

definition invalid_timestamp :: "exn \<Rightarrow> exn" where
  "invalid_timestamp e =
     ValidationError
       (''Invalid timestamp format. Please use ISO 8601 format (e.g., 2025-01-27T09:15:30Z). Error: ''
          @ str_exn e)"

definition parse_timestamp :: "env \<Rightarrow> pyval \<Rightarrow> exn + int" where
  "parse_timestamp E ts =
     (if truthy ts then
        (case get_datetime E ts of
           Inl e \<Rightarrow> Inl (invalid_timestamp e)
         | Inr dt \<Rightarrow>
             (case astimezone_utc_naive dt of
                Inl e \<Rightarrow> Inl (invalid_timestamp e)
              | Inr t \<Rightarrow> Inr (replace_microsecond_0 t)))
      else Inr (replace_microsecond_0 (now_datetime E)))"

text \<open>
  Lines 811--849: one IN and one OUT per employee and day. The day of a check-in
  runs from the start of the day of its time to the start of the next day. The filter
  \<^verbatim>\<open>["between", [start_of_day, end_of_day]]\<close> is SQL's \<^verbatim>\<open>BETWEEN\<close>: both bounds
  belong to the interval. Adding the day raises when it leaves the range of
  \<^verbatim>\<open>datetime\<close>.
\<close>

definition day_micros :: int where
  "day_micros = 86400 * 1000000"

definition start_of_day :: "int \<Rightarrow> int" where
  "start_of_day t = t - t mod day_micros"

definition end_of_day :: "int \<Rightarrow> exn + int" where
  "end_of_day t =
     (if start_of_day t + day_micros \<le> datetime_max then Inr (start_of_day t + day_micros)
      else Inl (OverflowError ''date value out of range''))"

definition between :: "int \<Rightarrow> int \<Rightarrow> int \<Rightarrow> bool" where
  "between t a b = (a \<le> t \<and> t \<le> b)"

definition checkins_between :: "db \<Rightarrow> string \<Rightarrow> string \<Rightarrow> int \<Rightarrow> int \<Rightarrow> checkin list" where
  "checkins_between s emp logtype a b =
     filter (\<lambda>c. ci_employee c = emp \<and> ci_log_type c = logtype \<and> between (ci_time c) a b)
       (checkins s)"

definition one_in_one_out :: "env \<Rightarrow> db \<Rightarrow> string \<Rightarrow> string \<Rightarrow> int \<Rightarrow> exn + unit" where
  "one_in_one_out E s emp logtype checkin_time =
     bind_exn (end_of_day checkin_time)
       (\<lambda>eod.
          let sod = start_of_day checkin_time in
          if logtype = ''OUT'' \<and> checkins_between s emp ''IN'' sod eod = [] then
            Inl (ValidationError
              (''You must check-in before you can check-out. No check-in record found for ''
                 @ format_date E sod @ ''.''))
          else if length (checkins_between s emp logtype sod eod) > 0 then
            Inl (ValidationError
              (''You have already completed your '' @ action_hyphen logtype @ '' for ''
                 @ format_date E sod
                 @ ''. Only one check-in and one check-out are allowed per day.''))
          else Inr ())"

text \<open>
  Lines 851--864: the new document. \<^verbatim>\<open>float(latitude) if latitude else None\<close>
  raises on a value that is no number; \<^verbatim>\<open>set_geolocation\<close> touches no field of the
  model; \<^verbatim>\<open>fetch_shift\<close> fills in the shift.
\<close>

definition optional_float :: "env \<Rightarrow> pyval \<Rightarrow> exn + pyfloat option" where
  "optional_float E v =
     (if truthy v then bind_exn (py_float E v) (\<lambda>r. Inr (Some r)) else Inr None)"

definition new_checkin :: "env \<Rightarrow> checkin_args \<Rightarrow> employee \<Rightarrow> int \<Rightarrow> exn + checkin" where
  "new_checkin E args emp checkin_time =
     bind_exn (optional_float E (latitude args)) (\<lambda>lat.
     bind_exn (optional_float E (longitude args)) (\<lambda>lon.
       let doc = \<lparr>ci_name = [],
                  ci_employee = emp_name emp,
                  ci_employee_name = or_else (emp_employee_name emp) (emp_name emp),
                  ci_log_type = log_type args,
                  ci_time = checkin_time,
                  ci_latitude = lat,
                  ci_longitude = lon,
                  ci_device_id = device_id args,
                  ci_notes = (if truthy_str (arg_notes args) \<and> checkin_has_notes E
                              then arg_notes args else None),
                  ci_shift = None,
                  ci_shift_start = None,
                  ci_shift_end = None,
                  ci_attendance = None,
                  ci_skip_auto_attendance = False,
                  ci_custom_location_photo = None,
                  ci_custom_client_bio_metric_photo = None\<rparr>
       in bind_exn (fetch_shift E doc)
            (\<lambda>si. Inr (doc\<lparr>ci_shift := si_shift si,
                            ci_shift_start := si_shift_start si,
                            ci_shift_end := si_shift_end si\<rparr>))))"

text \<open>\<^verbatim>\<open>needle in haystack\<close> on strings.\<close>

fun contains :: "string \<Rightarrow> string \<Rightarrow> bool" where
  "contains [] needle = (needle = [])"
| "contains (c # cs) needle = (startswith (c # cs) needle \<or> contains cs needle)"

text \<open>
  Lines 866--879: the document is inserted and the transaction committed. Every
  exception of the insert becomes a \<^verbatim>\<open>ValidationError\<close>.
\<close>

definition insert_except :: "exn \<Rightarrow> exn" where
  "insert_except e =
     (case e of
        DuplicateEntryError m \<Rightarrow>
          ValidationError
            ''A check-in record already exists for this timestamp. Please wait a moment and try again, or use a different timestamp.''
      | _ \<Rightarrow>
          if contains (lower (str_exn e)) ''duplicate'' then
            ValidationError
              ''A check-in record already exists for this timestamp. Please wait a moment and try again.''
          else ValidationError (''Error creating check-in record: '' @ str_exn e))"

definition insert_checkin :: "env \<Rightarrow> checkin \<Rightarrow> db \<Rightarrow> (exn + checkin) \<times> db" where
  "insert_checkin E doc s =
     (case insert_error E doc (checkins s) of
        Some e \<Rightarrow> (Inl (insert_except e), s)
      | None \<Rightarrow>
          let doc' = doc\<lparr>ci_name := new_checkin_name E doc (checkins s)\<rparr>
          in (Inr doc', s\<lparr>checkins := checkins s @ [doc']\<rparr>))"

text \<open>
  Lines 881--902, once for each photo: a photo is uploaded; without one, an
  existing file named by the id is attached to the check-in.
\<close>

definition attach_photo ::
  "env \<Rightarrow> pyval \<Rightarrow> string option \<Rightarrow> string \<Rightarrow> string \<Rightarrow> string \<Rightarrow> db
     \<Rightarrow> (exn + file_doc option) \<times> db" where
  "attach_photo E photo photo_id emp checkin_name photo_type s =
     (if truthy photo then handle_photo_upload E photo emp checkin_name photo_type s
      else if truthy_str photo_id \<and> file_exists s (the photo_id) then
        (case find_file s (the photo_id) of
           None \<Rightarrow> (Inr None, s)
         | Some found \<Rightarrow>
             let file_doc = found\<lparr>f_attached_to_doctype := Some ''Employee Checkin'',
                                  f_attached_to_name := Some checkin_name\<rparr>
             in (case file_save_error E file_doc of
                   Some e \<Rightarrow> (Inl e, s)
                 | None \<Rightarrow>
                     (Inr (Some file_doc),
                      s\<lparr>files := map (\<lambda>f. if f_name f = f_name file_doc then file_doc else f)
                                    (files s)\<rparr>)))
      else (Inr None, s))"

text \<open>Lines 904--910: the photo URLs are written to the check-in's custom fields.\<close>

definition set_photo_values ::
  "env \<Rightarrow> string \<Rightarrow> file_doc option \<Rightarrow> file_doc option \<Rightarrow> db \<Rightarrow> db" where
  "set_photo_values E checkin_name location_file biometric_file s =
     (let set_location = (location_file \<noteq> None \<and> checkin_has_custom_location_photo E);
          set_biometric = (biometric_file \<noteq> None \<and> checkin_has_custom_client_bio_metric_photo E)
      in if set_location \<or> set_biometric then
           s\<lparr>checkins :=
               map (\<lambda>c. if ci_name c = checkin_name then
                           c\<lparr>ci_custom_location_photo :=
                                (if set_location then map_option f_file_url location_file
                                 else ci_custom_location_photo c),
                              ci_custom_client_bio_metric_photo :=
                                (if set_biometric then map_option f_file_url biometric_file
                                 else ci_custom_client_bio_metric_photo c)\<rparr>
                         else c)
                 (checkins s)\<rparr>
         else s)"

text \<open>Lines 912--947: the success response.\<close>

definition or_else_opt :: "string option \<Rightarrow> string option \<Rightarrow> string option" where
  "or_else_opt a b = (if truthy_str a then a else b)"

definition success_response ::
  "env \<Rightarrow> checkin_args \<Rightarrow> employee \<Rightarrow> checkin \<Rightarrow> pyfloat option \<Rightarrow> file_doc option
     \<Rightarrow> file_doc option \<Rightarrow> success" where
  "success_response E args emp doc distance location_file biometric_file =
     \<lparr>r_checkin_id = ci_name doc,
      r_employee_id =
        or_else (or_else_opt (emp_employee_code emp) (emp_employee_number emp)) (emp_name emp),
      r_employee_name = or_else (emp_employee_name emp) (emp_name emp),
      r_log_type = log_type args,
      r_time = ci_time doc,
      r_latitude = ci_latitude doc,
      r_longitude = ci_longitude doc,
      r_shift = ci_shift doc,
      r_shift_start = ci_shift_start doc,
      r_shift_end = ci_shift_end doc,
      r_attendance = ci_attendance doc,
      r_status = ''success'',
      r_distance_from_branch_meters = map_option (round2 E) distance,
      r_location_photo_url = map_option f_file_url location_file,
      r_location_photo_id = map_option f_name location_file,
      r_client_biometric_photo_url = map_option f_file_url biometric_file,
      r_client_biometric_photo_id = map_option f_name biometric_file\<rparr>"

text \<open>
  The body of the \<^verbatim>\<open>try\<close> in three parts: the request is validated (lines 643--809),
  the day's rule is checked (lines 811--849), and the check-in is recorded with its
  photos (lines 851--947).
\<close>

record request_ctx =
  x_employee :: employee
  x_settings :: settings
  x_distance :: "pyfloat option"
  x_location_photo :: pyval
  x_client_biometric_photo :: pyval
  x_checkin_time :: int

definition validate_log_type :: "string \<Rightarrow> exn + unit" where
  "validate_log_type logtype =
     (if logtype \<noteq> ''IN'' \<and> logtype \<noteq> ''OUT'' then
        Inl (ValidationError
          ''Invalid log_type. Must be 'IN' for check-in or 'OUT' for check-out.'')
      else Inr ())"

definition active_employee :: "env \<Rightarrow> employee \<Rightarrow> exn + unit" where
  "active_employee E emp =
     (case validate_active_employee E (emp_name emp) of Some e \<Rightarrow> Inl e | None \<Rightarrow> Inr ())"

definition validate_request :: "env \<Rightarrow> checkin_args \<Rightarrow> db \<Rightarrow> request_ctx flow \<times> db" where
  "validate_request E args =
     then_do (\<lambda>s. case incoming_photo E ''location_photo'' (location_photo args) s of
                     (p, s') \<Rightarrow> (Next p, s')) (\<lambda>loc_photo.
     then_do (\<lambda>s. case incoming_photo E ''client_biometric_photo'' (client_biometric_photo args) s of
                     (p, s') \<Rightarrow> (Next p, s')) (\<lambda>bio_photo.
     then_do (reading (\<lambda>s. resolve_employee s (employee_id args))) (\<lambda>emp.
     then_do (raising (active_employee E emp)) (\<lambda>_.
     then_do (raising (validate_log_type (log_type args))) (\<lambda>_.
     then_do (reading (\<lambda>s. get_employee_settings E s emp)) (\<lambda>st.
     then_do (raising (location_check E (log_type args) (latitude args) (longitude args) st))
       (\<lambda>distance.
     then_do (required_photo (required_to_upload_location_photo st) ''Location photo''
                (log_type args) loc_photo (location_photo_id args)) (\<lambda>_.
     then_do (required_photo (required_to_upload_client_bio_metric_photo st)
                ''Client biometric photo'' (log_type args) bio_photo
                (client_biometric_photo_id args)) (\<lambda>_.
     then_do (raising (parse_timestamp E (timestamp args))) (\<lambda>checkin_time.
       Pair (Next \<lparr>x_employee = emp, x_settings = st, x_distance = distance,
                   x_location_photo = loc_photo, x_client_biometric_photo = bio_photo,
                   x_checkin_time = checkin_time\<rparr>)))))))))))"

definition record_checkin ::
  "env \<Rightarrow> checkin_args \<Rightarrow> request_ctx \<Rightarrow> db \<Rightarrow> response flow \<times> db" where
  "record_checkin E args ctx =
     then_do (raising (new_checkin E args (x_employee ctx) (x_checkin_time ctx))) (\<lambda>doc.
     then_do (stateful (insert_checkin E doc)) (\<lambda>checkin_doc.
     then_do (stateful (attach_photo E (x_location_photo ctx) (location_photo_id args)
                (emp_name (x_employee ctx)) (ci_name checkin_doc) ''location''))
       (\<lambda>location_file.
     then_do (stateful (attach_photo E (x_client_biometric_photo ctx)
                (client_biometric_photo_id args) (emp_name (x_employee ctx))
                (ci_name checkin_doc) ''biometric''))
       (\<lambda>biometric_file.
     (\<lambda>s. (Next (Success (success_response E args (x_employee ctx) checkin_doc
                     (x_distance ctx) location_file biometric_file)),
            set_photo_values E (ci_name checkin_doc) location_file biometric_file s))))))"

definition checkin_body :: "env \<Rightarrow> checkin_args \<Rightarrow> db \<Rightarrow> response flow \<times> db" where
  "checkin_body E args =
     then_do (validate_request E args) (\<lambda>ctx.
     then_do (reading (\<lambda>s. one_in_one_out E s (emp_name (x_employee ctx)) (log_type args)
                (x_checkin_time ctx))) (\<lambda>_.
       record_checkin E args ctx))"

text \<open>
  Lines 949--962: the handlers of the endpoint. A validation-type exception is
  answered with its message and status 401, any other exception is logged and
  answered with a fixed message and status 500. A response the body returned goes
  out as it is.
\<close>

definition generic_message :: string where
  "generic_message =
     ''Something went wrong while creating your check-in. Please try again or contact support.''"

definition create_checkin_checkout :: "env \<Rightarrow> checkin_args \<Rightarrow> db \<Rightarrow> response \<times> db" where
  "create_checkin_checkout E args s =
     (case checkin_body E args s of
        (Next r, s') \<Rightarrow> (r, s')
      | (Return r, s') \<Rightarrow> (r, s')
      | (Raise e, s') \<Rightarrow>
          if is_ValidationError e then
            (ExceptionBody (str_exn e), s'\<lparr>http_status_code := 401\<rparr>)
          else
            (ExceptionBody generic_message,
             (log_error ''Checkin API Unexpected Error'' (str_exn e) s')
               \<lparr>http_status_code := 500\<rparr>))"

section \<open>get\_employee\_checkin\_records\<close>

record records_args =
  q_employee_id :: "string option"
  q_log_type :: "string option"
  q_start_date :: pyval
  q_end_date :: pyval
  q_limit :: pyval
  q_offset :: pyval

record record_data =
  rd_checkin_id :: string
  rd_employee_id :: string
  rd_employee_name :: string
  rd_log_type :: string
  rd_time :: int
  rd_latitude :: "pyfloat option"
  rd_longitude :: "pyfloat option"
  rd_device_id :: "string option"
  rd_shift :: "string option"
  rd_shift_start :: "int option"
  rd_shift_end :: "int option"
  rd_attendance :: "string option"
  rd_skip_auto_attendance :: bool
  rd_location_photo_id :: "string option"
  rd_location_photo_url :: "string option"
  rd_client_biometric_photo_id :: "string option"
  rd_client_biometric_photo_url :: "string option"

record records_response =
  records :: "record_data list"
  total_count :: int
  limit :: int
  offset :: int
  has_more :: bool

text \<open>Lines 999--1012: here a missing employee raises out of the endpoint.\<close>

definition records_employee :: "db \<Rightarrow> string option \<Rightarrow> exn + employee" where
  "records_employee s emp_id =
     (if truthy_str emp_id then get_employee_doc s (the emp_id)
      else
        let user_email = session_user_email s in
        if \<not> truthy_str user_email then
          Inl (ValidationError
            (''User '' @ session_user s @ '' does not have an email address configured.''))
        else
          let employee_name = employee_name_by_email s (the user_email) in
          if \<not> truthy_str employee_name then
            Inl (DoesNotExistError (''Employee not found for user email '' @ the user_email))
          else get_employee_doc s (the employee_name))"

text \<open>Lines 1017--1061: the filters on the log type and on the time.\<close>

datatype time_filter = AnyTime | Between int int | AtLeast int | Before int

definition records_log_type :: "string option \<Rightarrow> exn + string option" where
  "records_log_type lt =
     (if truthy_str lt then
        if the lt \<noteq> ''IN'' \<and> the lt \<noteq> ''OUT'' then
          Inl (ValidationError ''log_type must be 'IN' or 'OUT'.'')
        else Inr lt
      else Inr None)"

definition naive_datetime :: "env \<Rightarrow> pyval \<Rightarrow> exn + int" where
  "naive_datetime E v = bind_exn (get_datetime E v) astimezone_utc_naive"

definition add_one_day :: "int \<Rightarrow> exn + int" where
  "add_one_day t =
     (if t + day_micros \<le> datetime_max then Inr (t + day_micros)
      else Inl (OverflowError ''date value out of range''))"

definition or_invalid :: "string \<Rightarrow> exn + 'a \<Rightarrow> exn + 'a" where
  "or_invalid message m = (case m of Inl e \<Rightarrow> Inl (ValidationError message) | Inr x \<Rightarrow> Inr x)"

definition records_time_filter :: "env \<Rightarrow> pyval \<Rightarrow> pyval \<Rightarrow> exn + time_filter" where
  "records_time_filter E start_date end_date =
     (if truthy start_date \<and> truthy end_date then
        or_invalid ''Invalid date format. Use ISO 8601 format or YYYY-MM-DD.''
          (bind_exn (naive_datetime E start_date) (\<lambda>a.
           bind_exn (naive_datetime E end_date) (\<lambda>b.
           bind_exn (add_one_day b) (\<lambda>b'. Inr (Between a b')))))
      else if truthy start_date then
        or_invalid ''Invalid start_date format. Use ISO 8601 format or YYYY-MM-DD.''
          (bind_exn (naive_datetime E start_date) (\<lambda>a. Inr (AtLeast a)))
      else if truthy end_date then
        or_invalid ''Invalid end_date format. Use ISO 8601 format or YYYY-MM-DD.''
          (bind_exn (naive_datetime E end_date) (\<lambda>b.
           bind_exn (add_one_day b) (\<lambda>b'. Inr (Before b'))))
      else Inr AnyTime)"

fun time_matches :: "time_filter \<Rightarrow> int \<Rightarrow> bool" where
  "time_matches AnyTime t = True"
| "time_matches (Between a b) t = between t a b"
| "time_matches (AtLeast a) t = (a \<le> t)"
| "time_matches (Before b) t = (t < b)"

definition matching_checkins ::
  "db \<Rightarrow> string \<Rightarrow> string option \<Rightarrow> time_filter \<Rightarrow> checkin list" where
  "matching_checkins s emp lt tf =
     filter (\<lambda>c. ci_employee c = emp
                 \<and> (case lt of None \<Rightarrow> True | Some l \<Rightarrow> ci_log_type c = l)
                 \<and> time_matches tf (ci_time c))
       (checkins s)"

text \<open>Lines 1063--1080: the limit and the offset.\<close>

definition sanitize_limit :: "env \<Rightarrow> pyval \<Rightarrow> exn + int" where
  "sanitize_limit E lmt =
     (if lmt = PNone then Inr 100
      else
        (case py_int E lmt of
           Inr n \<Rightarrow> Inr (if n < 1 then 100 else n)
         | Inl (ValueError m) \<Rightarrow> Inr 100
         | Inl (TypeError m) \<Rightarrow> Inr 100
         | Inl e \<Rightarrow> Inl e))"

definition sanitize_offset :: "env \<Rightarrow> pyval \<Rightarrow> exn + int" where
  "sanitize_offset E off =
     (case py_int E off of
        Inr n \<Rightarrow> Inr (if n < 0 then 0 else n)
      | Inl (ValueError m) \<Rightarrow> Inr 0
      | Inl (TypeError m) \<Rightarrow> Inr 0
      | Inl e \<Rightarrow> Inl e)"

text \<open>
  Lines 1086--1108: \<^verbatim>\<open>frappe.get_all\<close> with \<^verbatim>\<open>order_by="time desc"\<close>,
  \<^verbatim>\<open>limit\<close> and \<^verbatim>\<open>start\<close>: the rows in the order of their time, latest first, from
  the row \<open>start\<close> on, \<open>limit\<close> of them at most.
\<close>

definition get_all_checkins :: "checkin list \<Rightarrow> int \<Rightarrow> int \<Rightarrow> checkin list" where
  "get_all_checkins rows lmt start =
     take (nat lmt) (drop (nat start) (rev (sort_key ci_time rows)))"

text \<open>
  Lines 1112--1184: a row becomes a record with its photos: the latest file
  attached to the check-in whose name is like the pattern, or else the file the
  check-in's custom field names.
\<close>

definition latest_attached :: "env \<Rightarrow> db \<Rightarrow> string \<Rightarrow> string \<Rightarrow> file_doc option" where
  "latest_attached E s checkin_name pattern =
     (case filter (\<lambda>f. f_attached_to_doctype f = Some ''Employee Checkin''
                         \<and> f_attached_to_name f = Some checkin_name
                         \<and> sql_like E (f_file_name f) pattern) (files s) of
        [] \<Rightarrow> None
      | fs \<Rightarrow> Some (last fs))"

definition photo_of :: "db \<Rightarrow> file_doc option \<Rightarrow> string option \<Rightarrow> file_doc option" where
  "photo_of s attached custom =
     (case attached of
        Some f \<Rightarrow> Some f
      | None \<Rightarrow> if truthy_str custom then find_file s (the custom) else None)"

definition build_record :: "env \<Rightarrow> db \<Rightarrow> employee \<Rightarrow> checkin \<Rightarrow> record_data" where
  "build_record E s emp row =
     (let location = photo_of s (latest_attached E s (ci_name row) ''%location_photo%'')
                       (ci_custom_location_photo row);
          biometric = photo_of s (latest_attached E s (ci_name row) ''%biometric%'')
                        (ci_custom_client_bio_metric_photo row)
      in \<lparr>rd_checkin_id = ci_name row,
          rd_employee_id =
            or_else (or_else_opt (emp_employee_code emp) (emp_employee_number emp)) (emp_name emp),
          rd_employee_name =
            (if ci_employee_name row \<noteq> [] then ci_employee_name row else emp_name emp),
          rd_log_type = ci_log_type row,
          rd_time = ci_time row,
          rd_latitude = ci_latitude row,
          rd_longitude = ci_longitude row,
          rd_device_id = ci_device_id row,
          rd_shift = ci_shift row,
          rd_shift_start = ci_shift_start row,
          rd_shift_end = ci_shift_end row,
          rd_attendance = ci_attendance row,
          rd_skip_auto_attendance = ci_skip_auto_attendance row,
          rd_location_photo_id = map_option f_name location,
          rd_location_photo_url = map_option f_file_url location,
          rd_client_biometric_photo_id = map_option f_name biometric,
          rd_client_biometric_photo_url = map_option f_file_url biometric\<rparr>)"

definition get_employee_checkin_records ::
  "env \<Rightarrow> records_args \<Rightarrow> db \<Rightarrow> exn + records_response" where
  "get_employee_checkin_records E args s =
     bind_exn (records_employee s (q_employee_id args)) (\<lambda>emp.
     bind_exn (records_log_type (q_log_type args)) (\<lambda>lt.
     bind_exn (records_time_filter E (q_start_date args) (q_end_date args)) (\<lambda>tf.
     bind_exn (sanitize_limit E (q_limit args)) (\<lambda>lmt.
     bind_exn (sanitize_offset E (q_offset args)) (\<lambda>off.
       let rows = matching_checkins s (emp_name emp) lt tf;
           count = int (length rows)
       in Inr \<lparr>records = map (build_record E s emp) (get_all_checkins rows lmt off),
               total_count = count,
               limit = lmt,
               offset = off,
               has_more = (off + lmt < count)\<rparr>)))))"

section \<open>An example installation\<close>

text \<open>
  One company that takes its rules from the department, one department that asks
  for no photo and no location check on check-out, one branch with a radius of 100
  metres, and one employee, who is also the session's user. The collaborators are
  simple stand-ins: the distance is 111320 metres for each degree of latitude and of
  longitude, base64 decoding returns its argument, the clock shows
  2025-01-27 09:15:30.123456, \<^verbatim>\<open>get_datetime\<close> reads four timestamps, and nothing else
  raises.
\<close>

definition example_employee :: employee where
  "example_employee =
     \<lparr>emp_name = ''EMP-001'', emp_employee_name = Some ''Asha'',
      emp_employee_code = None, emp_employee_number = None,
      emp_company_email = Some ''asha@example.com'', emp_company = Some ''ACME'',
      emp_department = Some ''Field'', emp_branch = Some ''HQ''\<rparr>"

definition example_department :: department_doc where
  "example_department =
     \<lparr>custom_required_to_upload_location_photo = Some (PInt 0),
      custom_required_to_upload_client_bio_metric_photo = Some (PInt 0),
      custom_required_location_check_on_check_out = Some (PInt 0),
      custom_project = None\<rparr>"

definition example_branch :: branch_doc where
  "example_branch =
     \<lparr>custom_latitude = Some (PFloat (Finite 40)),
      custom_longitude = Some (PFloat (Finite (- 74))),
      custom_radius_in_meters = Some (PInt 100), branch_title = Some ''Head Office''\<rparr>"

definition example_user :: user_doc where
  "example_user =
     \<lparr>u_name = ''asha@example.com'', u_full_name = Some ''Asha'',
      u_email = Some ''asha@example.com'', api_key = None, api_secret = None\<rparr>"

definition example_db :: db where
  "example_db =
     \<lparr>users = [''asha@example.com'' \<mapsto> example_user],
      employees = [example_employee],
      companies =
        [''ACME'' \<mapsto> \<lparr>custom_attendnace_validations_based_on_department = Some (PInt 1)\<rparr>],
      departments = [''Field'' \<mapsto> example_department],
      projects = Map.empty,
      branches = [''HQ'' \<mapsto> example_branch],
      checkins = [],
      files = [],
      error_log = [],
      http_status_code = 200,
      session_user = ''asha@example.com'',
      session_sid = None\<rparr>"

definition example_get_datetime :: "pyval \<Rightarrow> exn + pydatetime" where
  "example_get_datetime v =
     (if v = PStr ''2025-01-27T09:15:30.250000+02:00'' then
        Inr \<lparr>micros = 63873566130250000, utcoffset = Some 7200000000\<rparr>
      else if v = PStr ''2025-01-02T00:00:00'' then
        Inr \<lparr>micros = 63871372800000000, utcoffset = None\<rparr>
      else if v = PStr ''2025-01-01T18:00:00'' then
        Inr \<lparr>micros = 63871351200000000, utcoffset = None\<rparr>
      else if v = PStr ''2025-01-01T09:00:00'' then
        Inr \<lparr>micros = 63871318800000000, utcoffset = None\<rparr>
      else Inl (ValueError ''Unknown string format''))"

definition example_format_date :: "int \<Rightarrow> string" where
  "example_format_date t =
     (if t = 63871286400000000 then ''January 01, 2025''
      else if t = 63871372800000000 then ''January 02, 2025''
      else if t = 63873532800000000 then ''January 27, 2025''
      else ''<date>'')"

definition example_distance :: "pyfloat \<Rightarrow> pyfloat \<Rightarrow> pyfloat \<Rightarrow> pyfloat \<Rightarrow> exn + pyfloat" where
  "example_distance lat1 lon1 lat2 lon2 =
     (case lat1 of Finite a \<Rightarrow>
        (case lon1 of Finite b \<Rightarrow>
           (case lat2 of Finite c \<Rightarrow>
              (case lon2 of Finite d \<Rightarrow> Inr (Finite (111320 * (\<bar>a - c\<bar> + \<bar>b - d\<bar>)))
               | _ \<Rightarrow> Inr NaN)
            | _ \<Rightarrow> Inr NaN)
         | _ \<Rightarrow> Inr NaN)
      | _ \<Rightarrow> Inr NaN)"

definition example_env :: env where
  "example_env =
     \<lparr>parse_float = (\<lambda>s. None),
      parse_int = (\<lambda>s. if s = ''2'' then Some 2 else None),
      format_2f = (\<lambda>r. ''#.##''),
      str_int = (\<lambda>n. ''#''),
      round2 = (\<lambda>r. r),
      format_date = example_format_date,
      format_stamp = (\<lambda>t. ''<stamp>''),
      get_distance_between_coordinates = example_distance,
      validate_active_employee = (\<lambda>n. None),
      b64decode = (\<lambda>s. Inr s),
      get_datetime = example_get_datetime,
      now_datetime = 63873566130123456,
      fetch_shift = (\<lambda>c. Inr \<lparr>si_shift = None, si_shift_start = None, si_shift_end = None\<rparr>),
      insert_error = (\<lambda>c cs. None),
      new_checkin_name = (\<lambda>c cs. ''EMP-CKIN-'' @ replicate (length cs) CHR ''I''),
      save_file_error = (\<lambda>n b. None),
      new_file_name = (\<lambda>n fs. ''FILE-'' @ replicate (length fs) CHR ''I''),
      new_file_url = (\<lambda>n fs. ''/files/'' @ n),
      file_save_error = (\<lambda>f. None),
      checkin_has_notes = False,
      checkin_has_custom_location_photo = True,
      checkin_has_custom_client_bio_metric_photo = True,
      request_files = [],
      authenticate = (\<lambda>usr pwd. if pwd = ''secret'' then Inr (Some usr)
                                  else Inl (AuthenticationError ''Incorrect password'')),
      post_login = (\<lambda>u. None),
      new_sid = (\<lambda>u. ''sid-'' @ u),
      generate_hash = (\<lambda>n. if n = 0 then ''0a1b2c3d4e5f6a7'' else ''f0e1d2c3b4a5968''),
      user_save_error = (\<lambda>u. None),
      sql_like = (\<lambda>text pattern. False)\<rparr>"

definition example_args :: checkin_args where
  "example_args =
     \<lparr>employee_id = Some ''EMP-001'', log_type = ''IN'',
      latitude = PFloat (Finite 40.0005), longitude = PFloat (Finite (- 74)),
      device_id = Some ''phone-1'', location_photo = PNone, client_biometric_photo = PNone,
      timestamp = PNone, arg_notes = None, location_photo_id = None,
      client_biometric_photo_id = None\<rparr>"

text \<open>A history of three check-ins of the employee, and a query for its records.\<close>

definition example_history :: db where
  "example_history =
     example_db\<lparr>checkins :=
       [\<lparr>ci_name = ''CK-1'', ci_employee = ''EMP-001'', ci_employee_name = ''Asha'',
         ci_log_type = ''IN'', ci_time = 1000000, ci_latitude = None, ci_longitude = None,
         ci_device_id = None, ci_notes = None, ci_shift = None, ci_shift_start = None,
         ci_shift_end = None, ci_attendance = None, ci_skip_auto_attendance = False,
         ci_custom_location_photo = None, ci_custom_client_bio_metric_photo = None\<rparr>,
        \<lparr>ci_name = ''CK-2'', ci_employee = ''EMP-001'', ci_employee_name = ''Asha'',
         ci_log_type = ''OUT'', ci_time = 2000000, ci_latitude = None, ci_longitude = None,
         ci_device_id = None, ci_notes = None, ci_shift = None, ci_shift_start = None,
         ci_shift_end = None, ci_attendance = None, ci_skip_auto_attendance = False,
         ci_custom_location_photo = None, ci_custom_client_bio_metric_photo = None\<rparr>,
        \<lparr>ci_name = ''CK-3'', ci_employee = ''EMP-001'', ci_employee_name = ''Asha'',
         ci_log_type = ''IN'', ci_time = 90000000000, ci_latitude = None, ci_longitude = None,
         ci_device_id = None, ci_notes = None, ci_shift = None, ci_shift_start = None,
         ci_shift_end = None, ci_attendance = None, ci_skip_auto_attendance = False,
         ci_custom_location_photo = None, ci_custom_client_bio_metric_photo = None\<rparr>]\<rparr>"

definition example_query :: records_args where
  "example_query =
     \<lparr>q_employee_id = Some ''EMP-001'', q_log_type = None, q_start_date = PNone,
      q_end_date = PNone, q_limit = PStr ''2'', q_offset = PInt (- 3)\<rparr>"

text \<open>Two databases that differ at most in the error log.\<close>

definition same_data :: "db \<Rightarrow> db \<Rightarrow> bool" where
  "same_data s s' = (s'\<lparr>error_log := error_log s\<rparr> = s)"

text \<open>The example database after a check-in at 08:00 on 2025-01-27.\<close>

definition example_checked_in :: db where
  "example_checked_in =
     example_db\<lparr>checkins :=
       [\<lparr>ci_name = ''EMP-CKIN-'', ci_employee = ''EMP-001'', ci_employee_name = ''Asha'',
         ci_log_type = ''IN'', ci_time = 63873561600000000, ci_latitude = Some (Finite 40.0005),
         ci_longitude = Some (Finite (- 74)), ci_device_id = Some ''phone-1'', ci_notes = None,
         ci_shift = None, ci_shift_start = None, ci_shift_end = None, ci_attendance = None,
         ci_skip_auto_attendance = False, ci_custom_location_photo = None,
         ci_custom_client_bio_metric_photo = None\<rparr>]\<rparr>"

text \<open>The settings of the example employee.\<close>

definition example_settings :: settings where
  "example_settings =
     \<lparr>required_to_upload_location_photo = False,
      required_to_upload_client_bio_metric_photo = False,
      require_location_check_on_check_out = False,
      branch_latitude = Finite 40, branch_longitude = Finite (- 74), branch_radius = 100,
      settings_branch = ''HQ''\<rparr>"

text \<open>The example database with one uploaded file.\<close>

definition example_file :: file_doc where
  "example_file =
     \<lparr>f_name = ''FILE-1'', f_file_name = ''site.jpg'', f_file_url = ''/files/site.jpg'',
      f_content = ''JPEG'', f_attached_to_doctype = None, f_attached_to_name = None\<rparr>"

definition example_with_file :: db where
  "example_with_file = example_db\<lparr>files := [example_file]\<rparr>"

text \<open>
  The example database after a check-in at 2025-01-02 00:00:00, and the example
  database with a department that requires the location photo.
\<close>

definition example_midnight :: db where
  "example_midnight =
     example_db\<lparr>checkins :=
       [\<lparr>ci_name = ''EMP-CKIN-'', ci_employee = ''EMP-001'', ci_employee_name = ''Asha'',
         ci_log_type = ''IN'', ci_time = 63871372800000000, ci_latitude = Some (Finite 40.0005),
         ci_longitude = Some (Finite (- 74)), ci_device_id = Some ''phone-1'', ci_notes = None,
         ci_shift = None, ci_shift_start = None, ci_shift_end = None, ci_attendance = None,
         ci_skip_auto_attendance = False, ci_custom_location_photo = None,
         ci_custom_client_bio_metric_photo = None\<rparr>]\<rparr>"

definition example_photo_required :: db where
  "example_photo_required =
     example_db\<lparr>departments :=
       [''Field'' \<mapsto> example_department\<lparr>custom_required_to_upload_location_photo :=
                                            Some (PInt 1)\<rparr>]\<rparr>"

text \<open>
  The example database after a check-in, with a department that asks for the location
  check on check-out.
\<close>

definition example_flagged :: db where
  "example_flagged =
     example_checked_in\<lparr>departments :=
       [''Field'' \<mapsto> example_department\<lparr>custom_required_location_check_on_check_out :=
                                            Some (PInt 1)\<rparr>]\<rparr>"

section \<open>Field values of the example installation\<close>

lemma example_db_fields:
  "users example_db = [''asha@example.com'' \<mapsto> example_user]"
  "employees example_db = [example_employee]"
  "companies example_db =
     [''ACME'' \<mapsto> \<lparr>custom_attendnace_validations_based_on_department = Some (PInt 1)\<rparr>]"
  "departments example_db = [''Field'' \<mapsto> example_department]"
  "projects example_db = Map.empty"
  "branches example_db = [''HQ'' \<mapsto> example_branch]"
  "checkins example_db = []"
  "files example_db = []"
  "error_log example_db = []"
  "http_status_code example_db = 200"
  "session_user example_db = ''asha@example.com''"
  "session_sid example_db = None"
  by (simp_all add: example_db_def)

lemma example_env_fields:
  "parse_float example_env = (\<lambda>s. None)"
  "parse_int example_env = (\<lambda>s. if s = ''2'' then Some 2 else None)"
  "format_2f example_env = (\<lambda>r. ''#.##'')"
  "str_int example_env = (\<lambda>n. ''#'')"
  "round2 example_env = (\<lambda>r. r)"
  "format_date example_env = example_format_date"
  "format_stamp example_env = (\<lambda>t. ''<stamp>'')"
  "get_distance_between_coordinates example_env = example_distance"
  "validate_active_employee example_env = (\<lambda>n. None)"
  "b64decode example_env = (\<lambda>s. Inr s)"
  "get_datetime example_env = example_get_datetime"
  "now_datetime example_env = 63873566130123456"
  "fetch_shift example_env =
     (\<lambda>c. Inr \<lparr>si_shift = None, si_shift_start = None, si_shift_end = None\<rparr>)"
  "insert_error example_env = (\<lambda>c cs. None)"
  "new_checkin_name example_env = (\<lambda>c cs. ''EMP-CKIN-'' @ replicate (length cs) CHR ''I'')"
  "save_file_error example_env = (\<lambda>n b. None)"
  "new_file_name example_env = (\<lambda>n fs. ''FILE-'' @ replicate (length fs) CHR ''I'')"
  "new_file_url example_env = (\<lambda>n fs. ''/files/'' @ n)"
  "file_save_error example_env = (\<lambda>f. None)"
  "checkin_has_notes example_env = False"
  "checkin_has_custom_location_photo example_env = True"
  "checkin_has_custom_client_bio_metric_photo example_env = True"
  "request_files example_env = []"
  "authenticate example_env =
     (\<lambda>usr pwd. if pwd = ''secret'' then Inr (Some usr)
                 else Inl (AuthenticationError ''Incorrect password''))"
  "generate_hash example_env =
     (\<lambda>n. if n = 0 then ''0a1b2c3d4e5f6a7'' else ''f0e1d2c3b4a5968'')"
  "post_login example_env = (\<lambda>u. None)"
  "new_sid example_env = (\<lambda>u. ''sid-'' @ u)"
  "user_save_error example_env = (\<lambda>u. None)"
  "sql_like example_env = (\<lambda>text pattern. False)"
  by (simp_all add: example_env_def)

lemma example_history_fields:
  "employees example_history = [example_employee]"
  "files example_history = []"
  "session_user example_history = ''asha@example.com''"
  "map ci_name (checkins example_history) = [''CK-1'', ''CK-2'', ''CK-3'']"
  "map ci_time (checkins example_history) = [1000000, 2000000, 90000000000]"
  "map ci_employee (checkins example_history) = [''EMP-001'', ''EMP-001'', ''EMP-001'']"
  by (simp_all add: example_history_def example_db_fields)

section \<open>The flag of mobile\_login\<close>

lemma lower_char_idem: "lower_char (lower_char c) = lower_char c"
  by (simp add: lower_char_def Let_def)

lemma lower_idem: "lower (lower s) = lower s"
  by (simp add: lower_def lower_char_idem)

lemma lower_examples:
  "lower ''TRUE'' = ''true''" "lower ''Yes'' = ''yes''" "lower ''1'' = ''1''"
  "lower ''false'' = ''false''" "lower ''no'' = ''no''" "lower [] = []"
  by code_simp+

text \<open>
  C9. A string-valued \<^verbatim>\<open>has_existing_token\<close> is true exactly when its lower-case
  form is \<^verbatim>\<open>"true"\<close>, \<^verbatim>\<open>"1"\<close> or \<^verbatim>\<open>"yes"\<close>, whatever the case of its letters
  (\<^verbatim>\<open>"TRUE"\<close> and \<^verbatim>\<open>"Yes"\<close> are true); \<^verbatim>\<open>"false"\<close>, \<^verbatim>\<open>"no"\<close> and the empty
  string are false. A value that is no string is true when it is truthy.
\<close>

theorem has_existing_token_coercion:
  "coerce_has_existing_token (PStr s)
     = (lower s = ''true'' \<or> lower s = ''1'' \<or> lower s = ''yes'')
   \<and> coerce_has_existing_token (PStr (lower s)) = coerce_has_existing_token (PStr s)
   \<and> coerce_has_existing_token (PStr ''TRUE'')
   \<and> coerce_has_existing_token (PStr ''Yes'')
   \<and> coerce_has_existing_token (PStr ''1'')
   \<and> \<not> coerce_has_existing_token (PStr ''false'')
   \<and> \<not> coerce_has_existing_token (PStr ''no'')
   \<and> \<not> coerce_has_existing_token (PStr [])
   \<and> coerce_has_existing_token PNone = False
   \<and> coerce_has_existing_token (PBool b) = b
   \<and> coerce_has_existing_token (PInt n) = (n \<noteq> 0)
   \<and> coerce_has_existing_token (PFloat f) = (f \<noteq> Finite 0)
   \<and> coerce_has_existing_token (PBytes bs) = (bs \<noteq> [])
   \<and> coerce_has_existing_token (PFileStorage fname content) = (fname \<noteq> [])"
  by (simp add: coerce_has_existing_token_def lower_idem lower_examples)

section \<open>Pagination of get\_employee\_checkin\_records\<close>

lemma py_int_raises:
  "py_int E v = Inl e \<Longrightarrow>
     (\<exists>m. e = ValueError m) \<or> (\<exists>m. e = TypeError m)
     \<or> (v = PFloat PosInf \<or> v = PFloat NegInf)
        \<and> e = OverflowError ''cannot convert float infinity to integer''"
  by (auto simp: py_int_def split: pyval.splits option.splits pyfloat.splits)

lemma py_int_float:
  "py_int E (PFloat (Finite x)) = Inr (if 0 \<le> x then \<lfloor>x\<rfloor> else \<lceil>x\<rceil>)"
  "py_int E (PFloat NaN) = Inl (ValueError ''cannot convert float NaN to integer'')"
  "py_int E (PFloat PosInf) = Inl (OverflowError ''cannot convert float infinity to integer'')"
  "py_int E (PFloat NegInf) = Inl (OverflowError ''cannot convert float infinity to integer'')"
  by (simp_all add: py_int_def)

lemma sanitize_limit_eq:
  assumes "v \<noteq> PFloat PosInf" and "v \<noteq> PFloat NegInf"
  shows "sanitize_limit E v =
     Inr (if v = PNone then 100
          else case py_int E v of Inl e \<Rightarrow> 100 | Inr n \<Rightarrow> if n < 1 then 100 else n)"
  using assms
  by (auto simp: sanitize_limit_def dest: py_int_raises split: sum.splits exn.splits)

lemma sanitize_offset_eq:
  assumes "v \<noteq> PFloat PosInf" and "v \<noteq> PFloat NegInf"
  shows "sanitize_offset E v =
     Inr (case py_int E v of Inl e \<Rightarrow> 0 | Inr n \<Rightarrow> if n < 0 then 0 else n)"
  using assms
  by (auto simp: sanitize_offset_def dest: py_int_raises split: sum.splits exn.splits)

text \<open>
  An infinite float is not sanitised: \<^verbatim>\<open>int\<close> raises \<^verbatim>\<open>OverflowError\<close>, which the
  \<^verbatim>\<open>except (ValueError, TypeError)\<close> of lines 1070 and 1079 does not catch.
\<close>

lemma infinite_pagination_raises:
  "sanitize_limit E (PFloat PosInf)
     = Inl (OverflowError ''cannot convert float infinity to integer'')"
  "sanitize_limit E (PFloat NegInf)
     = Inl (OverflowError ''cannot convert float infinity to integer'')"
  "sanitize_offset E (PFloat PosInf)
     = Inl (OverflowError ''cannot convert float infinity to integer'')"
  "sanitize_offset E (PFloat NegInf)
     = Inl (OverflowError ''cannot convert float infinity to integer'')"
  by (simp_all add: sanitize_limit_def sanitize_offset_def py_int_def)

lemma sanitized_Inr:
  assumes "sanitize_limit E l = Inr lmt" and "sanitize_offset E off = Inr start"
  shows "lmt = (if l = PNone then 100
                else case py_int E l of
                       Inl e \<Rightarrow> 100 | Inr n \<Rightarrow> if n < 1 then 100 else n)"
    and "start = (case py_int E off of Inl e \<Rightarrow> 0 | Inr n \<Rightarrow> if n < 0 then 0 else n)"
  using assms
  by (auto simp: sanitize_limit_def sanitize_offset_def
           split: sum.splits exn.splits if_splits)

lemma records_Inr:
  assumes "get_employee_checkin_records E args s = Inr r"
  obtains emp lt tf where
    "records_employee s (q_employee_id args) = Inr emp"
    "records_log_type (q_log_type args) = Inr lt"
    "records_time_filter E (q_start_date args) (q_end_date args) = Inr tf"
    "sanitize_limit E (q_limit args) = Inr (limit r)"
    "sanitize_offset E (q_offset args) = Inr (offset r)"
    "total_count r = int (length (matching_checkins s (emp_name emp) lt tf))"
    "has_more r = (offset r + limit r < total_count r)"
    "records r = map (build_record E s emp)
                   (get_all_checkins (matching_checkins s (emp_name emp) lt tf)
                      (limit r) (offset r))"
  using assms
  by (auto simp: get_employee_checkin_records_def bind_exn_def Let_def split: sum.splits)

lemma records_any_pagination:
  assumes "records_employee s (q_employee_id args) = Inr emp"
    and "records_log_type (q_log_type args) = Inr lt"
    and "records_time_filter E (q_start_date args) (q_end_date args) = Inr tf"
    and "l \<noteq> PFloat PosInf" and "l \<noteq> PFloat NegInf"
    and "off \<noteq> PFloat PosInf" and "off \<noteq> PFloat NegInf"
  shows "\<exists>r'. get_employee_checkin_records E (args\<lparr>q_limit := l, q_offset := off\<rparr>) s = Inr r'
            \<and> limit r' = (if l = PNone then 100
                          else case py_int E l of
                                 Inl e \<Rightarrow> 100 | Inr n \<Rightarrow> if n < 1 then 100 else n)
            \<and> offset r' = (case py_int E off of
                             Inl e \<Rightarrow> 0 | Inr n \<Rightarrow> if n < 0 then 0 else n)"
  using assms
  by (simp add: get_employee_checkin_records_def sanitize_limit_eq sanitize_offset_eq
        bind_exn_def Let_def)

lemma example_records_employee:
  "records_employee example_history (Some ''EMP-001'') = Inr example_employee"
  by (simp add: records_employee_def get_employee_doc_def find_employee_def
        example_history_fields example_employee_def)

lemma example_matching:
  "length (matching_checkins example_history ''EMP-001'' None AnyTime) = 3"
  using example_history_fields(6)
  by (simp add: matching_checkins_def example_history_def)

lemmas records_eval =
  get_employee_checkin_records_def example_records_employee records_log_type_def
  records_time_filter_def bind_exn_def example_query_def Let_def py_int_def
  sanitize_limit_def sanitize_offset_def example_env_fields example_matching
  example_employee_def get_all_checkins_def

text \<open>
  C10, as the claim has it: a limit that is no integer becomes 100. The code converts
  the limit and the offset with \<^verbatim>\<open>int\<close>, which truncates a float: the limit 2.7 is
  used as 2 and the offset 1.5 as 1, and the call returns two records from the second
  row on.
\<close>

theorem fractional_limit_truncated:
  "sanitize_limit example_env (PFloat (Finite 2.7)) = Inr 2
   \<and> sanitize_offset example_env (PFloat (Finite 1.5)) = Inr 1
   \<and> map_sum id limit
       (get_employee_checkin_records example_env
          (example_query\<lparr>q_limit := PFloat (Finite 2.7), q_offset := PFloat (Finite 1.5)\<rparr>)
          example_history) = Inr 2
   \<and> map_sum id offset
       (get_employee_checkin_records example_env
          (example_query\<lparr>q_limit := PFloat (Finite 2.7), q_offset := PFloat (Finite 1.5)\<rparr>)
          example_history) = Inr 1
   \<and> map_sum id (length \<circ> records)
       (get_employee_checkin_records example_env
          (example_query\<lparr>q_limit := PFloat (Finite 2.7), q_offset := PFloat (Finite 1.5)\<rparr>)
          example_history) = Inr 2"
  by (simp add: records_eval)

text \<open>
  C10, amended. The limit and the offset are converted with \<^verbatim>\<open>int\<close> and sanitised: a
  limit that is missing, that \<^verbatim>\<open>int\<close> refuses with \<^verbatim>\<open>ValueError\<close> or \<^verbatim>\<open>TypeError\<close>
  (a text that is no integer literal, NaN, a value that is no number) or that converts
  to less than 1 becomes 100; an offset that \<^verbatim>\<open>int\<close> refuses in that way or that
  converts to a negative number becomes 0; any other value is used as \<^verbatim>\<open>int\<close> converts
  it, a finite float truncated towards zero. Of a call that returns, \<^verbatim>\<open>limit\<close> and
  \<^verbatim>\<open>offset\<close> are these values, the limit at least 1 and the offset at least 0,
  \<^verbatim>\<open>has_more\<close> is \<^verbatim>\<open>(offset + limit) < total_count\<close> on them, and the records are the
  matching rows, latest first, from row \<^verbatim>\<open>offset\<close> on, at most \<^verbatim>\<open>limit\<close> of them; and
  the same call returns with any other limit and offset that is not an infinite float,
  with that limit and offset sanitised.
\<close>

theorem pagination_sanitized:
  assumes "get_employee_checkin_records E args s = Inr r"
  shows "limit r = (if q_limit args = PNone then 100
                    else case py_int E (q_limit args) of
                           Inl e \<Rightarrow> 100 | Inr n \<Rightarrow> if n < 1 then 100 else n)
       \<and> offset r = (case py_int E (q_offset args) of
                       Inl e \<Rightarrow> 0 | Inr n \<Rightarrow> if n < 0 then 0 else n)
       \<and> 1 \<le> limit r \<and> 0 \<le> offset r
       \<and> has_more r = (offset r + limit r < total_count r)
       \<and> length (records r) \<le> nat (limit r)
       \<and> (\<exists>emp lt tf.
             total_count r = int (length (matching_checkins s (emp_name emp) lt tf))
           \<and> records r =
               map (build_record E s emp)
                 (take (nat (limit r)) (drop (nat (offset r))
                    (rev (sort_key ci_time (matching_checkins s (emp_name emp) lt tf))))))
       \<and> (\<forall>l off. l \<notin> {PFloat PosInf, PFloat NegInf} \<longrightarrow> off \<notin> {PFloat PosInf, PFloat NegInf} \<longrightarrow>
            (\<exists>r'. get_employee_checkin_records E (args\<lparr>q_limit := l, q_offset := off\<rparr>) s
                     = Inr r'
                 \<and> limit r' = (if l = PNone then 100
                               else case py_int E l of
                                      Inl e \<Rightarrow> 100 | Inr n \<Rightarrow> if n < 1 then 100 else n)
                 \<and> offset r' = (case py_int E off of
                                  Inl e \<Rightarrow> 0 | Inr n \<Rightarrow> if n < 0 then 0 else n)))
       \<and> py_int E (PFloat (Finite x)) = Inr (if 0 \<le> x then \<lfloor>x\<rfloor> else \<lceil>x\<rceil>)
       \<and> (\<exists>m. py_int E (PFloat NaN) = Inl (ValueError m))
       \<and> (\<exists>m. py_int E PNone = Inl (TypeError m))"
proof -
  from assms obtain emp lt tf where
    e: "records_employee s (q_employee_id args) = Inr emp"
    and l: "records_log_type (q_log_type args) = Inr lt"
    and t: "records_time_filter E (q_start_date args) (q_end_date args) = Inr tf"
    and sl: "sanitize_limit E (q_limit args) = Inr (limit r)"
    and so: "sanitize_offset E (q_offset args) = Inr (offset r)"
    and tot: "total_count r = int (length (matching_checkins s (emp_name emp) lt tf))"
    and more: "has_more r = (offset r + limit r < total_count r)"
    and rs: "records r = map (build_record E s emp)
                   (get_all_checkins (matching_checkins s (emp_name emp) lt tf)
                      (limit r) (offset r))"
    by (rule records_Inr)
  note lim = sanitized_Inr(1) [OF sl so] and off = sanitized_Inr(2) [OF sl so]
  have pos: "1 \<le> limit r" unfolding lim by (simp split: sum.splits)
  have nonneg: "0 \<le> offset r" unfolding off by (simp split: sum.splits)
  have recs: "records r = map (build_record E s emp)
                 (take (nat (limit r)) (drop (nat (offset r))
                    (rev (sort_key ci_time (matching_checkins s (emp_name emp) lt tf)))))"
    by (simp add: rs get_all_checkins_def)
  have len: "length (records r) \<le> nat (limit r)" unfolding recs by simp
  have any: "\<forall>l off. l \<notin> {PFloat PosInf, PFloat NegInf} \<longrightarrow> off \<notin> {PFloat PosInf, PFloat NegInf} \<longrightarrow>
            (\<exists>r'. get_employee_checkin_records E (args\<lparr>q_limit := l, q_offset := off\<rparr>) s
                     = Inr r'
                 \<and> limit r' = (if l = PNone then 100
                               else case py_int E l of
                                      Inl e \<Rightarrow> 100 | Inr n \<Rightarrow> if n < 1 then 100 else n)
                 \<and> offset r' = (case py_int E off of
                                  Inl e \<Rightarrow> 0 | Inr n \<Rightarrow> if n < 0 then 0 else n))"
    using records_any_pagination [OF e l t] by simp
  have conv: "py_int E (PFloat (Finite x)) = Inr (if 0 \<le> x then \<lfloor>x\<rfloor> else \<lceil>x\<rceil>)
       \<and> (\<exists>m. py_int E (PFloat NaN) = Inl (ValueError m))
       \<and> (\<exists>m. py_int E PNone = Inl (TypeError m))"
    by (simp add: py_int_def)
  from lim off pos nonneg more len recs tot any conv show ?thesis by blast
qed

theorem pagination_sanitized_witness:
  "\<exists>r r'. get_employee_checkin_records example_env example_query example_history = Inr r
      \<and> limit r = 2 \<and> offset r = 0 \<and> total_count r = 3 \<and> has_more r
      \<and> length (records r) = 2
      \<and> get_employee_checkin_records example_env
           (example_query\<lparr>q_limit := PStr ''ten'', q_offset := PInt (- 3)\<rparr>) example_history
          = Inr r'
      \<and> limit r' = 100 \<and> offset r' = 0"
proof -
  obtain r where r: "get_employee_checkin_records example_env example_query example_history = Inr r"
    by (simp add: records_eval)
  note p = pagination_sanitized [OF r]
  from p have a: "limit r = 2 \<and> offset r = 0"
    by (simp add: py_int_def example_query_def example_env_fields)
  from r have b: "total_count r = 3 \<and> has_more r \<and> length (records r) = 2"
    by (auto simp add: records_eval)
  from p have q: "\<forall>l off. l \<notin> {PFloat PosInf, PFloat NegInf} \<longrightarrow>
                  off \<notin> {PFloat PosInf, PFloat NegInf} \<longrightarrow>
            (\<exists>r'. get_employee_checkin_records example_env
                     (example_query\<lparr>q_limit := l, q_offset := off\<rparr>) example_history = Inr r'
                 \<and> limit r' = (if l = PNone then 100
                               else case py_int example_env l of
                                      Inl e \<Rightarrow> 100 | Inr n \<Rightarrow> if n < 1 then 100 else n)
                 \<and> offset r' = (case py_int example_env off of
                                  Inl e \<Rightarrow> 0 | Inr n \<Rightarrow> if n < 0 then 0 else n))"
    by simp
  from q [rule_format, of "PStr ''ten''" "PInt (- 3)"]
  obtain r' where c: "get_employee_checkin_records example_env
           (example_query\<lparr>q_limit := PStr ''ten'', q_offset := PInt (- 3)\<rparr>) example_history
          = Inr r' \<and> limit r' = 100 \<and> offset r' = 0"
    by (auto simp: py_int_def example_env_fields)
  from r a b c show ?thesis by (intro exI [of _ r] exI [of _ r']) simp
qed

section \<open>The credentials of mobile\_login\<close>

lemma perform_login_users:
  "perform_login E u p s = (x, s1) \<Longrightarrow> users s1 = users s"
  by (auto simp: perform_login_def split: sum.splits if_splits option.splits)

lemma truthy_str_the: "truthy_str a \<Longrightarrow> a = Some (the a)"
  by (cases a) auto

lemma perform_login_user:
  "perform_login E u p s = (Inr user, s1) \<Longrightarrow> authenticate E u p = Inr (Some user)"
  by (auto simp: perform_login_def dest: truthy_str_the split: sum.splits if_splits option.splits)

lemma generate_credentials_failure:
  "generate_credentials E doc s = (Inl e, s') \<Longrightarrow> s' = s"
  by (auto simp: generate_credentials_def Let_def split: option.splits)

lemma generate_credentials_success:
  "generate_credentials E doc s = (Inr c, s') \<Longrightarrow>
     c = \<lparr>token = Some ((if truthy_str (api_key doc) then the (api_key doc) else generate_hash E 1)
                       @ '':'' @ generate_hash E 0),
          generated = True,
          cred_message = (if \<not> truthy_str (api_key doc)
                          then ''API credentials generated successfully.''
                          else ''New API credentials generated. Old credentials are now invalid.'')\<rparr>
   \<and> s' = s\<lparr>users := (users s)(u_name doc \<mapsto>
              doc\<lparr>api_key := Some (if truthy_str (api_key doc) then the (api_key doc)
                                    else generate_hash E 1),
                  api_secret := Some (generate_hash E 0)\<rparr>)\<rparr>"
  by (auto simp: generate_credentials_def Let_def split: option.splits)

text \<open>
  C6. With a true \<^verbatim>\<open>has_existing_token\<close>, \<^verbatim>\<open>mobile_login\<close> leaves the API
  credentials of every user as they were and returns no token. With a false one, a
  call that returns gives the token \<^verbatim>\<open>api_key:api_secret\<close>: the key is the user's own
  when the user has one and a freshly generated one only otherwise, the secret is
  always freshly generated, and the user is saved with this key and this secret, which
  replaces any secret stored before; a call that raises leaves the credentials as
  they were.
\<close>

theorem mobile_login_credentials:
  "(coerce_has_existing_token f \<longrightarrow>
      users (snd (mobile_login E usr pwd f s)) = users s
    \<and> (\<forall>r. fst (mobile_login E usr pwd f s) = Inr r \<longrightarrow>
           token (credentials r) = None \<and> \<not> generated (credentials r)))
 \<and> (\<not> coerce_has_existing_token f \<longrightarrow>
      (case mobile_login E usr pwd f s of
         (Inl e, s') \<Rightarrow> users s' = users s
       | (Inr r, s') \<Rightarrow>
           (\<exists>user doc key secret.
              authenticate E (the usr) (the pwd) = Inr (Some user)
            \<and> users s user = Some doc
            \<and> secret = generate_hash E 0
            \<and> key = (if truthy_str (api_key doc) then the (api_key doc) else generate_hash E 1)
            \<and> token (credentials r) = Some (key @ '':'' @ secret)
            \<and> generated (credentials r)
            \<and> users s' = (users s)(u_name doc \<mapsto>
                             doc\<lparr>api_key := Some key, api_secret := Some secret\<rparr>))))"
proof (intro conjI impI)
  assume f: "coerce_has_existing_token f"
  show "users (snd (mobile_login E usr pwd f s)) = users s"
    using f by (auto simp: mobile_login_def Let_def get_doc_def dest: perform_login_users
                  split: prod.splits sum.splits option.splits)
  show "\<forall>r. fst (mobile_login E usr pwd f s) = Inr r \<longrightarrow>
           token (credentials r) = None \<and> \<not> generated (credentials r)"
    using f by (auto simp: mobile_login_def Let_def get_doc_def
                  split: prod.splits sum.splits option.splits if_splits)
next
  assume f: "\<not> coerce_has_existing_token f"
  show "case mobile_login E usr pwd f s of
         (Inl e, s') \<Rightarrow> users s' = users s
       | (Inr r, s') \<Rightarrow>
           (\<exists>user doc key secret.
              authenticate E (the usr) (the pwd) = Inr (Some user)
            \<and> users s user = Some doc
            \<and> secret = generate_hash E 0
            \<and> key = (if truthy_str (api_key doc) then the (api_key doc) else generate_hash E 1)
            \<and> token (credentials r) = Some (key @ '':'' @ secret)
            \<and> generated (credentials r)
            \<and> users s' = (users s)(u_name doc \<mapsto>
                             doc\<lparr>api_key := Some key, api_secret := Some secret\<rparr>))"
  proof (cases "mobile_login E usr pwd f s")
    case (Pair res s')
    show ?thesis
    proof (cases res)
      case (Inl e)
      with Pair f show ?thesis
        by (auto simp: mobile_login_def Let_def get_doc_def
              dest: perform_login_users generate_credentials_failure
              split: prod.splits sum.splits option.splits if_splits)
    next
      case (Inr r)
      with Pair f obtain user s1 doc c where
        l: "perform_login E (the usr) (the pwd) s = (Inr user, s1)"
        and d: "users s1 user = Some doc"
        and g: "generate_credentials E doc s1 = (Inr c, s')"
        and r: "credentials r = c"
        by (auto simp: mobile_login_def Let_def get_doc_def
              split: prod.splits sum.splits option.splits if_splits)
      from perform_login_users [OF l] have u: "users s1 = users s" .
      from generate_credentials_success [OF g] u d r perform_login_user [OF l]
      show ?thesis using Pair Inr by auto
    qed
  qed
qed


theorem mobile_login_credentials_witness:
  "\<not> coerce_has_existing_token (PStr ''no'')
   \<and> coerce_has_existing_token (PStr ''true'')
   \<and> (\<exists>r s'. mobile_login example_env (Some ''asha@example.com'') (Some ''secret'')
                  (PStr ''no'') example_db = (Inr r, s')
            \<and> token (credentials r) = Some ''f0e1d2c3b4a5968:0a1b2c3d4e5f6a7''
            \<and> users s' ''asha@example.com''
                = Some (example_user\<lparr>api_key := Some ''f0e1d2c3b4a5968'',
                                        api_secret := Some ''0a1b2c3d4e5f6a7''\<rparr>))
   \<and> users (snd (mobile_login example_env (Some ''asha@example.com'') (Some ''secret'')
                   (PStr ''true'') example_db)) = users example_db
   \<and> (\<exists>r. fst (mobile_login example_env (Some ''asha@example.com'') (Some ''secret'')
                   (PStr ''true'') example_db) = Inr r
          \<and> token (credentials r) = None)"
proof -
  have no: "\<not> coerce_has_existing_token (PStr ''no'')" by code_simp
  have yes: "coerce_has_existing_token (PStr ''true'')" by code_simp
  obtain r s' where m: "mobile_login example_env (Some ''asha@example.com'') (Some ''secret'')
                  (PStr ''no'') example_db = (Inr r, s')"
    using no by (simp add: mobile_login_def perform_login_def generate_credentials_def
                   get_doc_def example_env_fields example_db_fields Let_def)
  from mobile_login_credentials [of "PStr ''no''" example_env "Some ''asha@example.com''"
      "Some ''secret''" example_db] no m
  have a: "token (credentials r) = Some ''f0e1d2c3b4a5968:0a1b2c3d4e5f6a7''
       \<and> users s' ''asha@example.com''
                = Some (example_user\<lparr>api_key := Some ''f0e1d2c3b4a5968'',
                                        api_secret := Some ''0a1b2c3d4e5f6a7''\<rparr>)"
    by (auto simp: example_env_fields example_db_fields example_user_def split: if_splits)
  obtain r2 where m2: "fst (mobile_login example_env (Some ''asha@example.com'') (Some ''secret'')
                   (PStr ''true'') example_db) = Inr r2"
    using yes by (simp add: mobile_login_def perform_login_def
                   get_doc_def example_env_fields example_db_fields Let_def)
  from mobile_login_credentials [of "PStr ''true''" example_env "Some ''asha@example.com''"
      "Some ''secret''" example_db] yes m2
  have b: "users (snd (mobile_login example_env (Some ''asha@example.com'') (Some ''secret'')
                   (PStr ''true'') example_db)) = users example_db
          \<and> token (credentials r2) = None"
    by simp
  from no yes m a m2 b show ?thesis by blast
qed

section \<open>The flow of the endpoint\<close>

lemma then_do_NextE:
  assumes "then_do m f s = (Next y, s')"
  obtains x s1 where "m s = (Next x, s1)" and "f x s1 = (Next y, s')"
  using assms by (auto simp: then_do_def split: prod.splits flow.splits)

lemma raising_Next: "raising m s = (Next x, s1) \<longleftrightarrow> m = Inr x \<and> s1 = s"
  by (auto simp: raising_def split: sum.splits)

lemma reading_Next: "reading f s = (Next x, s1) \<longleftrightarrow> f s = Inr x \<and> s1 = s"
  by (simp add: reading_def raising_Next)

lemma stateful_Next: "stateful f s = (Next x, s1) \<longleftrightarrow> f s = (Inr x, s1)"
  by (auto simp: stateful_def split: sum.splits prod.splits)

lemma required_photo_Next:
  "required_photo req label lt photo pid s = (Next x, s1) \<Longrightarrow> s1 = s"
  by (auto simp: required_photo_def split: if_splits)

section \<open>Statements that write to the error log only\<close>

lemma same_data_refl: "same_data s s"
  by (simp add: same_data_def)

lemma same_data_log_error: "same_data s (log_error t m s)"
  by (simp add: same_data_def log_error_def)

lemma same_data_trans: "same_data s s1 \<Longrightarrow> same_data s1 s2 \<Longrightarrow> same_data s s2"
  by (auto simp: same_data_def) (metis db.surjective db.update_convs(9))

lemma same_data_fields:
  assumes "same_data s s'"
  shows "users s' = users s" "employees s' = employees s" "companies s' = companies s"
    "departments s' = departments s" "projects s' = projects s" "branches s' = branches s"
    "checkins s' = checkins s" "files s' = files s" "http_status_code s' = http_status_code s"
    "session_user s' = session_user s" "session_sid s' = session_sid s"
proof -
  from assms have e: "s = s'\<lparr>error_log := error_log s\<rparr>" by (simp add: same_data_def)
  show "users s' = users s" "employees s' = employees s" "companies s' = companies s"
    "departments s' = departments s" "projects s' = projects s" "branches s' = branches s"
    "checkins s' = checkins s" "files s' = files s" "http_status_code s' = http_status_code s"
    "session_user s' = session_user s" "session_sid s' = session_sid s"
    by (subst e, simp)+
qed

lemma read_file_storage_same: "same_data s (snd (read_file_storage v s))"
  by (auto simp: read_file_storage_def same_data_refl same_data_log_error
        split: pyval.splits sum.splits)

lemma incoming_photo_same: "same_data s (snd (incoming_photo E k v s))"
  by (auto simp: incoming_photo_def same_data_refl read_file_storage_same
        split: pyval.splits option.splits)

lemma resolve_employee_same: "same_data s s' \<Longrightarrow> resolve_employee s' i = resolve_employee s i"
  by (simp add: resolve_employee_def find_employee_def get_employee_doc_def
        session_user_email_def employee_name_by_email_def same_data_fields Let_def cong: if_cong)

lemma get_employee_settings_same:
  "same_data s s' \<Longrightarrow> get_employee_settings E s' emp = get_employee_settings E s emp"
  by (simp add: get_employee_settings_def resolve_rules_def same_data_fields Let_def cong: if_cong)

lemma file_exists_same: "same_data s s' \<Longrightarrow> file_exists s' n = file_exists s n"
  by (simp add: file_exists_def find_file_def same_data_fields)

lemma required_photo_same:
  "same_data s s' \<Longrightarrow> fst (required_photo q l t p i s') = fst (required_photo q l t p i s)"
  by (simp add: required_photo_def file_exists_same cong: if_cong)

lemma checkins_between_same: "same_data s s' \<Longrightarrow> checkins_between s' = checkins_between s"
  by (intro ext) (simp add: checkins_between_def same_data_fields)

lemma one_in_one_out_same:
  "same_data s s' \<Longrightarrow> one_in_one_out E s' emp lt t = one_in_one_out E s emp lt t"
  by (simp add: one_in_one_out_def checkins_between_same cong: if_cong)


section \<open>What a returned value says about the steps\<close>

lemma then_do_ReturnE:
  assumes "then_do m f s = (Return r, s')"
  obtains "m s = (Return r, s')"
  | x s1 where "m s = (Next x, s1)" and "f x s1 = (Return r, s')"
  using assms by (auto simp: then_do_def split: prod.splits flow.splits)

lemma raising_Return: "raising m s \<noteq> (Return r, s')"
  by (auto simp: raising_def split: sum.splits)

lemma reading_Return: "reading f s \<noteq> (Return r, s')"
  by (simp add: reading_def raising_Return)

lemma stateful_Return: "stateful f s \<noteq> (Return r, s')"
  by (auto simp: stateful_def split: sum.splits prod.splits)

lemma required_photo_Return:
  "required_photo q l t p i s = (Return r, s') \<Longrightarrow>
     r = ExceptionBody (l @ '' is required for '' @ action_hyphen t @ ''.'') \<and> s' = s
     \<and> q \<and> \<not> truthy p \<and> \<not> truthy_str i"
  by (auto simp: required_photo_def split: if_splits)

lemma incoming_step_Next:
  "(case incoming_photo E k v s of (p, s') \<Rightarrow> (Next p, s')) = (Next x, s1)
     \<longleftrightarrow> incoming_photo E k v s = (x, s1)"
  by (auto split: prod.splits)

lemma validate_request_Next:
  assumes "validate_request E args s = (Next ctx, s1)"
  shows "same_data s s1
       \<and> resolve_employee s (employee_id args) = Inr (x_employee ctx)
       \<and> active_employee E (x_employee ctx) = Inr ()
       \<and> validate_log_type (log_type args) = Inr ()
       \<and> get_employee_settings E s (x_employee ctx) = Inr (x_settings ctx)
       \<and> location_check E (log_type args) (latitude args) (longitude args) (x_settings ctx)
           = Inr (x_distance ctx)
       \<and> parse_timestamp E (timestamp args) = Inr (x_checkin_time ctx)"
proof -
  from assms obtain p1 sa p2 sb emp st d t where
    a: "incoming_photo E ''location_photo'' (location_photo args) s = (p1, sa)"
    and b: "incoming_photo E ''client_biometric_photo'' (client_biometric_photo args) sa = (p2, sb)"
    and c: "resolve_employee sb (employee_id args) = Inr emp"
    and d: "active_employee E emp = Inr ()"
    and e: "validate_log_type (log_type args) = Inr ()"
    and f: "get_employee_settings E sb emp = Inr st"
    and g: "location_check E (log_type args) (latitude args) (longitude args) st = Inr d"
    and h: "parse_timestamp E (timestamp args) = Inr t"
    and i: "s1 = sb"
    and j: "ctx = \<lparr>x_employee = emp, x_settings = st, x_distance = d,
                   x_location_photo = p1, x_client_biometric_photo = p2,
                   x_checkin_time = t\<rparr>"
    unfolding validate_request_def
    by (elim then_do_NextE)
       (auto simp: raising_Next reading_Next incoming_step_Next dest!: required_photo_Next)
  from a have "same_data s sa" using incoming_photo_same [of s E] by (metis snd_conv)
  moreover from b have "same_data sa sb" using incoming_photo_same [of sa E] by (metis snd_conv)
  ultimately have sd: "same_data s sb" by (rule same_data_trans)
  from sd c d e f g h i j show ?thesis
    by (simp add: resolve_employee_same get_employee_settings_same)
qed


lemma insert_checkin_Inr:
  "insert_checkin E doc s = (Inr cdoc, s2) \<Longrightarrow>
     cdoc = doc\<lparr>ci_name := new_checkin_name E doc (checkins s)\<rparr>
   \<and> s2 = s\<lparr>checkins := checkins s @ [cdoc]\<rparr>"
  by (auto simp: insert_checkin_def Let_def split: option.splits)

lemma insert_checkin_Inl: "insert_checkin E doc s = (Inl e, s2) \<Longrightarrow> s2 = s"
  by (auto simp: insert_checkin_def Let_def split: option.splits)

lemma photo_bytes_checkins: "checkins (snd (photo_bytes E v s)) = checkins s"
  by (auto simp: photo_bytes_def log_error_def split: pyval.splits option.splits sum.splits)

lemma store_photo_checkins: "checkins (snd (store_photo E b e c t s)) = checkins s"
  by (auto simp: store_photo_def log_error_def Let_def split: option.splits)

lemma handle_photo_upload_checkins:
  "checkins (snd (handle_photo_upload E v e c t s)) = checkins s"
proof -
  have a: "\<And>s0. checkins (snd (case photo_bytes E v s0 of
              (Inl e', s2) \<Rightarrow> (Inl e', s2)
            | (Inr file_bytes, s2) \<Rightarrow>
                (case store_photo E file_bytes e c t s2 of
                   (Inl e', s3) \<Rightarrow> (Inl e', s3)
                 | (Inr file_doc, s3) \<Rightarrow> (Inr (Some file_doc), s3)))) = checkins s0"
  proof -
    fix s0
    show "checkins (snd (case photo_bytes E v s0 of
              (Inl e', s2) \<Rightarrow> (Inl e', s2)
            | (Inr file_bytes, s2) \<Rightarrow>
                (case store_photo E file_bytes e c t s2 of
                   (Inl e', s3) \<Rightarrow> (Inl e', s3)
                 | (Inr file_doc, s3) \<Rightarrow> (Inr (Some file_doc), s3)))) = checkins s0"
      using photo_bytes_checkins [of E v s0]
      by (auto split: prod.splits sum.splits)
         (metis snd_conv store_photo_checkins)+
  qed
  show ?thesis
    unfolding handle_photo_upload_def Let_def
    by (auto simp: a log_error_def split: pyval.splits)
qed

lemma attach_photo_checkins:
  "checkins (snd (attach_photo E v i e c t s)) = checkins s"
  by (auto simp: attach_photo_def handle_photo_upload_checkins Let_def split: option.splits)

lemma set_photo_values_times:
  "map ci_time (checkins (set_photo_values E n lf bf s)) = map ci_time (checkins s)"
  "map ci_name (checkins (set_photo_values E n lf bf s)) = map ci_name (checkins s)"
  "map ci_employee (checkins (set_photo_values E n lf bf s)) = map ci_employee (checkins s)"
  "map ci_log_type (checkins (set_photo_values E n lf bf s)) = map ci_log_type (checkins s)"
  by (auto simp: set_photo_values_def Let_def)

lemma new_checkin_Inr:
  "new_checkin E args emp t = Inr doc \<Longrightarrow>
     ci_time doc = t \<and> ci_employee doc = emp_name emp \<and> ci_log_type doc = log_type args"
  by (auto simp: new_checkin_def bind_exn_def Let_def split: sum.splits)

lemma record_checkin_Next:
  assumes "record_checkin E args ctx s1 = (Next resp, s')"
  shows "\<exists>doc cdoc lf bf s2 s3 s4.
           new_checkin E args (x_employee ctx) (x_checkin_time ctx) = Inr doc
         \<and> insert_checkin E doc s1 = (Inr cdoc, s2)
         \<and> attach_photo E (x_location_photo ctx) (location_photo_id args)
              (emp_name (x_employee ctx)) (ci_name cdoc) ''location'' s2 = (Inr lf, s3)
         \<and> attach_photo E (x_client_biometric_photo ctx) (client_biometric_photo_id args)
              (emp_name (x_employee ctx)) (ci_name cdoc) ''biometric'' s3 = (Inr bf, s4)
         \<and> resp = Success (success_response E args (x_employee ctx) cdoc (x_distance ctx) lf bf)
         \<and> s' = set_photo_values E (ci_name cdoc) lf bf s4"
  using assms unfolding record_checkin_def
  by (elim then_do_NextE) (auto simp: raising_Next stateful_Next)


lemma incoming_step_Return:
  "(case incoming_photo E k v s of (p, s') \<Rightarrow> (Next p, s')) \<noteq> (Return r, s1)"
  by (auto split: prod.splits)

lemma validate_request_Return:
  assumes "validate_request E args s = (Return r, s1)"
  shows "\<exists>m. r = ExceptionBody m"
  using assms unfolding validate_request_def
  by (elim then_do_ReturnE)
     (auto simp: raising_Return reading_Return incoming_step_Return
        dest!: required_photo_Return)

lemma record_checkin_Return: "record_checkin E args ctx s \<noteq> (Return r, s1)"
proof
  assume "record_checkin E args ctx s = (Return r, s1)"
  then show False unfolding record_checkin_def
    by (elim then_do_ReturnE) (auto simp: raising_Return stateful_Return)
qed

lemma checkin_body_Return:
  assumes "checkin_body E args s = (Return r, s1)"
  shows "\<exists>m. r = ExceptionBody m"
  using assms unfolding checkin_body_def
  by (elim then_do_ReturnE)
     (auto simp: reading_Return record_checkin_Return dest: validate_request_Return)

lemma checkin_body_Next:
  assumes "checkin_body E args s = (Next resp, s')"
  shows "\<exists>ctx s1. validate_request E args s = (Next ctx, s1)
           \<and> one_in_one_out E s1 (emp_name (x_employee ctx)) (log_type args)
                (x_checkin_time ctx) = Inr ()
           \<and> record_checkin E args ctx s1 = (Next resp, s')"
  using assms unfolding checkin_body_def
  by (elim then_do_NextE) (auto simp: reading_Next)

lemma create_checkin_checkout_Success:
  assumes "create_checkin_checkout E args s = (Success r, s')"
  shows "checkin_body E args s = (Next (Success r), s')"
proof (cases "checkin_body E args s")
  case (Pair fl s1)
  show ?thesis
  proof (cases fl)
    case (Next x) with Pair assms show ?thesis by (simp add: create_checkin_checkout_def)
  next
    case (Raise e) with Pair assms show ?thesis
      by (simp add: create_checkin_checkout_def split: if_splits)
  next
    case (Return x)
    with Pair checkin_body_Return [of E args s x s1] assms show ?thesis
      by (auto simp: create_checkin_checkout_def)
  qed
qed


section \<open>The stored timestamp\<close>

lemma floor_second: "replace_microsecond_0 t mod 1000000 = 0"
  by (simp add: replace_microsecond_0_def minus_mod_eq_mult_div)

lemma parse_timestamp_Inr:
  assumes "parse_timestamp E ts = Inr t"
  shows "t mod 1000000 = 0
       \<and> (if truthy ts then
            \<exists>dt. get_datetime E ts = Inr dt
               \<and> t = (case utcoffset dt of
                        None \<Rightarrow> micros dt - micros dt mod 1000000
                      | Some off \<Rightarrow> (micros dt - off) - (micros dt - off) mod 1000000)
          else t = now_datetime E - now_datetime E mod 1000000)"
proof -
  have "t mod 1000000 = 0"
    using assms floor_second
    by (auto simp: parse_timestamp_def split: if_splits sum.splits)
  moreover have "if truthy ts then
            \<exists>dt. get_datetime E ts = Inr dt
               \<and> t = (case utcoffset dt of
                        None \<Rightarrow> micros dt - micros dt mod 1000000
                      | Some off \<Rightarrow> (micros dt - off) - (micros dt - off) mod 1000000)
          else t = now_datetime E - now_datetime E mod 1000000"
    using assms
    by (auto simp: parse_timestamp_def astimezone_utc_naive_def replace_microsecond_0_def
          split: if_splits sum.splits option.splits)
  ultimately show ?thesis by simp
qed

lemma recorded_checkins:
  assumes "create_checkin_checkout E args s = (Success r, s')"
  shows "\<exists>(ctx::request_ctx) (cdoc::checkin).
           parse_timestamp E (timestamp args) = Inr (x_checkin_time ctx)
         \<and> resolve_employee s (employee_id args) = Inr (x_employee ctx)
         \<and> ci_time cdoc = x_checkin_time ctx
         \<and> ci_employee cdoc = emp_name (x_employee ctx)
         \<and> ci_log_type cdoc = log_type args
         \<and> r_time r = ci_time cdoc
         \<and> r_checkin_id r = ci_name cdoc
         \<and> map ci_time (checkins s') = map ci_time (checkins s) @ [ci_time cdoc]
         \<and> map ci_name (checkins s') = map ci_name (checkins s) @ [ci_name cdoc]
         \<and> map ci_employee (checkins s') = map ci_employee (checkins s) @ [ci_employee cdoc]
         \<and> map ci_log_type (checkins s') = map ci_log_type (checkins s) @ [ci_log_type cdoc]"
proof -
  from create_checkin_checkout_Success [OF assms] checkin_body_Next obtain ctx s1 where
    v: "validate_request E args s = (Next ctx, s1)"
    and rc: "record_checkin E args ctx s1 = (Next (Success r), s')"
    by blast
  from validate_request_Next [OF v] have
    sd: "same_data s s1"
    and pt: "parse_timestamp E (timestamp args) = Inr (x_checkin_time ctx)"
    and re: "resolve_employee s (employee_id args) = Inr (x_employee ctx)"
    by simp_all
  from record_checkin_Next [OF rc] obtain doc cdoc lf bf s2 s3 s4 where
    n: "new_checkin E args (x_employee ctx) (x_checkin_time ctx) = Inr doc"
    and i: "insert_checkin E doc s1 = (Inr cdoc, s2)"
    and a1: "attach_photo E (x_location_photo ctx) (location_photo_id args)
              (emp_name (x_employee ctx)) (ci_name cdoc) ''location'' s2 = (Inr lf, s3)"
    and a2: "attach_photo E (x_client_biometric_photo ctx) (client_biometric_photo_id args)
              (emp_name (x_employee ctx)) (ci_name cdoc) ''biometric'' s3 = (Inr bf, s4)"
    and r: "r = success_response E args (x_employee ctx) cdoc (x_distance ctx) lf bf"
    and s': "s' = set_photo_values E (ci_name cdoc) lf bf s4"
    by auto
  from insert_checkin_Inr [OF i] have
    cd: "cdoc = doc\<lparr>ci_name := new_checkin_name E doc (checkins s1)\<rparr>"
    and c2: "checkins s2 = checkins s1 @ [cdoc]" by simp_all
  from a1 attach_photo_checkins [of E "x_location_photo ctx" "location_photo_id args"
      "emp_name (x_employee ctx)" "ci_name cdoc" "''location''" s2]
  have c3: "checkins s3 = checkins s2" by simp
  from a2 attach_photo_checkins [of E "x_client_biometric_photo ctx"
      "client_biometric_photo_id args" "emp_name (x_employee ctx)" "ci_name cdoc"
      "''biometric''" s3]
  have c4: "checkins s4 = checkins s3" by simp
  from same_data_fields(7) [OF sd] have c1: "checkins s1 = checkins s" .
  from new_checkin_Inr [OF n] cd have
    f: "ci_time cdoc = x_checkin_time ctx" "ci_employee cdoc = emp_name (x_employee ctx)"
       "ci_log_type cdoc = log_type args"
    by simp_all
  have rt: "r_time r = ci_time cdoc" "r_checkin_id r = ci_name cdoc"
    by (simp_all add: r success_response_def)
  have m: "map ci_time (checkins s') = map ci_time (checkins s) @ [ci_time cdoc]"
       "map ci_name (checkins s') = map ci_name (checkins s) @ [ci_name cdoc]"
       "map ci_employee (checkins s') = map ci_employee (checkins s) @ [ci_employee cdoc]"
       "map ci_log_type (checkins s') = map ci_log_type (checkins s) @ [ci_log_type cdoc]"
    by (simp_all add: s' set_photo_values_times c4 c3 c2 c1)
  from pt re f rt m show ?thesis by (intro exI [of _ ctx] exI [of _ cdoc]) simp
qed

text \<open>
  C8. On success the time stored on the new check-in, which is also the time of the
  response, is a naive datetime without microseconds: a timestamp that is given and
  aware is moved to UTC and loses its time zone, a naive one is kept, and both lose
  their microseconds; when no timestamp is given, the time is the clock's, without
  microseconds.
\<close>

theorem stored_timestamp:
  assumes "create_checkin_checkout E args s = (Success r, s')"
  shows "\<exists>t. parse_timestamp E (timestamp args) = Inr t
           \<and> map ci_time (checkins s') = map ci_time (checkins s) @ [t]
           \<and> r_time r = t
           \<and> t mod 1000000 = 0
           \<and> (if truthy (timestamp args) then
                \<exists>dt. get_datetime E (timestamp args) = Inr dt
                   \<and> t = (case utcoffset dt of
                            None \<Rightarrow> micros dt - micros dt mod 1000000
                          | Some off \<Rightarrow> (micros dt - off) - (micros dt - off) mod 1000000)
              else t = now_datetime E - now_datetime E mod 1000000)"
proof -
  from recorded_checkins [OF assms] obtain ctx :: request_ctx and cdoc :: checkin where
    p0: "parse_timestamp E (timestamp args) = Inr (x_checkin_time ctx)"
    and t0: "ci_time cdoc = x_checkin_time ctx"
    and m0: "map ci_time (checkins s') = map ci_time (checkins s) @ [ci_time cdoc]"
    and r0: "r_time r = ci_time cdoc"
    by blast
  define t where "t = x_checkin_time ctx"
  from p0 t0 m0 r0 have p: "parse_timestamp E (timestamp args) = Inr t"
    and m: "map ci_time (checkins s') = map ci_time (checkins s) @ [t]"
    and r: "r_time r = t"
    by (simp_all add: t_def)
  from parse_timestamp_Inr [OF p] p m r show ?thesis by (intro exI [of _ t]) simp
qed


lemmas checkin_eval =
  create_checkin_checkout_def checkin_body_def validate_request_def record_checkin_def
  then_do_def raising_def reading_def stateful_def bind_exn_def incoming_photo_def
  resolve_employee_def find_employee_def get_employee_doc_def active_employee_def
  validate_log_type_def get_employee_settings_def resolve_rules_def read_rules_def hasattr_def
  flag_or_False_def getattr_None_def use_department_settings_def get_doc_def or_empty_def
  or_else_def or_else_opt_def py_float_def py_int_def location_check_def validate_location_def
  falsy_def float_coordinate_def required_photo_def parse_timestamp_def
  astimezone_utc_naive_def replace_microsecond_0_def datetime_max_def one_in_one_out_def
  end_of_day_def start_of_day_def day_micros_def checkins_between_def between_def
  new_checkin_def optional_float_def insert_checkin_def attach_photo_def set_photo_values_def
  success_response_def Let_def file_exists_def find_file_def
  example_env_fields example_db_fields example_employee_def example_department_def
  example_branch_def example_args_def example_get_datetime_def example_format_date_def
  example_distance_def in_range_def exceeds_def

theorem stored_timestamp_witness:
  "\<exists>r s'. create_checkin_checkout example_env
             (example_args\<lparr>timestamp := PStr ''2025-01-27T09:15:30.250000+02:00''\<rparr>)
             example_db = (Success r, s')
         \<and> r_time r = 63873558930000000
         \<and> map ci_time (checkins s') = [63873558930000000]"
proof -
  obtain r s' where c: "create_checkin_checkout example_env
             (example_args\<lparr>timestamp := PStr ''2025-01-27T09:15:30.250000+02:00''\<rparr>)
             example_db = (Success r, s')"
    by (simp add: checkin_eval)
  have p: "parse_timestamp example_env (PStr ''2025-01-27T09:15:30.250000+02:00'')
             = Inr 63873558930000000"
    by (simp add: parse_timestamp_def astimezone_utc_naive_def replace_microsecond_0_def
          datetime_max_def example_env_fields example_get_datetime_def)
  from stored_timestamp [OF c] p
  have "r_time r = 63873558930000000 \<and> map ci_time (checkins s') = [63873558930000000]"
    by (auto simp: example_db_fields)
  with c show ?thesis by (intro exI [of _ r] exI [of _ s']) simp
qed

section \<open>The geofence of create\_checkin\_checkout\<close>

lemmas case_congs = if_cong sum.case_cong option.case_cong pyval.case_cong prod.case_cong
  exn.case_cong flow.case_cong

lemma then_do_cong:
  assumes "m s = m' s"
    and "\<And>x s1. m' s = (Next x, s1) \<Longrightarrow> f x s1 = f' x s1"
  shows "then_do m f s = then_do m' f' s"
  using assms by (auto simp: then_do_def split: prod.splits flow.splits)

lemma py_float_distance: "py_float (E\<lparr>get_distance_between_coordinates := g\<rparr>) = py_float E"
  by (intro ext) (simp add: py_float_def cong: case_congs)

lemma py_int_distance: "py_int (E\<lparr>get_distance_between_coordinates := g\<rparr>) = py_int E"
  by (intro ext) (simp add: py_int_def cong: case_congs)

lemma get_employee_settings_distance:
  "get_employee_settings (E\<lparr>get_distance_between_coordinates := g\<rparr>) = get_employee_settings E"
  by (intro ext) (simp add: get_employee_settings_def py_float_distance py_int_distance Let_def cong: case_congs)

lemma incoming_photo_distance:
  "incoming_photo (E\<lparr>get_distance_between_coordinates := g\<rparr>) = incoming_photo E"
  by (intro ext) (simp add: incoming_photo_def Let_def cong: case_congs)

lemma active_employee_distance:
  "active_employee (E\<lparr>get_distance_between_coordinates := g\<rparr>) = active_employee E"
  by (intro ext) (simp add: active_employee_def Let_def cong: case_congs)

lemma parse_timestamp_distance:
  "parse_timestamp (E\<lparr>get_distance_between_coordinates := g\<rparr>) = parse_timestamp E"
  by (intro ext) (simp add: parse_timestamp_def Let_def cong: case_congs)

lemma one_in_one_out_distance:
  "one_in_one_out (E\<lparr>get_distance_between_coordinates := g\<rparr>) = one_in_one_out E"
  by (intro ext) (simp add: one_in_one_out_def Let_def cong: case_congs)

lemma new_checkin_distance:
  "new_checkin (E\<lparr>get_distance_between_coordinates := g\<rparr>) = new_checkin E"
  by (intro ext) (simp add: new_checkin_def optional_float_def py_float_distance Let_def cong: case_congs)

lemma insert_checkin_distance:
  "insert_checkin (E\<lparr>get_distance_between_coordinates := g\<rparr>) = insert_checkin E"
  by (intro ext) (simp add: insert_checkin_def Let_def cong: case_congs)

lemma photo_bytes_distance:
  "photo_bytes (E\<lparr>get_distance_between_coordinates := g\<rparr>) = photo_bytes E"
  by (intro ext) (simp add: photo_bytes_def len_str_def Let_def cong: case_congs)

lemma store_photo_distance:
  "store_photo (E\<lparr>get_distance_between_coordinates := g\<rparr>) = store_photo E"
  by (intro ext) (simp add: store_photo_def len_str_def photo_filename_def Let_def cong: case_congs)

lemma handle_photo_upload_distance:
  "handle_photo_upload (E\<lparr>get_distance_between_coordinates := g\<rparr>) = handle_photo_upload E"
  by (intro ext) (simp add: handle_photo_upload_def photo_bytes_distance store_photo_distance Let_def cong: case_congs)

lemma attach_photo_distance:
  "attach_photo (E\<lparr>get_distance_between_coordinates := g\<rparr>) = attach_photo E"
  by (intro ext) (simp add: attach_photo_def handle_photo_upload_distance Let_def cong: case_congs)

lemma set_photo_values_distance:
  "set_photo_values (E\<lparr>get_distance_between_coordinates := g\<rparr>) = set_photo_values E"
  by (intro ext) (simp add: set_photo_values_def Let_def cong: case_congs)

lemma success_response_distance:
  "success_response (E\<lparr>get_distance_between_coordinates := g\<rparr>) = success_response E"
  by (intro ext) (simp add: success_response_def Let_def cong: case_congs)

lemma record_checkin_distance:
  "record_checkin (E\<lparr>get_distance_between_coordinates := g\<rparr>) = record_checkin E"
  by (intro ext)
     (simp add: record_checkin_def new_checkin_distance insert_checkin_distance
        attach_photo_distance set_photo_values_distance success_response_distance Let_def cong: case_congs)


lemma float_coordinate_distance:
  "float_coordinate (E\<lparr>get_distance_between_coordinates := g\<rparr>) = float_coordinate E"
  by (intro ext) (simp add: float_coordinate_def py_float_distance)

lemma validate_location_Inr:
  assumes "validate_location E lat lon blat blon rad lt = Inr d"
  shows "truthy lat \<and> truthy lon \<and> \<not> exceeds d rad
       \<and> (\<exists>la lo. float_coordinate E lat = Inr la \<and> float_coordinate E lon = Inr lo
              \<and> in_range (- 90) la 90 \<and> in_range (- 180) lo 180
              \<and> get_distance_between_coordinates E blat blon la lo = Inr d)"
  using assms
  by (auto simp: validate_location_def falsy_def bind_exn_def split: if_splits sum.splits)

lemma location_check_Inr:
  assumes "location_check E lt lat lon st = Inr dst"
    and "lt = ''IN'' \<or> (lt = ''OUT'' \<and> require_location_check_on_check_out st)"
  shows "\<exists>d. dst = Some d
           \<and> validate_location E lat lon (branch_latitude st) (branch_longitude st)
                (branch_radius st) lt = Inr d"
  using assms
  by (auto simp: location_check_def bind_exn_def split: if_splits sum.splits)

lemma location_check_unchecked:
  assumes "lt \<noteq> ''IN''" and "\<not> require_location_check_on_check_out st"
  shows "location_check E lt lat lon st = Inr None"
  using assms by (simp add: location_check_def)

lemma success_location:
  assumes "create_checkin_checkout E args s = (Success r, s')"
    and "resolve_employee s (employee_id args) = Inr emp"
    and "get_employee_settings E s emp = Inr st"
  shows "\<exists>dst. location_check E (log_type args) (latitude args) (longitude args) st = Inr dst
            \<and> r_distance_from_branch_meters r = map_option (round2 E) dst"
proof -
  from create_checkin_checkout_Success [OF assms(1)] checkin_body_Next
  obtain ctx :: request_ctx and s1 where
    v: "validate_request E args s = (Next ctx, s1)"
    and rc: "record_checkin E args ctx s1 = (Next (Success r), s')"
    by blast
  from validate_request_Next [OF v] assms(2,3) have
    lc: "location_check E (log_type args) (latitude args) (longitude args) st
           = Inr (x_distance ctx)"
    by simp
  from record_checkin_Next [OF rc]
  have "r_distance_from_branch_meters r = map_option (round2 E) (x_distance ctx)"
    by (auto simp: success_response_def)
  with lc show ?thesis by simp
qed

lemma validate_request_distance:
  assumes "resolve_employee s (employee_id args) = Inr emp"
    and "get_employee_settings E s emp = Inr st"
    and "log_type args \<noteq> ''IN''"
    and "\<not> require_location_check_on_check_out st"
  shows "validate_request (E\<lparr>get_distance_between_coordinates := g\<rparr>) args s
           = validate_request E args s"
  unfolding validate_request_def
  apply (rule then_do_cong, simp add: incoming_photo_distance)
  apply (rule then_do_cong, simp add: incoming_photo_distance)
  apply (rule then_do_cong, simp)
  apply (rule then_do_cong, simp add: active_employee_distance)
  apply (rule then_do_cong, simp)
  apply (rule then_do_cong, simp add: get_employee_settings_distance)
  apply (rule then_do_cong)
  subgoal premises prems for p1 sa p2 sb emp' s3 u1 s4 u2 s5 st' s6
  proof -
    from prems(1) have "same_data s sa"
      using incoming_photo_same [of s E "''location_photo''" "location_photo args"]
      by (auto split: prod.splits)
    moreover from prems(2) have "same_data sa sb"
      using incoming_photo_same [of sa E "''client_biometric_photo''"
          "client_biometric_photo args"]
      by (auto split: prod.splits)
    ultimately have sd: "same_data s sb" by (rule same_data_trans)
    from prems(3) have e: "resolve_employee sb (employee_id args) = Inr emp'" and s3: "s3 = sb"
      by (simp_all add: reading_Next)
    from e sd assms(1) have emp: "emp' = emp" by (simp add: resolve_employee_same)
    from prems(4,5) s3 have s5: "s5 = sb" by (simp add: raising_Next)
    from prems(6) s5 emp have "get_employee_settings E sb emp = Inr st'"
      by (simp add: reading_Next)
    with sd assms(2) have st: "st' = st" by (simp add: get_employee_settings_same)
    from st assms(3,4) show ?thesis by (simp add: location_check_unchecked)
  qed
  apply (rule then_do_cong, simp)
  apply (rule then_do_cong, simp)
  apply (rule then_do_cong, simp add: parse_timestamp_distance)
  apply simp
  done

lemma create_checkin_checkout_distance:
  assumes "resolve_employee s (employee_id args) = Inr emp"
    and "get_employee_settings E s emp = Inr st"
    and "log_type args \<noteq> ''IN''"
    and "\<not> require_location_check_on_check_out st"
  shows "create_checkin_checkout (E\<lparr>get_distance_between_coordinates := g\<rparr>) args s
           = create_checkin_checkout E args s"
proof -
  have "checkin_body (E\<lparr>get_distance_between_coordinates := g\<rparr>) args s = checkin_body E args s"
    unfolding checkin_body_def
    by (rule then_do_cong, rule validate_request_distance [OF assms])
       (simp add: one_in_one_out_distance record_checkin_distance)
  then show ?thesis by (simp add: create_checkin_checkout_def)
qed


lemma example_checked_in_fields:
  "users example_checked_in = users example_db"
  "employees example_checked_in = [example_employee]"
  "companies example_checked_in = companies example_db"
  "departments example_checked_in = departments example_db"
  "projects example_checked_in = Map.empty"
  "branches example_checked_in = branches example_db"
  "files example_checked_in = []"
  "error_log example_checked_in = []"
  "http_status_code example_checked_in = 200"
  "session_user example_checked_in = ''asha@example.com''"
  "checkins example_checked_in =
       [\<lparr>ci_name = ''EMP-CKIN-'', ci_employee = ''EMP-001'', ci_employee_name = ''Asha'',
         ci_log_type = ''IN'', ci_time = 63873561600000000, ci_latitude = Some (Finite 40.0005),
         ci_longitude = Some (Finite (- 74)), ci_device_id = Some ''phone-1'', ci_notes = None,
         ci_shift = None, ci_shift_start = None, ci_shift_end = None, ci_attendance = None,
         ci_skip_auto_attendance = False, ci_custom_location_photo = None,
         ci_custom_client_bio_metric_photo = None\<rparr>]"
  by (simp_all add: example_checked_in_def example_db_fields)

lemmas settings_eval =
  get_employee_settings_def resolve_rules_def read_rules_def hasattr_def flag_or_False_def
  getattr_None_def use_department_settings_def get_doc_def or_empty_def or_else_def
  py_float_def py_int_def bind_exn_def Let_def example_env_fields example_db_fields
  example_employee_def example_department_def example_branch_def example_settings_def

lemma example_resolve:
  "employees s = [example_employee] \<Longrightarrow>
     resolve_employee s (Some ''EMP-001'') = Inr example_employee"
  by (simp add: resolve_employee_def find_employee_def get_employee_doc_def
        example_employee_def)

lemma example_resolved_settings:
  "companies s = companies example_db \<Longrightarrow> departments s = departments example_db \<Longrightarrow>
   branches s = branches example_db \<Longrightarrow>
     get_employee_settings example_env s example_employee = Inr example_settings"
  by (simp add: settings_eval)

section \<open>Photo intake\<close>

lemma after_comma_strip:
  "CHR '','' \<notin> set pre \<Longrightarrow> after_comma (pre @ CHR '','' # rest) = Some rest"
  by (induction pre) auto

lemma upload_nothing:
  "\<not> truthy v \<Longrightarrow>
     fst (handle_photo_upload E v emp cid ptype s) = Inr None
   \<and> files (snd (handle_photo_upload E v emp cid ptype s)) = files s"
  by (simp add: handle_photo_upload_def log_error_def)

lemma upload_file_reference:
  assumes "text \<noteq> []" and "\<not> startswith text ''data:''" and "file_exists s text"
  shows "(\<exists>f. find_file s text = Some f
            \<and> fst (handle_photo_upload E (PStr text) emp cid ptype s) = Inr (Some f))
       \<and> files (snd (handle_photo_upload E (PStr text) emp cid ptype s)) = files s"
  using assms
  by (auto simp: handle_photo_upload_def is_file_id_def file_exists_def log_error_def)

lemma files_log_error: "files (log_error t m s) = files s"
  by (simp add: log_error_def)

lemmas upload_defs = handle_photo_upload_def is_file_id_def photo_bytes_def store_photo_def
  max_size_def log_error_def Let_def

lemma upload_bytes_rejects:
  assumes "b \<noteq> []" and "length b > 5 * 1024 * 1024"
  shows "(\<exists>m. fst (handle_photo_upload E (PBytes b) emp cid ptype s) = Inl (ValidationError m))
       \<and> files (snd (handle_photo_upload E (PBytes b) emp cid ptype s)) = files s"
  using assms by (simp add: upload_defs)

lemma upload_bytes_accepts:
  assumes "b \<noteq> []" and "length b \<le> 5 * 1024 * 1024"
    and "save_file_error E (photo_filename E ptype emp) b = None"
  shows "\<exists>f. fst (handle_photo_upload E (PBytes b) emp cid ptype s) = Inr (Some f)
           \<and> f_content f = b
           \<and> f_file_name f = photo_filename E ptype emp
           \<and> f_attached_to_name f = Some cid
           \<and> files (snd (handle_photo_upload E (PBytes b) emp cid ptype s)) = files s @ [f]"
  using assms by (simp add: upload_defs)

lemma upload_text_rejects:
  assumes "text \<noteq> []" and "\<not> (\<not> startswith text ''data:'' \<and> file_exists s text)"
    and "base64_payload text = Some payload" and "b64decode E payload = Inr file_bytes"
    and "file_bytes = [] \<or> length file_bytes > 5 * 1024 * 1024"
  shows "(\<exists>m. fst (handle_photo_upload E (PStr text) emp cid ptype s) = Inl (ValidationError m))
       \<and> files (snd (handle_photo_upload E (PStr text) emp cid ptype s)) = files s"
  using assms by (auto simp: upload_defs)

lemma upload_text_accepts:
  assumes "text \<noteq> []" and "\<not> (\<not> startswith text ''data:'' \<and> file_exists s text)"
    and "base64_payload text = Some payload" and "b64decode E payload = Inr file_bytes"
    and "file_bytes \<noteq> []" and "length file_bytes \<le> 5 * 1024 * 1024"
    and "save_file_error E (photo_filename E ptype emp) file_bytes = None"
  shows "\<exists>f. fst (handle_photo_upload E (PStr text) emp cid ptype s) = Inr (Some f)
           \<and> f_content f = file_bytes
           \<and> f_file_name f = photo_filename E ptype emp
           \<and> f_attached_to_name f = Some cid
           \<and> files (snd (handle_photo_upload E (PStr text) emp cid ptype s)) = files s @ [f]"
  using assms by (auto simp: upload_defs)

lemma upload_text_undecodable:
  assumes "text \<noteq> []" and "\<not> (\<not> startswith text ''data:'' \<and> file_exists s text)"
    and "base64_payload text = Some payload" and "b64decode E payload = Inl e"
  shows "(\<exists>m. fst (handle_photo_upload E (PStr text) emp cid ptype s) = Inl (ValidationError m))
       \<and> files (snd (handle_photo_upload E (PStr text) emp cid ptype s)) = files s"
  using assms
  by (auto simp: handle_photo_upload_def is_file_id_def photo_bytes_def files_log_error Let_def)

lemma upload_other:
  assumes "truthy v" and "\<forall>t. v \<noteq> PStr t" and "\<forall>b. v \<noteq> PBytes b"
  shows "\<exists>m. fst (handle_photo_upload E v emp cid ptype s) = Inl (TypeError m)"
  using assms
  by (cases v) (auto simp: handle_photo_upload_def is_file_id_def photo_bytes_def)


lemma data_uri_payload:
  "CHR '','' \<notin> set mime \<Longrightarrow> base64_payload (''data:'' @ mime @ CHR '','' # rest) = Some rest"
proof -
  assume m: "CHR '','' \<notin> set mime"
  then have "CHR '','' \<notin> set (''data:'' @ mime)" by simp
  from after_comma_strip [OF this, of rest] show ?thesis
    by (simp add: base64_payload_def)
qed

lemma after_comma_None: "after_comma cs = None \<longleftrightarrow> CHR '','' \<notin> set cs"
  by (induction cs) auto

lemma base64_payload_None:
  "base64_payload text = None \<longleftrightarrow> startswith text ''data:'' \<and> CHR '','' \<notin> set text"
  by (simp add: base64_payload_def after_comma_None)

lemma store_photo_Inr:
  assumes "store_photo E file_bytes emp cid ptype s = (Inr f, s')"
  shows "f_content f = file_bytes \<and> file_bytes \<noteq> [] \<and> length file_bytes \<le> 5 * 1024 * 1024
       \<and> f_attached_to_name f = Some cid"
  using assms
  by (auto simp: store_photo_def max_size_def Let_def split: if_splits option.splits)

lemma photo_bytes_Inr:
  assumes "photo_bytes E v s = (Inr file_bytes, s')"
  shows "(\<exists>text payload. v = PStr text \<and> base64_payload text = Some payload
            \<and> b64decode E payload = Inr file_bytes)
       \<or> v = PBytes file_bytes"
  using assms
  by (auto simp: photo_bytes_def split: pyval.splits option.splits sum.splits if_splits)

lemma upload_only_three:
  assumes "fst (handle_photo_upload E v emp cid ptype s) = Inr (Some f)"
  shows "(\<exists>ref. v = PStr ref \<and> ref \<noteq> [] \<and> \<not> startswith ref ''data:'' \<and> file_exists s ref
            \<and> find_file s ref = Some f)
       \<or> (\<exists>text payload. v = PStr text \<and> base64_payload text = Some payload
            \<and> b64decode E payload = Inr (f_content f)
            \<and> f_content f \<noteq> [] \<and> length (f_content f) \<le> 5 * 1024 * 1024)
       \<or> (\<exists>b. v = PBytes b \<and> f_content f = b \<and> b \<noteq> [] \<and> length b \<le> 5 * 1024 * 1024)"
proof (cases "is_file_id s v")
  case True
  with assms show ?thesis
    by (auto simp: handle_photo_upload_def is_file_id_def split: pyval.splits if_splits)
next
  case False
  define s1 where "s1 = (case v of
                    PStr text \<Rightarrow>
                      if \<not> startswith text ''data:'' then
                        log_error ''Checkin Photo Debug''
                          ''_handle_photo_upload - treating string as base64'' s
                      else s
                  | _ \<Rightarrow> s)"
  from assms False obtain file_bytes s2 s3 where
    pb: "photo_bytes E v s1 = (Inr file_bytes, s2)"
    and sp: "store_photo E file_bytes emp cid ptype s2 = (Inr f, s3)"
    unfolding handle_photo_upload_def Let_def s1_def [symmetric]
    by (auto split: if_splits prod.splits sum.splits)
  from store_photo_Inr [OF sp] photo_bytes_Inr [OF pb] show ?thesis by auto
qed

text \<open>
  C7, as the claim states it, fails on an empty payload: empty bytes and the empty
  string decode to zero bytes and are not rejected, \<^verbatim>\<open>_handle_photo_upload\<close>
  returns \<^verbatim>\<open>None\<close> for them (the guard of line 505).
\<close>

theorem empty_payload_not_rejected:
  "fst (handle_photo_upload example_env (PBytes []) ''EMP-001'' ''EMP-CKIN-'' ''location''
          example_db) = Inr None
   \<and> fst (handle_photo_upload example_env (PStr []) ''EMP-001'' ''EMP-CKIN-'' ''location''
          example_db) = Inr None
   \<and> base64_payload [] = Some [] \<and> b64decode example_env [] = Inr []"
  by (simp add: handle_photo_upload_def base64_payload_def example_env_fields)

text \<open>
  C7, amended. A value that is falsy (\<^verbatim>\<open>None\<close>, the empty string, empty bytes) is
  no photo: the result is \<^verbatim>\<open>None\<close> and no file is stored. Otherwise a photo is
  returned for exactly three forms of input: a string that does not start with
  \<^verbatim>\<open>data:\<close> and names an existing file, which is returned; base64 text, which is any
  other string that does not start with \<^verbatim>\<open>data:\<close>, taken whole, or a data URI, of
  which what follows the first comma is taken; and inline bytes. Base64 text whose
  payload does not decode or decodes to zero bytes, and text or bytes of more than
  \<open>5 * 1024 * 1024\<close> bytes, are rejected with a \<^verbatim>\<open>ValidationError\<close> and no file is
  stored; bytes within the limit are stored as a file attached to the check-in when
  \<^verbatim>\<open>save_file\<close> does not raise. Any other truthy value raises \<^verbatim>\<open>TypeError\<close>. A string
  has no payload exactly when it starts with \<^verbatim>\<open>data:\<close> and holds no comma; about
  such a string nothing is said here.
\<close>

theorem photo_intake:
  "(\<not> truthy v \<longrightarrow>
      fst (handle_photo_upload E v emp cid ptype s) = Inr None
    \<and> files (snd (handle_photo_upload E v emp cid ptype s)) = files s)
 \<and> (ref \<noteq> [] \<and> \<not> startswith ref ''data:'' \<and> file_exists s ref \<longrightarrow>
      (\<exists>f. find_file s ref = Some f
          \<and> fst (handle_photo_upload E (PStr ref) emp cid ptype s) = Inr (Some f))
    \<and> files (snd (handle_photo_upload E (PStr ref) emp cid ptype s)) = files s)
 \<and> (CHR '','' \<notin> set mime \<longrightarrow>
      base64_payload (''data:'' @ mime @ CHR '','' # rest) = Some rest)
 \<and> (\<not> startswith text ''data:'' \<longrightarrow> base64_payload text = Some text)
 \<and> (text \<noteq> [] \<and> \<not> (\<not> startswith text ''data:'' \<and> file_exists s text)
      \<and> base64_payload text = Some payload \<longrightarrow>
      (\<forall>e. b64decode E payload = Inl e \<longrightarrow>
         (\<exists>m. fst (handle_photo_upload E (PStr text) emp cid ptype s) = Inl (ValidationError m))
       \<and> files (snd (handle_photo_upload E (PStr text) emp cid ptype s)) = files s)
    \<and> (\<forall>file_bytes. b64decode E payload = Inr file_bytes \<longrightarrow>
         (file_bytes = [] \<or> length file_bytes > 5 * 1024 * 1024 \<longrightarrow>
            (\<exists>m. fst (handle_photo_upload E (PStr text) emp cid ptype s)
                    = Inl (ValidationError m))
          \<and> files (snd (handle_photo_upload E (PStr text) emp cid ptype s)) = files s)
       \<and> (file_bytes \<noteq> [] \<and> length file_bytes \<le> 5 * 1024 * 1024
            \<and> save_file_error E (photo_filename E ptype emp) file_bytes = None \<longrightarrow>
            (\<exists>f. fst (handle_photo_upload E (PStr text) emp cid ptype s) = Inr (Some f)
                \<and> f_content f = file_bytes
                \<and> f_attached_to_name f = Some cid
                \<and> files (snd (handle_photo_upload E (PStr text) emp cid ptype s))
                    = files s @ [f]))))
 \<and> (b \<noteq> [] \<longrightarrow>
      (length b > 5 * 1024 * 1024 \<longrightarrow>
         (\<exists>m. fst (handle_photo_upload E (PBytes b) emp cid ptype s) = Inl (ValidationError m))
       \<and> files (snd (handle_photo_upload E (PBytes b) emp cid ptype s)) = files s)
    \<and> (length b \<le> 5 * 1024 * 1024
         \<and> save_file_error E (photo_filename E ptype emp) b = None \<longrightarrow>
         (\<exists>f. fst (handle_photo_upload E (PBytes b) emp cid ptype s) = Inr (Some f)
             \<and> f_content f = b
             \<and> f_attached_to_name f = Some cid
             \<and> files (snd (handle_photo_upload E (PBytes b) emp cid ptype s)) = files s @ [f])))
 \<and> (truthy v \<and> (\<forall>t. v \<noteq> PStr t) \<and> (\<forall>b. v \<noteq> PBytes b) \<longrightarrow>
      (\<exists>m. fst (handle_photo_upload E v emp cid ptype s) = Inl (TypeError m)))
 \<and> (base64_payload text = None) = (startswith text ''data:'' \<and> CHR '','' \<notin> set text)
 \<and> (\<forall>f. fst (handle_photo_upload E v emp cid ptype s) = Inr (Some f) \<longrightarrow>
      (\<exists>ref. v = PStr ref \<and> ref \<noteq> [] \<and> \<not> startswith ref ''data:'' \<and> file_exists s ref
          \<and> find_file s ref = Some f)
    \<or> (\<exists>text payload. v = PStr text \<and> base64_payload text = Some payload
          \<and> b64decode E payload = Inr (f_content f)
          \<and> f_content f \<noteq> [] \<and> length (f_content f) \<le> 5 * 1024 * 1024)
    \<or> (\<exists>b. v = PBytes b \<and> f_content f = b \<and> b \<noteq> [] \<and> length b \<le> 5 * 1024 * 1024))"
proof (intro conjI impI allI; (elim conjE)?)
  assume "\<not> truthy v"
  from upload_nothing [OF this]
  show "fst (handle_photo_upload E v emp cid ptype s) = Inr None"
    and "files (snd (handle_photo_upload E v emp cid ptype s)) = files s"
    by simp_all
next
  assume a: "ref \<noteq> []" "\<not> startswith ref ''data:''" "file_exists s ref"
  from upload_file_reference [OF a]
  show "\<exists>f. find_file s ref = Some f
          \<and> fst (handle_photo_upload E (PStr ref) emp cid ptype s) = Inr (Some f)"
    and "files (snd (handle_photo_upload E (PStr ref) emp cid ptype s)) = files s"
    by simp_all
next
  assume "CHR '','' \<notin> set mime"
  then show "base64_payload (''data:'' @ mime @ CHR '','' # rest) = Some rest"
    by (rule data_uri_payload)
next
  assume "\<not> startswith text ''data:''"
  then show "base64_payload text = Some text" by (simp add: base64_payload_def)
next
  fix e
  assume a: "text \<noteq> []" "\<not> (\<not> startswith text ''data:'' \<and> file_exists s text)"
    "base64_payload text = Some payload" "b64decode E payload = Inl e"
  from upload_text_undecodable [OF a]
  show "\<exists>m. fst (handle_photo_upload E (PStr text) emp cid ptype s) = Inl (ValidationError m)"
    and "files (snd (handle_photo_upload E (PStr text) emp cid ptype s)) = files s"
    by simp_all
next
  fix file_bytes
  assume a: "text \<noteq> []" "\<not> (\<not> startswith text ''data:'' \<and> file_exists s text)"
    "base64_payload text = Some payload" "b64decode E payload = Inr file_bytes"
    "file_bytes = [] \<or> length file_bytes > 5 * 1024 * 1024"
  from upload_text_rejects [OF a]
  show "\<exists>m. fst (handle_photo_upload E (PStr text) emp cid ptype s) = Inl (ValidationError m)"
    and "files (snd (handle_photo_upload E (PStr text) emp cid ptype s)) = files s"
    by simp_all
next
  fix file_bytes
  assume a: "text \<noteq> []" "\<not> (\<not> startswith text ''data:'' \<and> file_exists s text)"
    "base64_payload text = Some payload" "b64decode E payload = Inr file_bytes"
    "file_bytes \<noteq> []" "length file_bytes \<le> 5 * 1024 * 1024"
    "save_file_error E (photo_filename E ptype emp) file_bytes = None"
  from upload_text_accepts [OF a]
  show "\<exists>f. fst (handle_photo_upload E (PStr text) emp cid ptype s) = Inr (Some f)
                \<and> f_content f = file_bytes
                \<and> f_attached_to_name f = Some cid
                \<and> files (snd (handle_photo_upload E (PStr text) emp cid ptype s))
                    = files s @ [f]"
    by blast
next
  assume a: "b \<noteq> []" "length b > 5 * 1024 * 1024"
  from upload_bytes_rejects [OF a]
  show "\<exists>m. fst (handle_photo_upload E (PBytes b) emp cid ptype s) = Inl (ValidationError m)"
    and "files (snd (handle_photo_upload E (PBytes b) emp cid ptype s)) = files s"
    by simp_all
next
  assume a: "b \<noteq> []" "length b \<le> 5 * 1024 * 1024"
    "save_file_error E (photo_filename E ptype emp) b = None"
  from upload_bytes_accepts [OF a]
  show "\<exists>f. fst (handle_photo_upload E (PBytes b) emp cid ptype s) = Inr (Some f)
             \<and> f_content f = b
             \<and> f_attached_to_name f = Some cid
             \<and> files (snd (handle_photo_upload E (PBytes b) emp cid ptype s)) = files s @ [f]"
    by blast
next
  assume a: "truthy v" "\<forall>t. v \<noteq> PStr t" "\<forall>b. v \<noteq> PBytes b"
  from upload_other [OF a]
  show "\<exists>m. fst (handle_photo_upload E v emp cid ptype s) = Inl (TypeError m)" .
next
  show "(base64_payload text = None) = (startswith text ''data:'' \<and> CHR '','' \<notin> set text)"
    by (rule base64_payload_None)
next
  fix f
  assume "fst (handle_photo_upload E v emp cid ptype s) = Inr (Some f)"
  from upload_only_three [OF this]
  show "(\<exists>ref. v = PStr ref \<and> ref \<noteq> [] \<and> \<not> startswith ref ''data:'' \<and> file_exists s ref
          \<and> find_file s ref = Some f)
    \<or> (\<exists>text payload. v = PStr text \<and> base64_payload text = Some payload
          \<and> b64decode E payload = Inr (f_content f)
          \<and> f_content f \<noteq> [] \<and> length (f_content f) \<le> 5 * 1024 * 1024)
    \<or> (\<exists>b. v = PBytes b \<and> f_content f = b \<and> b \<noteq> [] \<and> length b \<le> 5 * 1024 * 1024)" .
qed


lemma example_with_file_fields:
  "files example_with_file = [example_file]"
  "checkins example_with_file = []"
  "employees example_with_file = [example_employee]"
  "companies example_with_file = companies example_db"
  "departments example_with_file = departments example_db"
  "branches example_with_file = branches example_db"
  "http_status_code example_with_file = 200"
  "error_log example_with_file = []"
  by (simp_all add: example_with_file_def example_db_fields)

lemma example_file_found:
  "file_exists example_with_file ''FILE-1''"
  "find_file example_with_file ''FILE-1'' = Some example_file"
  "\<not> file_exists example_with_file ''QUJD''"
  "\<not> file_exists example_with_file ''data:image/jpeg;base64,''"
  by (simp_all add: file_exists_def find_file_def example_with_file_fields example_file_def)

theorem photo_intake_witness:
  "fst (handle_photo_upload example_env PNone ''EMP-001'' ''EMP-CKIN-'' ''location''
          example_with_file) = Inr None
   \<and> fst (handle_photo_upload example_env (PStr ''FILE-1'') ''EMP-001'' ''EMP-CKIN-''
            ''location'' example_with_file) = Inr (Some example_file)
   \<and> base64_payload ''data:image/jpeg;base64,QUJD'' = Some ''QUJD''
   \<and> (\<exists>m. fst (handle_photo_upload example_env (PStr ''data:image/jpeg;base64,'') ''EMP-001''
                 ''EMP-CKIN-'' ''location'' example_with_file) = Inl (ValidationError m))
   \<and> (\<exists>m. fst (handle_photo_upload example_env (PBytes (replicate 5242881 CHR ''x''))
                 ''EMP-001'' ''EMP-CKIN-'' ''location'' example_with_file)
            = Inl (ValidationError m))
   \<and> (\<exists>f. fst (handle_photo_upload example_env (PBytes ''JPEG'') ''EMP-001'' ''EMP-CKIN-''
                 ''location'' example_with_file) = Inr (Some f)
          \<and> f_content f = ''JPEG''
          \<and> files (snd (handle_photo_upload example_env (PBytes ''JPEG'') ''EMP-001''
                           ''EMP-CKIN-'' ''location'' example_with_file))
              = [example_file, f])
   \<and> (\<exists>f. fst (handle_photo_upload example_env (PStr ''QUJD'') ''EMP-001'' ''EMP-CKIN-''
                 ''location'' example_with_file) = Inr (Some f)
          \<and> f_content f = ''QUJD'')
   \<and> (\<exists>m. fst (handle_photo_upload example_env (PInt 5) ''EMP-001'' ''EMP-CKIN-''
                 ''location'' example_with_file) = Inl (TypeError m))"
proof -
  have p1: "base64_payload ''data:image/jpeg;base64,'' = Some []"
    and p2: "base64_payload ''QUJD'' = Some ''QUJD''"
    by (simp_all add: base64_payload_def)
  from photo_intake [of PNone example_env "''EMP-001''" "''EMP-CKIN-''" "''location''"
      example_with_file "''FILE-1''" "''image/jpeg;base64''" "''QUJD''"
      "''data:image/jpeg;base64,''" "[]" "replicate 5242881 CHR ''x''"] p1
  have a: "fst (handle_photo_upload example_env PNone ''EMP-001'' ''EMP-CKIN-'' ''location''
          example_with_file) = Inr None
   \<and> fst (handle_photo_upload example_env (PStr ''FILE-1'') ''EMP-001'' ''EMP-CKIN-''
            ''location'' example_with_file) = Inr (Some example_file)
   \<and> base64_payload ''data:image/jpeg;base64,QUJD'' = Some ''QUJD''
   \<and> (\<exists>m. fst (handle_photo_upload example_env (PStr ''data:image/jpeg;base64,'') ''EMP-001''
                 ''EMP-CKIN-'' ''location'' example_with_file) = Inl (ValidationError m))
   \<and> (\<exists>m. fst (handle_photo_upload example_env (PBytes (replicate 5242881 CHR ''x''))
                 ''EMP-001'' ''EMP-CKIN-'' ''location'' example_with_file)
            = Inl (ValidationError m))"
    by (simp add: example_file_found example_env_fields)
  from photo_intake [of "PInt 5" example_env "''EMP-001''" "''EMP-CKIN-''" "''location''"
      example_with_file "''FILE-1''" "''image/jpeg;base64''" "''QUJD''"
      "''QUJD''" "''QUJD''" "''JPEG''"] p2
  have b: "(\<exists>f. fst (handle_photo_upload example_env (PBytes ''JPEG'') ''EMP-001'' ''EMP-CKIN-''
                 ''location'' example_with_file) = Inr (Some f)
          \<and> f_content f = ''JPEG''
          \<and> files (snd (handle_photo_upload example_env (PBytes ''JPEG'') ''EMP-001''
                           ''EMP-CKIN-'' ''location'' example_with_file))
              = [example_file, f])
   \<and> (\<exists>f. fst (handle_photo_upload example_env (PStr ''QUJD'') ''EMP-001'' ''EMP-CKIN-''
                 ''location'' example_with_file) = Inr (Some f)
          \<and> f_content f = ''QUJD'')
   \<and> (\<exists>m. fst (handle_photo_upload example_env (PInt 5) ''EMP-001'' ''EMP-CKIN-''
                 ''location'' example_with_file) = Inl (TypeError m))"
    by (simp add: example_file_found example_env_fields example_with_file_fields) blast
  from a b show ?thesis by simp
qed

section \<open>The day's rule at midnight\<close>

lemma example_midnight_fields:
  "users example_midnight = users example_db"
  "employees example_midnight = [example_employee]"
  "companies example_midnight = companies example_db"
  "departments example_midnight = departments example_db"
  "projects example_midnight = Map.empty"
  "branches example_midnight = branches example_db"
  "files example_midnight = []"
  "error_log example_midnight = []"
  "http_status_code example_midnight = 200"
  "session_user example_midnight = ''asha@example.com''"
  "checkins example_midnight =
       [\<lparr>ci_name = ''EMP-CKIN-'', ci_employee = ''EMP-001'', ci_employee_name = ''Asha'',
         ci_log_type = ''IN'', ci_time = 63871372800000000, ci_latitude = Some (Finite 40.0005),
         ci_longitude = Some (Finite (- 74)), ci_device_id = Some ''phone-1'', ci_notes = None,
         ci_shift = None, ci_shift_start = None, ci_shift_end = None, ci_attendance = None,
         ci_skip_auto_attendance = False, ci_custom_location_photo = None,
         ci_custom_client_bio_metric_photo = None\<rparr>]"
  by (simp_all add: example_midnight_def example_db_fields)

lemma day_contains_time:
  "start_of_day t \<le> t \<and> t < start_of_day t + day_micros"
  by (simp add: start_of_day_def day_micros_def)

lemma one_in_one_out_IN:
  assumes "end_of_day t = Inr eod"
  shows "one_in_one_out E s emp ''IN'' t =
           (if checkins_between s emp ''IN'' (start_of_day t) eod = [] then Inr ()
            else Inl (ValidationError
                   (''You have already completed your check-in for ''
                      @ format_date E (start_of_day t)
                      @ ''. Only one check-in and one check-out are allowed per day.'')))"
  using assms by (simp add: one_in_one_out_def bind_exn_def action_hyphen_def Let_def)

lemma one_in_one_out_OUT:
  assumes "end_of_day t = Inr eod"
  shows "one_in_one_out E s emp ''OUT'' t =
           (if checkins_between s emp ''IN'' (start_of_day t) eod = [] then
              Inl (ValidationError
                (''You must check-in before you can check-out. No check-in record found for ''
                   @ format_date E (start_of_day t) @ ''.''))
            else if checkins_between s emp ''OUT'' (start_of_day t) eod = [] then Inr ()
            else Inl (ValidationError
                   (''You have already completed your check-out for ''
                      @ format_date E (start_of_day t)
                      @ ''. Only one check-in and one check-out are allowed per day.'')))"
  using assms by (simp add: one_in_one_out_def bind_exn_def action_hyphen_def Let_def)

text \<open>
  C1. The claim's rule is per calendar day; the code's window for a day,
  \<^verbatim>\<open>between [start_of_day, end_of_day]\<close>, includes the first instant of the next
  day. After a first IN at 2025-01-02 00:00:00 (which succeeds), there is no IN on
  2025-01-01, yet an OUT at 2025-01-01 18:00:00 is recorded, and the first IN of
  2025-01-01, at 09:00:00, is refused as already completed.
\<close>

theorem midnight_checkin_counts_for_two_days:
  "create_checkin_checkout example_env
       (example_args\<lparr>timestamp := PStr ''2025-01-02T00:00:00''\<rparr>) example_db
     = (Success
          \<lparr>r_checkin_id = ''EMP-CKIN-'', r_employee_id = ''EMP-001'', r_employee_name = ''Asha'',
           r_log_type = ''IN'', r_time = 63871372800000000, r_latitude = Some (Finite 40.0005),
           r_longitude = Some (Finite (- 74)), r_shift = None, r_shift_start = None, r_shift_end = None,
           r_attendance = None, r_status = ''success'',
           r_distance_from_branch_meters = Some (Finite 55.66), r_location_photo_url = None,
           r_location_photo_id = None, r_client_biometric_photo_url = None,
           r_client_biometric_photo_id = None\<rparr>,
        example_midnight)
   \<and> start_of_day 63871351200000000 = 63871286400000000
   \<and> checkins_between example_midnight ''EMP-001'' ''IN'' 63871286400000000 63871372799999999
       = []
   \<and> (\<exists>r. fst (create_checkin_checkout example_env
                  (example_args\<lparr>log_type := ''OUT'', latitude := PNone, longitude := PNone,
                                timestamp := PStr ''2025-01-01T18:00:00''\<rparr>)
                  example_midnight) = Success r)
   \<and> map (\<lambda>c. (ci_log_type c, ci_time c))
         (checkins (snd (create_checkin_checkout example_env
                  (example_args\<lparr>log_type := ''OUT'', latitude := PNone, longitude := PNone,
                                timestamp := PStr ''2025-01-01T18:00:00''\<rparr>)
                  example_midnight)))
       = [(''IN'', 63871372800000000), (''OUT'', 63871351200000000)]
   \<and> fst (create_checkin_checkout example_env
            (example_args\<lparr>timestamp := PStr ''2025-01-01T09:00:00''\<rparr>) example_midnight)
       = ExceptionBody
           ''You have already completed your check-in for January 01, 2025. Only one check-in and one check-out are allowed per day.''"
  by (simp add: checkin_eval example_midnight_fields action_hyphen_def)
     (simp add: example_midnight_def)


section \<open>The geofence at the equator\<close>

lemma validate_location_in_range:
  assumes "truthy lat" and "truthy lon"
    and "py_float E lat = Inr la" and "py_float E lon = Inr lo"
    and "in_range (- 90) la 90" and "in_range (- 180) lo 180"
    and "get_distance_between_coordinates E blat blon la lo = Inr d"
  shows "validate_location E lat lon blat blon radius lt =
           (if \<not> exceeds d radius then Inr d
            else Inl (CheckinRadiusExceededError
                        (''You are '' @ format_2f E d
                           @ '' meters away from the branch location. Please move within ''
                           @ str_int E radius @ '' meters to '' @ action_words lt @ ''.'')))"
  using assms
  by (simp add: validate_location_def falsy_def float_coordinate_def bind_exn_def
        radius_exceeded_message_def)

text \<open>
  C2. A latitude or longitude that is the number zero is in range, but
  \<^verbatim>\<open>_validate_location\<close> takes it for a missing coordinate: at (0.0, 10.0), zero
  metres from a branch at (0.0, 10.0) of radius 100, validation fails with "Location
  coordinates are required", whatever the branch and the radius are; at (0.0001, 10.0)
  it passes and returns the distance.
\<close>

theorem zero_coordinate_rejected:
  "get_distance_between_coordinates example_env (Finite 0) (Finite 10) (Finite 0) (Finite 10)
     = Inr (Finite 0)
   \<and> validate_location example_env (PFloat (Finite 0)) (PFloat (Finite 10))
         (Finite 0) (Finite 10) 100 ''IN''
       = Inl (ValidationError
                ''Location coordinates are required for check-in. Please enable GPS and try again.'')
   \<and> validate_location E (PFloat (Finite 0)) lon blat blon radius ''IN''
       = Inl (ValidationError
                ''Location coordinates are required for check-in. Please enable GPS and try again.'')
   \<and> validate_location E lat (PInt 0) blat blon radius ''OUT''
       = Inl (ValidationError
                ''Location coordinates are required for check-out. Please enable GPS and try again.'')
   \<and> validate_location example_env (PFloat (Finite 0.0001)) (PFloat (Finite 10))
         (Finite 0) (Finite 10) 100 ''IN'' = Inr (Finite 11.132)"
  by (simp add: validate_location_def falsy_def action_hyphen_def example_env_fields
        float_coordinate_def py_float_def bind_exn_def example_distance_def in_range_def
        exceeds_def)

section \<open>The handlers of create\_checkin\_checkout\<close>

lemma example_photo_required_fields:
  "users example_photo_required = users example_db"
  "employees example_photo_required = [example_employee]"
  "companies example_photo_required = companies example_db"
  "departments example_photo_required =
       [''Field'' \<mapsto> example_department\<lparr>custom_required_to_upload_location_photo :=
                                            Some (PInt 1)\<rparr>]"
  "projects example_photo_required = Map.empty"
  "branches example_photo_required = branches example_db"
  "files example_photo_required = []"
  "checkins example_photo_required = []"
  "error_log example_photo_required = []"
  "http_status_code example_photo_required = 200"
  "session_user example_photo_required = ''asha@example.com''"
  by (simp_all add: example_photo_required_def example_db_fields)

lemma endpoint_handlers:
  "checkin_body E args s = (Raise e, s1) \<Longrightarrow> is_ValidationError e \<Longrightarrow>
     create_checkin_checkout E args s
       = (ExceptionBody (str_exn e), s1\<lparr>http_status_code := 401\<rparr>)"
  "checkin_body E args s = (Raise e, s1) \<Longrightarrow> \<not> is_ValidationError e \<Longrightarrow>
     create_checkin_checkout E args s
       = (ExceptionBody generic_message,
          (log_error ''Checkin API Unexpected Error'' (str_exn e) s1)
            \<lparr>http_status_code := 500\<rparr>)"
  "checkin_body E args s = (Return r, s1) \<Longrightarrow> create_checkin_checkout E args s = (r, s1)"
  "checkin_body E args s = (Next r, s1) \<Longrightarrow> create_checkin_checkout E args s = (r, s1)"
  by (simp_all add: create_checkin_checkout_def)

text \<open>
  C4. When a required photo is missing, the endpoint returns the failure body from
  inside the \<^verbatim>\<open>try\<close> (lines 775--777), so no handler runs and the HTTP status stays
  what it was, 200 here, where the claim says 401. The sibling failure of the same
  block, a photo id that names no file, is raised and answered with status 401.
\<close>

theorem missing_required_photo_keeps_status:
  "create_checkin_checkout example_env example_args example_photo_required
     = (ExceptionBody ''Location photo is required for check-in.'', example_photo_required)
   \<and> http_status_code example_photo_required = 200
   \<and> create_checkin_checkout example_env
         (example_args\<lparr>location_photo_id := Some ''FILE-404''\<rparr>) example_photo_required
     = (ExceptionBody ''Location photo file not found. Please upload the photo again.'',
        example_photo_required\<lparr>http_status_code := 401\<rparr>)"
  by (simp add: checkin_eval example_photo_required_fields action_hyphen_def)

section \<open>The record of a rejected photo\<close>

text \<open>
  C5. The check-in is inserted and committed (lines 866--868) before
  \<^verbatim>\<open>_handle_photo_upload\<close> validates the photo (lines 882--885): a call whose photo
  decodes to zero bytes, or has more than 5MB, returns a failure response and leaves
  the new check-in in the database, which was empty before.
\<close>

theorem rejected_photo_leaves_record:
  "fst (create_checkin_checkout example_env
          (example_args\<lparr>location_photo := PStr ''data:image/jpeg;base64,''\<rparr>) example_db)
     = ExceptionBody
         ''Invalid image format. Please ensure the photo is properly encoded and try again.''
   \<and> map (\<lambda>c. (ci_employee c, ci_log_type c, ci_time c))
         (checkins (snd (create_checkin_checkout example_env
            (example_args\<lparr>location_photo := PStr ''data:image/jpeg;base64,''\<rparr>) example_db)))
       = [(''EMP-001'', ''IN'', 63873566130000000)]
   \<and> fst (create_checkin_checkout example_env
          (example_args\<lparr>location_photo := PBytes (replicate 5242881 CHR ''x'')\<rparr>) example_db)
     = ExceptionBody
         ''Photo file size exceeds the maximum limit of 5MB. Please compress the image and try again.''
   \<and> map (\<lambda>c. (ci_employee c, ci_log_type c, ci_time c))
         (checkins (snd (create_checkin_checkout example_env
            (example_args\<lparr>location_photo := PBytes (replicate 5242881 CHR ''x'')\<rparr>)
            example_db)))
       = [(''EMP-001'', ''IN'', 63873566130000000)]
   \<and> checkins example_db = []"
  by (simp add: checkin_eval upload_defs base64_payload_def photo_filename_def len_str_def)

section \<open>The geofence and the outcome of the call\<close>

lemma validate_request_located:
  assumes e: "resolve_employee s (employee_id args) = Inr emp"
    and a: "active_employee E emp = Inr ()"
    and st: "get_employee_settings E s emp = Inr st"
    and lt: "log_type args = ''IN'' \<or> log_type args = ''OUT''"
    and ip1: "incoming_photo E ''location_photo'' (location_photo args) s = (p1, s1)"
    and ip2: "incoming_photo E ''client_biometric_photo'' (client_biometric_photo args) s1
                = (p2, s2)"
  shows "same_data s s2"
    and "validate_request E args s =
     then_do (raising (location_check E (log_type args) (latitude args) (longitude args) st))
       (\<lambda>distance.
     then_do (required_photo (required_to_upload_location_photo st) ''Location photo''
                (log_type args) p1 (location_photo_id args)) (\<lambda>_.
     then_do (required_photo (required_to_upload_client_bio_metric_photo st)
                ''Client biometric photo'' (log_type args) p2
                (client_biometric_photo_id args)) (\<lambda>_.
     then_do (raising (parse_timestamp E (timestamp args))) (\<lambda>checkin_time.
       Pair (Next \<lparr>x_employee = emp, x_settings = st, x_distance = distance,
                   x_location_photo = p1, x_client_biometric_photo = p2,
                   x_checkin_time = checkin_time\<rparr>))))) s2"
proof -
  from ip1 have "same_data s s1" using incoming_photo_same [of s E] by (metis snd_conv)
  moreover from ip2 have "same_data s1 s2" using incoming_photo_same [of s1 E] by (metis snd_conv)
  ultimately show sd: "same_data s s2" by (rule same_data_trans)
  from e sd have e2: "resolve_employee s2 (employee_id args) = Inr emp"
    by (simp add: resolve_employee_same)
  from st sd have st2: "get_employee_settings E s2 emp = Inr st"
    by (simp add: get_employee_settings_same)
  from lt have l: "validate_log_type (log_type args) = Inr ()"
    by (auto simp: validate_log_type_def)
  show "validate_request E args s =
     then_do (raising (location_check E (log_type args) (latitude args) (longitude args) st))
       (\<lambda>distance.
     then_do (required_photo (required_to_upload_location_photo st) ''Location photo''
                (log_type args) p1 (location_photo_id args)) (\<lambda>_.
     then_do (required_photo (required_to_upload_client_bio_metric_photo st)
                ''Client biometric photo'' (log_type args) p2
                (client_biometric_photo_id args)) (\<lambda>_.
     then_do (raising (parse_timestamp E (timestamp args))) (\<lambda>checkin_time.
       Pair (Next \<lparr>x_employee = emp, x_settings = st, x_distance = distance,
                   x_location_photo = p1, x_client_biometric_photo = p2,
                   x_checkin_time = checkin_time\<rparr>))))) s2"
    unfolding validate_request_def
    apply (subst then_do_def, simp add: ip1)
    apply (subst then_do_def, simp add: ip2)
    apply (subst then_do_def, simp add: reading_def raising_def e2)
    apply (subst then_do_def, simp add: raising_def a)
    apply (subst then_do_def, simp add: raising_def l)
    apply (subst then_do_def, simp add: reading_def raising_def st2)
    done
qed

lemma location_refused:
  assumes e: "resolve_employee s (employee_id args) = Inr emp"
    and a: "active_employee E emp = Inr ()"
    and st: "get_employee_settings E s emp = Inr st"
    and lt: "log_type args = ''IN'' \<or> log_type args = ''OUT''"
    and ip1: "incoming_photo E ''location_photo'' (location_photo args) s = (p1, s1)"
    and ip2: "incoming_photo E ''client_biometric_photo'' (client_biometric_photo args) s1
                = (p2, s2)"
    and lc: "location_check E (log_type args) (latitude args) (longitude args) st = Inl x"
  shows "checkin_body E args s = (Raise x, s2)"
  unfolding checkin_body_def
  by (subst then_do_def)
     (simp add: validate_request_located(2) [OF e a st lt ip1 ip2] lc then_do_def raising_def)

lemma location_passed:
  assumes e: "resolve_employee s (employee_id args) = Inr emp"
    and a: "active_employee E emp = Inr ()"
    and st: "get_employee_settings E s emp = Inr st"
    and lt: "log_type args = ''IN'' \<or> log_type args = ''OUT''"
    and ip1: "incoming_photo E ''location_photo'' (location_photo args) s = (p1, s1)"
    and ip2: "incoming_photo E ''client_biometric_photo'' (client_biometric_photo args) s1
                = (p2, s2)"
    and lc: "location_check E (log_type args) (latitude args) (longitude args) st = Inr dst"
    and rp1: "required_photo (required_to_upload_location_photo st) ''Location photo''
                (log_type args) p1 (location_photo_id args) s2 = (Next (), s2)"
    and rp2: "required_photo (required_to_upload_client_bio_metric_photo st)
                ''Client biometric photo'' (log_type args) p2
                (client_biometric_photo_id args) s2 = (Next (), s2)"
    and ts: "parse_timestamp E (timestamp args) = Inr t"
    and day: "one_in_one_out E s2 (emp_name emp) (log_type args) t = Inr ()"
    and rc: "record_checkin E args
               \<lparr>x_employee = emp, x_settings = st, x_distance = dst, x_location_photo = p1,
                x_client_biometric_photo = p2, x_checkin_time = t\<rparr> s2 = (Next (Success r), s')"
  shows "create_checkin_checkout E args s = (Success r, s')"
    and "r_distance_from_branch_meters r = map_option (round2 E) dst"
proof -
  have v: "validate_request E args s =
             (Next \<lparr>x_employee = emp, x_settings = st, x_distance = dst, x_location_photo = p1,
                x_client_biometric_photo = p2, x_checkin_time = t\<rparr>, s2)"
    by (simp add: validate_request_located(2) [OF e a st lt ip1 ip2] lc then_do_def raising_def
          rp1 rp2 ts)
  have "checkin_body E args s = (Next (Success r), s')"
    unfolding checkin_body_def
    by (subst then_do_def, simp add: v, subst then_do_def)
       (simp add: reading_def raising_def day rc)
  then show "create_checkin_checkout E args s = (Success r, s')"
    by (simp add: create_checkin_checkout_def)
  from record_checkin_Next [OF rc]
  show "r_distance_from_branch_meters r = map_option (round2 E) dst"
    by (auto simp: success_response_def)
qed

lemma location_check_required:
  assumes "lt = ''IN'' \<or> lt = ''OUT'' \<and> require_location_check_on_check_out st"
  shows "location_check E lt lat lon st =
           (if falsy lat \<or> falsy lon then
              Inl (ValidationError
                     (''Location is required for '' @ action_hyphen lt
                        @ ''. Please provide latitude and longitude.''))
            else map_sum id Some
                   (validate_location E lat lon (branch_latitude st) (branch_longitude st)
                      (branch_radius st) lt))"
  using assms
  by (auto simp: location_check_def action_hyphen_def bind_exn_def split: sum.splits)

lemma validate_location_truthy:
  assumes "truthy lat" and "truthy lon"
    and "float_coordinate E lat = Inr la" and "float_coordinate E lon = Inr lo"
  shows "validate_location E lat lon blat blon rad lt =
           (if \<not> in_range (- 90) la 90 then
              Inl (ValidationError
                     ''Invalid latitude value. Latitude must be between -90 and 90 degrees.'')
            else if \<not> in_range (- 180) lo 180 then
              Inl (ValidationError
                     ''Invalid longitude value. Longitude must be between -180 and 180 degrees.'')
            else
              (case get_distance_between_coordinates E blat blon la lo of
                 Inl x \<Rightarrow>
                   Inl (ValidationError
                          (''Error calculating distance from branch location. Please try again. Error: ''
                             @ str_exn x))
               | Inr d \<Rightarrow>
                   if exceeds d rad then
                     Inl (CheckinRadiusExceededError (radius_exceeded_message E d rad lt))
                   else Inr d))"
  using assms by (simp add: validate_location_def falsy_def bind_exn_def)

lemma validate_request_coordinates:
  assumes e: "resolve_employee s (employee_id args) = Inr emp"
    and a: "active_employee E emp = Inr ()"
    and st: "get_employee_settings E s emp = Inr st"
    and lt: "log_type args = ''OUT''"
    and nf: "\<not> require_location_check_on_check_out st"
  shows "validate_request E (args\<lparr>latitude := lat, longitude := lon\<rparr>) s
           = validate_request E args s"
proof -
  obtain p1 s1 where ip1: "incoming_photo E ''location_photo'' (location_photo args) s = (p1, s1)"
    by (cases "incoming_photo E ''location_photo'' (location_photo args) s")
  obtain p2 s2 where ip2: "incoming_photo E ''client_biometric_photo''
                             (client_biometric_photo args) s1 = (p2, s2)"
    by (cases "incoming_photo E ''client_biometric_photo'' (client_biometric_photo args) s1")
  from lt have l: "log_type args = ''IN'' \<or> log_type args = ''OUT''" by simp
  have lc: "\<And>x y. location_check E ''OUT'' x y st = Inr None"
    using nf by (simp add: location_check_def)
  show ?thesis
    using validate_request_located(2) [OF e a st l ip1 ip2]
      validate_request_located(2) [of s "args\<lparr>latitude := lat, longitude := lon\<rparr>" emp E st p1 s1 p2 s2]
      e a st lt ip1 ip2
    by (simp add: lc)
qed

text \<open>
  C3. Let the call reach the location step: the employee of the request is found and
  active, its settings are resolved, and the two photos of the request are taken in
  (\<open>p1\<close>, \<open>p2\<close>, leaving the database \<open>s2\<close>, which has the check-ins of \<open>s\<close>).

  For IN, and for OUT when the settings' \<^verbatim>\<open>require_location_check_on_check_out\<close> is
  true, the geofence is run. A missing (falsy) latitude or longitude is answered with
  "Location is required for check-in" (or check-out) and status 401. With both
  coordinates, whatever \<^verbatim>\<open>_validate_location\<close> raises is what the call answers: a
  validation error with its message and status 401, any other exception with the
  generic message and status 500. \<^verbatim>\<open>_validate_location\<close> refuses a latitude outside
  \<open>[-90, 90]\<close> and a longitude outside \<open>[-180, 180]\<close>, and a distance from the branch
  that exceeds the branch radius, which the call answers with "You are ... meters away
  from the branch location" and status 401; otherwise it returns the distance. When it
  returns a distance and the later steps pass (the required photos, the timestamp, the
  day's rule, the record), the call succeeds and the response carries that distance,
  rounded. Conversely a call that succeeds had both coordinates, in range, at a
  distance from the branch within the radius, which its response carries.

  For OUT when the flag is false, the geofence is not run: the location step yields no
  distance whatever the coordinates are, the validation of the request does not depend
  on the coordinates, the outcome of the call does not depend on the distance function,
  and when the later steps pass the call succeeds; a response of success carries no
  distance. (A coordinate that is given is still converted by \<^verbatim>\<open>float\<close> for the record,
  line 857: that is part of the step that records the check-in.)
\<close>

theorem geofence_when_required:
  assumes e: "resolve_employee s (employee_id args) = Inr emp"
    and a: "active_employee E emp = Inr ()"
    and st: "get_employee_settings E s emp = Inr st"
    and ip1: "incoming_photo E ''location_photo'' (location_photo args) s = (p1, s1)"
    and ip2: "incoming_photo E ''client_biometric_photo'' (client_biometric_photo args) s1
                = (p2, s2)"
  shows
    "(log_type args = ''IN''
        \<or> log_type args = ''OUT'' \<and> require_location_check_on_check_out st \<longrightarrow>
        (falsy (latitude args) \<or> falsy (longitude args) \<longrightarrow>
           create_checkin_checkout E args s =
             (ExceptionBody (''Location is required for '' @ action_hyphen (log_type args)
                               @ ''. Please provide latitude and longitude.''),
              s2\<lparr>http_status_code := 401\<rparr>))
      \<and> (truthy (latitude args) \<and> truthy (longitude args) \<longrightarrow>
           (\<forall>x. validate_location E (latitude args) (longitude args) (branch_latitude st)
                  (branch_longitude st) (branch_radius st) (log_type args) = Inl x \<longrightarrow>
                create_checkin_checkout E args s =
                  (if is_ValidationError x then
                     (ExceptionBody (str_exn x), s2\<lparr>http_status_code := 401\<rparr>)
                   else
                     (ExceptionBody generic_message,
                      (log_error ''Checkin API Unexpected Error'' (str_exn x) s2)
                        \<lparr>http_status_code := 500\<rparr>)))
         \<and> (\<forall>la lo. float_coordinate E (latitude args) = Inr la \<longrightarrow>
                float_coordinate E (longitude args) = Inr lo \<longrightarrow>
                validate_location E (latitude args) (longitude args) (branch_latitude st)
                  (branch_longitude st) (branch_radius st) (log_type args) =
                  (if \<not> in_range (- 90) la 90 then
                     Inl (ValidationError
                            ''Invalid latitude value. Latitude must be between -90 and 90 degrees.'')
                   else if \<not> in_range (- 180) lo 180 then
                     Inl (ValidationError
                            ''Invalid longitude value. Longitude must be between -180 and 180 degrees.'')
                   else
                     (case get_distance_between_coordinates E (branch_latitude st)
                             (branch_longitude st) la lo of
                        Inl x \<Rightarrow>
                          Inl (ValidationError
                                 (''Error calculating distance from branch location. Please try again. Error: ''
                                    @ str_exn x))
                      | Inr d \<Rightarrow>
                          if exceeds d (branch_radius st) then
                            Inl (CheckinRadiusExceededError
                                   (radius_exceeded_message E d (branch_radius st) (log_type args)))
                          else Inr d)))
         \<and> (\<forall>la lo d. float_coordinate E (latitude args) = Inr la \<longrightarrow>
                float_coordinate E (longitude args) = Inr lo \<longrightarrow>
                in_range (- 90) la 90 \<longrightarrow> in_range (- 180) lo 180 \<longrightarrow>
                get_distance_between_coordinates E (branch_latitude st) (branch_longitude st)
                  la lo = Inr d \<longrightarrow>
                exceeds d (branch_radius st) \<longrightarrow>
                create_checkin_checkout E args s =
                  (ExceptionBody (radius_exceeded_message E d (branch_radius st) (log_type args)),
                   s2\<lparr>http_status_code := 401\<rparr>))
         \<and> (\<forall>d t r s'.
                validate_location E (latitude args) (longitude args) (branch_latitude st)
                  (branch_longitude st) (branch_radius st) (log_type args) = Inr d \<longrightarrow>
                required_photo (required_to_upload_location_photo st) ''Location photo''
                  (log_type args) p1 (location_photo_id args) s2 = (Next (), s2) \<longrightarrow>
                required_photo (required_to_upload_client_bio_metric_photo st)
                  ''Client biometric photo'' (log_type args) p2
                  (client_biometric_photo_id args) s2 = (Next (), s2) \<longrightarrow>
                parse_timestamp E (timestamp args) = Inr t \<longrightarrow>
                one_in_one_out E s2 (emp_name emp) (log_type args) t = Inr () \<longrightarrow>
                record_checkin E args
                  \<lparr>x_employee = emp, x_settings = st, x_distance = Some d,
                   x_location_photo = p1, x_client_biometric_photo = p2, x_checkin_time = t\<rparr>
                  s2 = (Next (Success r), s') \<longrightarrow>
                create_checkin_checkout E args s = (Success r, s')
              \<and> r_distance_from_branch_meters r = Some (round2 E d)))
      \<and> (\<forall>r s'. create_checkin_checkout E args s = (Success r, s') \<longrightarrow>
            truthy (latitude args) \<and> truthy (longitude args)
          \<and> (\<exists>la lo d. float_coordinate E (latitude args) = Inr la
                \<and> float_coordinate E (longitude args) = Inr lo
                \<and> in_range (- 90) la 90 \<and> in_range (- 180) lo 180
                \<and> get_distance_between_coordinates E (branch_latitude st) (branch_longitude st)
                     la lo = Inr d
                \<and> \<not> exceeds d (branch_radius st)
                \<and> r_distance_from_branch_meters r = Some (round2 E d)))
      \<and> checkins s2 = checkins s)
   \<and> (log_type args = ''OUT'' \<and> \<not> require_location_check_on_check_out st \<longrightarrow>
        location_check E ''OUT'' lat lon st = Inr None
      \<and> validate_request E (args\<lparr>latitude := lat, longitude := lon\<rparr>) s
          = validate_request E args s
      \<and> create_checkin_checkout (E\<lparr>get_distance_between_coordinates := g\<rparr>) args s
          = create_checkin_checkout E args s
      \<and> (\<forall>r s'. create_checkin_checkout E args s = (Success r, s') \<longrightarrow>
            r_distance_from_branch_meters r = None)
      \<and> (\<forall>t r s'.
            required_photo (required_to_upload_location_photo st) ''Location photo''
              (log_type args) p1 (location_photo_id args) s2 = (Next (), s2) \<longrightarrow>
            required_photo (required_to_upload_client_bio_metric_photo st)
              ''Client biometric photo'' (log_type args) p2
              (client_biometric_photo_id args) s2 = (Next (), s2) \<longrightarrow>
            parse_timestamp E (timestamp args) = Inr t \<longrightarrow>
            one_in_one_out E s2 (emp_name emp) (log_type args) t = Inr () \<longrightarrow>
            record_checkin E args
              \<lparr>x_employee = emp, x_settings = st, x_distance = None,
               x_location_photo = p1, x_client_biometric_photo = p2, x_checkin_time = t\<rparr>
              s2 = (Next (Success r), s') \<longrightarrow>
            create_checkin_checkout E args s = (Success r, s')
          \<and> r_distance_from_branch_meters r = None))"
proof (intro conjI impI allI)
  assume req: "log_type args = ''IN''
        \<or> log_type args = ''OUT'' \<and> require_location_check_on_check_out st"
  then have lt: "log_type args = ''IN'' \<or> log_type args = ''OUT''" by auto
  note lc = location_check_required [OF req, of E "latitude args" "longitude args"]
  note refused = location_refused [OF e a st lt ip1 ip2]
  show "checkins s2 = checkins s"
    using validate_request_located(1) [OF e a st lt ip1 ip2] by (simp add: same_data_fields)
  {
    assume "falsy (latitude args) \<or> falsy (longitude args)"
    with lc have "location_check E (log_type args) (latitude args) (longitude args) st =
        Inl (ValidationError (''Location is required for '' @ action_hyphen (log_type args)
                               @ ''. Please provide latitude and longitude.''))"
      by simp
    from endpoint_handlers(1) [OF refused [OF this]]
    show "create_checkin_checkout E args s =
             (ExceptionBody (''Location is required for '' @ action_hyphen (log_type args)
                               @ ''. Please provide latitude and longitude.''),
              s2\<lparr>http_status_code := 401\<rparr>)"
      by simp
  }
  {
    fix r s'
    assume c: "create_checkin_checkout E args s = (Success r, s')"
    from success_location [OF c e st] obtain dst where
      l: "location_check E (log_type args) (latitude args) (longitude args) st = Inr dst"
      and rd: "r_distance_from_branch_meters r = map_option (round2 E) dst"
      by blast
    from location_check_Inr [OF l req] obtain d where
      d: "dst = Some d"
      and v: "validate_location E (latitude args) (longitude args) (branch_latitude st)
                (branch_longitude st) (branch_radius st) (log_type args) = Inr d"
      by blast
    from validate_location_Inr [OF v]
    show "truthy (latitude args)" "truthy (longitude args)" by simp_all
    from validate_location_Inr [OF v] rd d
    show "\<exists>la lo d. float_coordinate E (latitude args) = Inr la
                \<and> float_coordinate E (longitude args) = Inr lo
                \<and> in_range (- 90) la 90 \<and> in_range (- 180) lo 180
                \<and> get_distance_between_coordinates E (branch_latitude st) (branch_longitude st)
                     la lo = Inr d
                \<and> \<not> exceeds d (branch_radius st)
                \<and> r_distance_from_branch_meters r = Some (round2 E d)"
      by auto
  }
  assume tr: "truthy (latitude args) \<and> truthy (longitude args)"
  then have nf: "\<not> (falsy (latitude args) \<or> falsy (longitude args))" by (simp add: falsy_def)
  {
    fix x
    assume "validate_location E (latitude args) (longitude args) (branch_latitude st)
                  (branch_longitude st) (branch_radius st) (log_type args) = Inl x"
    with lc nf have l: "location_check E (log_type args) (latitude args) (longitude args) st
                          = Inl x"
      by simp
    from endpoint_handlers(1,2) [OF refused [OF l]]
    show "create_checkin_checkout E args s =
                  (if is_ValidationError x then
                     (ExceptionBody (str_exn x), s2\<lparr>http_status_code := 401\<rparr>)
                   else
                     (ExceptionBody generic_message,
                      (log_error ''Checkin API Unexpected Error'' (str_exn x) s2)
                        \<lparr>http_status_code := 500\<rparr>))"
      by simp
  }
  {
    fix la lo
    assume fl: "float_coordinate E (latitude args) = Inr la"
      and fo: "float_coordinate E (longitude args) = Inr lo"
    from tr have t1: "truthy (latitude args)" and t2: "truthy (longitude args)" by simp_all
    note eq = validate_location_truthy [OF t1 t2 fl fo, of "branch_latitude st"
        "branch_longitude st" "branch_radius st" "log_type args"]
    show "validate_location E (latitude args) (longitude args) (branch_latitude st)
                  (branch_longitude st) (branch_radius st) (log_type args) =
                  (if \<not> in_range (- 90) la 90 then
                     Inl (ValidationError
                            ''Invalid latitude value. Latitude must be between -90 and 90 degrees.'')
                   else if \<not> in_range (- 180) lo 180 then
                     Inl (ValidationError
                            ''Invalid longitude value. Longitude must be between -180 and 180 degrees.'')
                   else
                     (case get_distance_between_coordinates E (branch_latitude st)
                             (branch_longitude st) la lo of
                        Inl x \<Rightarrow>
                          Inl (ValidationError
                                 (''Error calculating distance from branch location. Please try again. Error: ''
                                    @ str_exn x))
                      | Inr d \<Rightarrow>
                          if exceeds d (branch_radius st) then
                            Inl (CheckinRadiusExceededError
                                   (radius_exceeded_message E d (branch_radius st) (log_type args)))
                          else Inr d))"
      by (rule eq)
    fix d
    assume "in_range (- 90) la 90" and "in_range (- 180) lo 180"
      and "get_distance_between_coordinates E (branch_latitude st) (branch_longitude st)
                  la lo = Inr d"
      and "exceeds d (branch_radius st)"
    with eq have "validate_location E (latitude args) (longitude args) (branch_latitude st)
                  (branch_longitude st) (branch_radius st) (log_type args) =
                Inl (CheckinRadiusExceededError
                       (radius_exceeded_message E d (branch_radius st) (log_type args)))"
      by simp
    with lc nf have l: "location_check E (log_type args) (latitude args) (longitude args) st
           = Inl (CheckinRadiusExceededError
                       (radius_exceeded_message E d (branch_radius st) (log_type args)))"
      by simp
    from endpoint_handlers(1) [OF refused [OF l]]
    show "create_checkin_checkout E args s =
                  (ExceptionBody (radius_exceeded_message E d (branch_radius st) (log_type args)),
                   s2\<lparr>http_status_code := 401\<rparr>)"
      by simp
  }
  {
    fix d t r s'
    assume v: "validate_location E (latitude args) (longitude args) (branch_latitude st)
                  (branch_longitude st) (branch_radius st) (log_type args) = Inr d"
      and rp1: "required_photo (required_to_upload_location_photo st) ''Location photo''
                  (log_type args) p1 (location_photo_id args) s2 = (Next (), s2)"
      and rp2: "required_photo (required_to_upload_client_bio_metric_photo st)
                  ''Client biometric photo'' (log_type args) p2
                  (client_biometric_photo_id args) s2 = (Next (), s2)"
      and ts: "parse_timestamp E (timestamp args) = Inr t"
      and day: "one_in_one_out E s2 (emp_name emp) (log_type args) t = Inr ()"
      and rc: "record_checkin E args
                  \<lparr>x_employee = emp, x_settings = st, x_distance = Some d,
                   x_location_photo = p1, x_client_biometric_photo = p2, x_checkin_time = t\<rparr>
                  s2 = (Next (Success r), s')"
    from v lc nf have l: "location_check E (log_type args) (latitude args) (longitude args) st
                            = Inr (Some d)"
      by simp
    from location_passed [OF e a st lt ip1 ip2 l rp1 rp2 ts day rc]
    show "create_checkin_checkout E args s = (Success r, s')"
      and "r_distance_from_branch_meters r = Some (round2 E d)"
      by simp_all
  }
next
  assume o: "log_type args = ''OUT'' \<and> \<not> require_location_check_on_check_out st"
  then have lo: "log_type args = ''OUT''" and ni: "log_type args \<noteq> ''IN''"
    and nf: "\<not> require_location_check_on_check_out st"
    by simp_all
  from lo have lt: "log_type args = ''IN'' \<or> log_type args = ''OUT''" by simp
  show "location_check E ''OUT'' lat lon st = Inr None"
    using nf by (simp add: location_check_def)
  show "validate_request E (args\<lparr>latitude := lat, longitude := lon\<rparr>) s
          = validate_request E args s"
    by (rule validate_request_coordinates [OF e a st lo nf])
  show "create_checkin_checkout (E\<lparr>get_distance_between_coordinates := g\<rparr>) args s
          = create_checkin_checkout E args s"
    by (rule create_checkin_checkout_distance [OF e st ni nf])
  {
    fix r s'
    assume c: "create_checkin_checkout E args s = (Success r, s')"
    from success_location [OF c e st] location_check_unchecked [OF ni nf]
    show "r_distance_from_branch_meters r = None" by auto
  }
  {
    fix t r s'
    assume rp1: "required_photo (required_to_upload_location_photo st) ''Location photo''
                  (log_type args) p1 (location_photo_id args) s2 = (Next (), s2)"
      and rp2: "required_photo (required_to_upload_client_bio_metric_photo st)
                  ''Client biometric photo'' (log_type args) p2
                  (client_biometric_photo_id args) s2 = (Next (), s2)"
      and ts: "parse_timestamp E (timestamp args) = Inr t"
      and day: "one_in_one_out E s2 (emp_name emp) (log_type args) t = Inr ()"
      and rc: "record_checkin E args
                  \<lparr>x_employee = emp, x_settings = st, x_distance = None,
                   x_location_photo = p1, x_client_biometric_photo = p2, x_checkin_time = t\<rparr>
                  s2 = (Next (Success r), s')"
    have l: "location_check E (log_type args) (latitude args) (longitude args) st = Inr None"
      by (rule location_check_unchecked [OF ni nf])
    from location_passed [OF e a st lt ip1 ip2 l rp1 rp2 ts day rc]
    show "create_checkin_checkout E args s = (Success r, s')"
      and "r_distance_from_branch_meters r = None"
      by simp_all
  }
qed

lemma example_flagged_fields:
  "users example_flagged = users example_db"
  "employees example_flagged = [example_employee]"
  "companies example_flagged = companies example_db"
  "departments example_flagged =
       [''Field'' \<mapsto> example_department\<lparr>custom_required_location_check_on_check_out :=
                                            Some (PInt 1)\<rparr>]"
  "projects example_flagged = Map.empty"
  "branches example_flagged = branches example_db"
  "files example_flagged = []"
  "error_log example_flagged = []"
  "http_status_code example_flagged = 200"
  "session_user example_flagged = ''asha@example.com''"
  "checkins example_flagged = checkins example_checked_in"
  by (simp_all add: example_flagged_def example_checked_in_fields)

lemma example_flagged_settings:
  "get_employee_settings example_env example_flagged example_employee
     = Inr (example_settings\<lparr>require_location_check_on_check_out := True\<rparr>)"
  by (simp add: settings_eval example_flagged_fields)

lemma example_incoming: "incoming_photo example_env k PNone s = (PNone, s)"
  by (simp add: incoming_photo_def example_env_fields)

lemma example_active: "active_employee example_env example_employee = Inr ()"
  by (simp add: active_employee_def example_env_fields)

lemma example_validate_near:
  "validate_location example_env (PFloat (Finite 40.0005)) (PFloat (Finite (- 74)))
     (Finite 40) (Finite (- 74)) 100 lt = Inr (Finite 55.66)"
  by (simp add: validate_location_def falsy_def float_coordinate_def py_float_def
        bind_exn_def example_env_fields example_distance_def in_range_def exceeds_def)

lemma example_distance_far:
  "get_distance_between_coordinates example_env (Finite 40) (Finite (- 74))
     (Finite 40.01) (Finite (- 74)) = Inr (Finite 1113.2)"
  by (simp add: example_env_fields example_distance_def)

lemma example_float_coordinate:
  "float_coordinate example_env (PFloat x) = Inr x"
  by (simp add: float_coordinate_def py_float_def)

lemma example_no_photo:
  "required_photo False label lt p i s = (Next (), s)"
  by (simp add: required_photo_def)

lemma example_now: "parse_timestamp example_env PNone = Inr 63873566130000000"
  by (simp add: parse_timestamp_def replace_microsecond_0_def example_env_fields)

lemma example_day_IN:
  "one_in_one_out example_env example_db ''EMP-001'' ''IN'' 63873566130000000 = Inr ()"
  by (simp add: one_in_one_out_def end_of_day_def start_of_day_def day_micros_def
        datetime_max_def checkins_between_def bind_exn_def example_db_fields Let_def)

lemma example_day_OUT:
  "checkins s = checkins example_checked_in \<Longrightarrow>
     one_in_one_out example_env s ''EMP-001'' ''OUT'' 63873566130000000 = Inr ()"
  by (simp add: one_in_one_out_def end_of_day_def start_of_day_def day_micros_def
        datetime_max_def checkins_between_def between_def bind_exn_def
        example_checked_in_fields Let_def)

theorem geofence_when_required_witness:
  "(\<exists>r s'. create_checkin_checkout example_env example_args example_db = (Success r, s')
          \<and> r_distance_from_branch_meters r = Some (Finite 55.66))
   \<and> create_checkin_checkout example_env
        (example_args\<lparr>latitude := PFloat (Finite 40.01)\<rparr>) example_db
       = (ExceptionBody
            ''You are #.## meters away from the branch location. Please move within # meters to check in.'',
          example_db\<lparr>http_status_code := 401\<rparr>)
   \<and> (\<exists>r s'. create_checkin_checkout example_env (example_args\<lparr>log_type := ''OUT''\<rparr>)
                 example_flagged = (Success r, s')
          \<and> r_distance_from_branch_meters r = Some (Finite 55.66))
   \<and> create_checkin_checkout example_env
        (example_args\<lparr>log_type := ''OUT'', latitude := PFloat (Finite 40.01)\<rparr>) example_flagged
       = (ExceptionBody
            ''You are #.## meters away from the branch location. Please move within # meters to check out.'',
          example_flagged\<lparr>http_status_code := 401\<rparr>)
   \<and> create_checkin_checkout example_env
        (example_args\<lparr>log_type := ''OUT'', latitude := PNone, longitude := PNone\<rparr>)
        example_flagged
       = (ExceptionBody
            ''Location is required for check-out. Please provide latitude and longitude.'',
          example_flagged\<lparr>http_status_code := 401\<rparr>)
   \<and> (\<exists>r s'. create_checkin_checkout example_env
                 (example_args\<lparr>log_type := ''OUT'', latitude := PNone, longitude := PNone\<rparr>)
                 example_checked_in = (Success r, s')
          \<and> r_distance_from_branch_meters r = None)
   \<and> (\<exists>r s'. create_checkin_checkout example_env
                 (example_args\<lparr>log_type := ''OUT'', latitude := PFloat (Finite 500)\<rparr>)
                 example_checked_in = (Success r, s')
          \<and> r_distance_from_branch_meters r = None
          \<and> r_latitude r = Some (Finite 500))"
proof -
  have st: "get_employee_settings example_env example_db example_employee = Inr example_settings"
    by (rule example_resolved_settings) simp_all
  have stc: "get_employee_settings example_env example_checked_in example_employee
               = Inr example_settings"
    by (rule example_resolved_settings) (simp_all add: example_checked_in_fields)

  \<comment> \<open>IN, near the branch, the location check asked for\<close>
  have e1: "resolve_employee example_db (employee_id (example_args)) = Inr example_employee"
    by (simp add: example_resolve example_db_fields example_args_def)
  have i1: "incoming_photo example_env ''location_photo'' (location_photo (example_args)) example_db
               = (PNone, example_db)"
    and j1: "incoming_photo example_env ''client_biometric_photo''
                (client_biometric_photo (example_args)) example_db = (PNone, example_db)"
    by (simp_all add: example_incoming example_args_def)
  note g1 = geofence_when_required [OF e1 example_active st i1 j1]
  have req1: "log_type (example_args) = ''IN''
        \<or> log_type (example_args) = ''OUT'' \<and> require_location_check_on_check_out (example_settings)"
    by (simp add: example_args_def example_settings_def)
  have tr1: "truthy (latitude (example_args)) \<and> truthy (longitude (example_args))"
    by (simp add: example_args_def)
  have v1: "validate_location example_env (latitude (example_args)) (longitude (example_args))
               (branch_latitude (example_settings)) (branch_longitude (example_settings)) (branch_radius (example_settings))
               (log_type (example_args)) = Inr (Finite 55.66)"
    using example_validate_near [of "log_type (example_args)"]
    by (simp add: example_args_def example_settings_def)
  have p1: "required_photo (required_to_upload_location_photo (example_settings)) ''Location photo''
               (log_type (example_args)) PNone (location_photo_id (example_args)) example_db = (Next (), example_db)"
    and q1: "required_photo (required_to_upload_client_bio_metric_photo (example_settings))
               ''Client biometric photo'' (log_type (example_args)) PNone
               (client_biometric_photo_id (example_args)) example_db = (Next (), example_db)"
    by (simp_all add: example_settings_def example_no_photo)
  have t1: "parse_timestamp example_env (timestamp (example_args)) = Inr 63873566130000000"
    by (simp add: example_args_def example_now)
  have d1: "one_in_one_out example_env example_db (emp_name example_employee) (log_type (example_args))
               63873566130000000 = Inr ()"
    by (simp add: example_args_def example_employee_def example_day_IN)
  obtain r1 s1 where rc1: "record_checkin example_env (example_args)
        \<lparr>x_employee = example_employee, x_settings = example_settings,
         x_distance = Some (Finite 55.66), x_location_photo = PNone,
         x_client_biometric_photo = PNone, x_checkin_time = 63873566130000000\<rparr>
        example_db = (Next (Success r1), s1)"
    by (simp add: checkin_eval example_db_fields)
  from g1 [THEN conjunct1, THEN mp, OF req1, THEN conjunct2, THEN conjunct1, THEN mp,
      OF tr1, THEN conjunct2, THEN conjunct2, THEN conjunct2, rule_format,
      OF v1 p1 q1 t1 d1 rc1]
  have c1: "\<exists>r s'. create_checkin_checkout example_env (example_args) example_db = (Success r, s')
          \<and> r_distance_from_branch_meters r = Some (Finite 55.66)"
    by (simp add: example_env_fields)

  \<comment> \<open>outside the radius\<close>
  have e2: "resolve_employee example_db (employee_id (example_args\<lparr>latitude := PFloat (Finite 40.01)\<rparr>)) = Inr example_employee"
    by (simp add: example_resolve example_db_fields example_args_def)
  have i2: "incoming_photo example_env ''location_photo'' (location_photo (example_args\<lparr>latitude := PFloat (Finite 40.01)\<rparr>)) example_db
               = (PNone, example_db)"
    and j2: "incoming_photo example_env ''client_biometric_photo''
                (client_biometric_photo (example_args\<lparr>latitude := PFloat (Finite 40.01)\<rparr>)) example_db = (PNone, example_db)"
    by (simp_all add: example_incoming example_args_def)
  note g2 = geofence_when_required [OF e2 example_active st i2 j2]
  have req2: "log_type (example_args\<lparr>latitude := PFloat (Finite 40.01)\<rparr>) = ''IN''
        \<or> log_type (example_args\<lparr>latitude := PFloat (Finite 40.01)\<rparr>) = ''OUT'' \<and> require_location_check_on_check_out (example_settings)"
    by (simp add: example_args_def example_settings_def)
  have tr2: "truthy (latitude (example_args\<lparr>latitude := PFloat (Finite 40.01)\<rparr>)) \<and> truthy (longitude (example_args\<lparr>latitude := PFloat (Finite 40.01)\<rparr>))"
    by (simp add: example_args_def)
  have la2: "float_coordinate example_env (latitude (example_args\<lparr>latitude := PFloat (Finite 40.01)\<rparr>)) = Inr (Finite 40.01)"
    and lo2: "float_coordinate example_env (longitude (example_args\<lparr>latitude := PFloat (Finite 40.01)\<rparr>)) = Inr (Finite (- 74))"
    by (simp_all add: example_args_def example_float_coordinate)
  have ra2: "in_range (- 90) (Finite 40.01) 90" and ro2: "in_range (- 180) (Finite (- 74)) 180"
    by (simp_all add: in_range_def)
  have d2: "get_distance_between_coordinates example_env (branch_latitude (example_settings))
               (branch_longitude (example_settings)) (Finite 40.01) (Finite (- 74)) = Inr (Finite 1113.2)"
    using example_distance_far by (simp add: example_settings_def)
  have x2: "exceeds (Finite 1113.2) (branch_radius (example_settings))"
    by (simp add: exceeds_def example_settings_def)
  from g2 [THEN conjunct1, THEN mp, OF req2, THEN conjunct2, THEN conjunct1, THEN mp,
      OF tr2, THEN conjunct2, THEN conjunct2, THEN conjunct1, rule_format,
      OF la2 lo2 ra2 ro2 d2 x2]
  have c2: "create_checkin_checkout example_env (example_args\<lparr>latitude := PFloat (Finite 40.01)\<rparr>) example_db
       = (ExceptionBody
            ''You are #.## meters away from the branch location. Please move within # meters to check in.'',
          example_db\<lparr>http_status_code := 401\<rparr>)"
    by (simp add: radius_exceeded_message_def action_words_def example_env_fields
          example_args_def)

  \<comment> \<open>OUT, near the branch, the location check asked for\<close>
  have e3: "resolve_employee example_flagged (employee_id (example_args\<lparr>log_type := ''OUT''\<rparr>)) = Inr example_employee"
    by (simp add: example_resolve example_flagged_fields example_checked_in_fields example_args_def)
  have i3: "incoming_photo example_env ''location_photo'' (location_photo (example_args\<lparr>log_type := ''OUT''\<rparr>)) example_flagged
               = (PNone, example_flagged)"
    and j3: "incoming_photo example_env ''client_biometric_photo''
                (client_biometric_photo (example_args\<lparr>log_type := ''OUT''\<rparr>)) example_flagged = (PNone, example_flagged)"
    by (simp_all add: example_incoming example_args_def)
  note g3 = geofence_when_required [OF e3 example_active example_flagged_settings i3 j3]
  have req3: "log_type (example_args\<lparr>log_type := ''OUT''\<rparr>) = ''IN''
        \<or> log_type (example_args\<lparr>log_type := ''OUT''\<rparr>) = ''OUT'' \<and> require_location_check_on_check_out (example_settings\<lparr>require_location_check_on_check_out := True\<rparr>)"
    by (simp add: example_args_def example_settings_def)
  have tr3: "truthy (latitude (example_args\<lparr>log_type := ''OUT''\<rparr>)) \<and> truthy (longitude (example_args\<lparr>log_type := ''OUT''\<rparr>))"
    by (simp add: example_args_def)
  have v3: "validate_location example_env (latitude (example_args\<lparr>log_type := ''OUT''\<rparr>)) (longitude (example_args\<lparr>log_type := ''OUT''\<rparr>))
               (branch_latitude (example_settings\<lparr>require_location_check_on_check_out := True\<rparr>)) (branch_longitude (example_settings\<lparr>require_location_check_on_check_out := True\<rparr>)) (branch_radius (example_settings\<lparr>require_location_check_on_check_out := True\<rparr>))
               (log_type (example_args\<lparr>log_type := ''OUT''\<rparr>)) = Inr (Finite 55.66)"
    using example_validate_near [of "log_type (example_args\<lparr>log_type := ''OUT''\<rparr>)"]
    by (simp add: example_args_def example_settings_def)
  have p3: "required_photo (required_to_upload_location_photo (example_settings\<lparr>require_location_check_on_check_out := True\<rparr>)) ''Location photo''
               (log_type (example_args\<lparr>log_type := ''OUT''\<rparr>)) PNone (location_photo_id (example_args\<lparr>log_type := ''OUT''\<rparr>)) example_flagged = (Next (), example_flagged)"
    and q3: "required_photo (required_to_upload_client_bio_metric_photo (example_settings\<lparr>require_location_check_on_check_out := True\<rparr>))
               ''Client biometric photo'' (log_type (example_args\<lparr>log_type := ''OUT''\<rparr>)) PNone
               (client_biometric_photo_id (example_args\<lparr>log_type := ''OUT''\<rparr>)) example_flagged = (Next (), example_flagged)"
    by (simp_all add: example_settings_def example_no_photo)
  have t3: "parse_timestamp example_env (timestamp (example_args\<lparr>log_type := ''OUT''\<rparr>)) = Inr 63873566130000000"
    by (simp add: example_args_def example_now)
  have d3: "one_in_one_out example_env example_flagged (emp_name example_employee) (log_type (example_args\<lparr>log_type := ''OUT''\<rparr>))
               63873566130000000 = Inr ()"
    by (simp add: example_args_def example_employee_def example_day_OUT example_flagged_fields)
  obtain r3 s3 where rc3: "record_checkin example_env (example_args\<lparr>log_type := ''OUT''\<rparr>)
        \<lparr>x_employee = example_employee, x_settings = example_settings\<lparr>require_location_check_on_check_out := True\<rparr>,
         x_distance = Some (Finite 55.66), x_location_photo = PNone,
         x_client_biometric_photo = PNone, x_checkin_time = 63873566130000000\<rparr>
        example_flagged = (Next (Success r3), s3)"
    by (simp add: checkin_eval example_flagged_fields example_checked_in_fields)
  from g3 [THEN conjunct1, THEN mp, OF req3, THEN conjunct2, THEN conjunct1, THEN mp,
      OF tr3, THEN conjunct2, THEN conjunct2, THEN conjunct2, rule_format,
      OF v3 p3 q3 t3 d3 rc3]
  have c3: "\<exists>r s'. create_checkin_checkout example_env (example_args\<lparr>log_type := ''OUT''\<rparr>) example_flagged = (Success r, s')
          \<and> r_distance_from_branch_meters r = Some (Finite 55.66)"
    by (simp add: example_env_fields)

  \<comment> \<open>outside the radius\<close>
  have e4: "resolve_employee example_flagged (employee_id (example_args\<lparr>log_type := ''OUT'', latitude := PFloat (Finite 40.01)\<rparr>)) = Inr example_employee"
    by (simp add: example_resolve example_flagged_fields example_args_def)
  have i4: "incoming_photo example_env ''location_photo'' (location_photo (example_args\<lparr>log_type := ''OUT'', latitude := PFloat (Finite 40.01)\<rparr>)) example_flagged
               = (PNone, example_flagged)"
    and j4: "incoming_photo example_env ''client_biometric_photo''
                (client_biometric_photo (example_args\<lparr>log_type := ''OUT'', latitude := PFloat (Finite 40.01)\<rparr>)) example_flagged = (PNone, example_flagged)"
    by (simp_all add: example_incoming example_args_def)
  note g4 = geofence_when_required [OF e4 example_active example_flagged_settings i4 j4]
  have req4: "log_type (example_args\<lparr>log_type := ''OUT'', latitude := PFloat (Finite 40.01)\<rparr>) = ''IN''
        \<or> log_type (example_args\<lparr>log_type := ''OUT'', latitude := PFloat (Finite 40.01)\<rparr>) = ''OUT'' \<and> require_location_check_on_check_out (example_settings\<lparr>require_location_check_on_check_out := True\<rparr>)"
    by (simp add: example_args_def example_settings_def)
  have tr4: "truthy (latitude (example_args\<lparr>log_type := ''OUT'', latitude := PFloat (Finite 40.01)\<rparr>)) \<and> truthy (longitude (example_args\<lparr>log_type := ''OUT'', latitude := PFloat (Finite 40.01)\<rparr>))"
    by (simp add: example_args_def)
  have la4: "float_coordinate example_env (latitude (example_args\<lparr>log_type := ''OUT'', latitude := PFloat (Finite 40.01)\<rparr>)) = Inr (Finite 40.01)"
    and lo4: "float_coordinate example_env (longitude (example_args\<lparr>log_type := ''OUT'', latitude := PFloat (Finite 40.01)\<rparr>)) = Inr (Finite (- 74))"
    by (simp_all add: example_args_def example_float_coordinate)
  have ra4: "in_range (- 90) (Finite 40.01) 90" and ro4: "in_range (- 180) (Finite (- 74)) 180"
    by (simp_all add: in_range_def)
  have d4: "get_distance_between_coordinates example_env (branch_latitude (example_settings\<lparr>require_location_check_on_check_out := True\<rparr>))
               (branch_longitude (example_settings\<lparr>require_location_check_on_check_out := True\<rparr>)) (Finite 40.01) (Finite (- 74)) = Inr (Finite 1113.2)"
    using example_distance_far by (simp add: example_settings_def)
  have x4: "exceeds (Finite 1113.2) (branch_radius (example_settings\<lparr>require_location_check_on_check_out := True\<rparr>))"
    by (simp add: exceeds_def example_settings_def)
  from g4 [THEN conjunct1, THEN mp, OF req4, THEN conjunct2, THEN conjunct1, THEN mp,
      OF tr4, THEN conjunct2, THEN conjunct2, THEN conjunct1, rule_format,
      OF la4 lo4 ra4 ro4 d4 x4]
  have c4: "create_checkin_checkout example_env (example_args\<lparr>log_type := ''OUT'', latitude := PFloat (Finite 40.01)\<rparr>) example_flagged
       = (ExceptionBody
            ''You are #.## meters away from the branch location. Please move within # meters to check out.'',
          example_flagged\<lparr>http_status_code := 401\<rparr>)"
    by (simp add: radius_exceeded_message_def action_words_def example_env_fields
          example_args_def)

  \<comment> \<open>no coordinates\<close>
  have e5: "resolve_employee example_flagged (employee_id (example_args\<lparr>log_type := ''OUT'', latitude := PNone, longitude := PNone\<rparr>)) = Inr example_employee"
    by (simp add: example_resolve example_flagged_fields example_args_def)
  have i5: "incoming_photo example_env ''location_photo'' (location_photo (example_args\<lparr>log_type := ''OUT'', latitude := PNone, longitude := PNone\<rparr>)) example_flagged
               = (PNone, example_flagged)"
    and j5: "incoming_photo example_env ''client_biometric_photo''
                (client_biometric_photo (example_args\<lparr>log_type := ''OUT'', latitude := PNone, longitude := PNone\<rparr>)) example_flagged = (PNone, example_flagged)"
    by (simp_all add: example_incoming example_args_def)
  note g5 = geofence_when_required [OF e5 example_active example_flagged_settings i5 j5]
  have req5: "log_type (example_args\<lparr>log_type := ''OUT'', latitude := PNone, longitude := PNone\<rparr>) = ''IN''
        \<or> log_type (example_args\<lparr>log_type := ''OUT'', latitude := PNone, longitude := PNone\<rparr>) = ''OUT'' \<and> require_location_check_on_check_out (example_settings\<lparr>require_location_check_on_check_out := True\<rparr>)"
    by (simp add: example_args_def example_settings_def)
  have f5: "falsy (latitude (example_args\<lparr>log_type := ''OUT'', latitude := PNone, longitude := PNone\<rparr>)) \<or> falsy (longitude (example_args\<lparr>log_type := ''OUT'', latitude := PNone, longitude := PNone\<rparr>))"
    by (simp add: falsy_def example_args_def)
  from g5 [THEN conjunct1, THEN mp, OF req5, THEN conjunct1, THEN mp, OF f5]
  have c5: "create_checkin_checkout example_env (example_args\<lparr>log_type := ''OUT'', latitude := PNone, longitude := PNone\<rparr>) example_flagged
       = (ExceptionBody
            ''Location is required for check-out. Please provide latitude and longitude.'',
          example_flagged\<lparr>http_status_code := 401\<rparr>)"
    by (simp add: action_hyphen_def example_args_def)

  \<comment> \<open>OUT, the location check not asked for\<close>
  have e6: "resolve_employee example_checked_in (employee_id (example_args\<lparr>log_type := ''OUT'', latitude := PNone, longitude := PNone\<rparr>)) = Inr example_employee"
    by (simp add: example_resolve example_checked_in_fields example_args_def)
  have i6: "incoming_photo example_env ''location_photo'' (location_photo (example_args\<lparr>log_type := ''OUT'', latitude := PNone, longitude := PNone\<rparr>)) example_checked_in
               = (PNone, example_checked_in)"
    and j6: "incoming_photo example_env ''client_biometric_photo''
                (client_biometric_photo (example_args\<lparr>log_type := ''OUT'', latitude := PNone, longitude := PNone\<rparr>)) example_checked_in = (PNone, example_checked_in)"
    by (simp_all add: example_incoming example_args_def)
  note g6 = geofence_when_required [OF e6 example_active stc i6 j6]
  have u6: "log_type (example_args\<lparr>log_type := ''OUT'', latitude := PNone, longitude := PNone\<rparr>) = ''OUT'' \<and> \<not> require_location_check_on_check_out (example_settings)"
    by (simp add: example_args_def example_settings_def)
  have p6: "required_photo (required_to_upload_location_photo (example_settings)) ''Location photo''
               (log_type (example_args\<lparr>log_type := ''OUT'', latitude := PNone, longitude := PNone\<rparr>)) PNone (location_photo_id (example_args\<lparr>log_type := ''OUT'', latitude := PNone, longitude := PNone\<rparr>)) example_checked_in = (Next (), example_checked_in)"
    and q6: "required_photo (required_to_upload_client_bio_metric_photo (example_settings))
               ''Client biometric photo'' (log_type (example_args\<lparr>log_type := ''OUT'', latitude := PNone, longitude := PNone\<rparr>)) PNone
               (client_biometric_photo_id (example_args\<lparr>log_type := ''OUT'', latitude := PNone, longitude := PNone\<rparr>)) example_checked_in = (Next (), example_checked_in)"
    by (simp_all add: example_settings_def example_no_photo)
  have t6: "parse_timestamp example_env (timestamp (example_args\<lparr>log_type := ''OUT'', latitude := PNone, longitude := PNone\<rparr>)) = Inr 63873566130000000"
    by (simp add: example_args_def example_now)
  have d6: "one_in_one_out example_env example_checked_in (emp_name example_employee) (log_type (example_args\<lparr>log_type := ''OUT'', latitude := PNone, longitude := PNone\<rparr>))
               63873566130000000 = Inr ()"
    by (simp add: example_args_def example_employee_def example_day_OUT)
  obtain r6 s6 where rc6: "record_checkin example_env (example_args\<lparr>log_type := ''OUT'', latitude := PNone, longitude := PNone\<rparr>)
        \<lparr>x_employee = example_employee, x_settings = example_settings,
         x_distance = None, x_location_photo = PNone,
         x_client_biometric_photo = PNone, x_checkin_time = 63873566130000000\<rparr>
        example_checked_in = (Next (Success r6), s6)"
    by (simp add: checkin_eval example_checked_in_fields)
  
  from g6 [THEN conjunct2, THEN mp, OF u6, THEN conjunct2, THEN conjunct2, THEN conjunct2,
      THEN conjunct2, rule_format, OF p6 q6 t6 d6 rc6] 
  have c6: "\<exists>r s'. create_checkin_checkout example_env (example_args\<lparr>log_type := ''OUT'', latitude := PNone, longitude := PNone\<rparr>) example_checked_in = (Success r, s')
          \<and> r_distance_from_branch_meters r = None"
    by simp

  \<comment> \<open>OUT, the location check not asked for\<close>
  have e7: "resolve_employee example_checked_in (employee_id (example_args\<lparr>log_type := ''OUT'', latitude := PFloat (Finite 500)\<rparr>)) = Inr example_employee"
    by (simp add: example_resolve example_checked_in_fields example_args_def)
  have i7: "incoming_photo example_env ''location_photo'' (location_photo (example_args\<lparr>log_type := ''OUT'', latitude := PFloat (Finite 500)\<rparr>)) example_checked_in
               = (PNone, example_checked_in)"
    and j7: "incoming_photo example_env ''client_biometric_photo''
                (client_biometric_photo (example_args\<lparr>log_type := ''OUT'', latitude := PFloat (Finite 500)\<rparr>)) example_checked_in = (PNone, example_checked_in)"
    by (simp_all add: example_incoming example_args_def)
  note g7 = geofence_when_required [OF e7 example_active stc i7 j7]
  have u7: "log_type (example_args\<lparr>log_type := ''OUT'', latitude := PFloat (Finite 500)\<rparr>) = ''OUT'' \<and> \<not> require_location_check_on_check_out (example_settings)"
    by (simp add: example_args_def example_settings_def)
  have p7: "required_photo (required_to_upload_location_photo (example_settings)) ''Location photo''
               (log_type (example_args\<lparr>log_type := ''OUT'', latitude := PFloat (Finite 500)\<rparr>)) PNone (location_photo_id (example_args\<lparr>log_type := ''OUT'', latitude := PFloat (Finite 500)\<rparr>)) example_checked_in = (Next (), example_checked_in)"
    and q7: "required_photo (required_to_upload_client_bio_metric_photo (example_settings))
               ''Client biometric photo'' (log_type (example_args\<lparr>log_type := ''OUT'', latitude := PFloat (Finite 500)\<rparr>)) PNone
               (client_biometric_photo_id (example_args\<lparr>log_type := ''OUT'', latitude := PFloat (Finite 500)\<rparr>)) example_checked_in = (Next (), example_checked_in)"
    by (simp_all add: example_settings_def example_no_photo)
  have t7: "parse_timestamp example_env (timestamp (example_args\<lparr>log_type := ''OUT'', latitude := PFloat (Finite 500)\<rparr>)) = Inr 63873566130000000"
    by (simp add: example_args_def example_now)
  have d7: "one_in_one_out example_env example_checked_in (emp_name example_employee) (log_type (example_args\<lparr>log_type := ''OUT'', latitude := PFloat (Finite 500)\<rparr>))
               63873566130000000 = Inr ()"
    by (simp add: example_args_def example_employee_def example_day_OUT)
  obtain r7 s7 where rc7: "record_checkin example_env (example_args\<lparr>log_type := ''OUT'', latitude := PFloat (Finite 500)\<rparr>)
        \<lparr>x_employee = example_employee, x_settings = example_settings,
         x_distance = None, x_location_photo = PNone,
         x_client_biometric_photo = PNone, x_checkin_time = 63873566130000000\<rparr>
        example_checked_in = (Next (Success r7), s7)"
    by (simp add: checkin_eval example_checked_in_fields)
  from rc7 have x7: "r_latitude r7 = Some (Finite 500)"
    by (auto simp: checkin_eval example_checked_in_fields)
  from g7 [THEN conjunct2, THEN mp, OF u7, THEN conjunct2, THEN conjunct2, THEN conjunct2,
      THEN conjunct2, rule_format, OF p7 q7 t7 d7 rc7] x7
  have c7: "\<exists>r s'. create_checkin_checkout example_env (example_args\<lparr>log_type := ''OUT'', latitude := PFloat (Finite 500)\<rparr>) example_checked_in = (Success r, s')
          \<and> r_distance_from_branch_meters r = None
          \<and> r_latitude r = Some (Finite 500)"
    by simp

  from c1 c2 c3 c4 c5 c6 c7 show ?thesis by (intro conjI)
qed

end
